(* ===== verification/Prelude.thy ===== *)
theory Prelude
  imports Complex_Main
begin

text \<open>
  Shared vocabulary of the development: the exception taxonomy of the exchange library
  (\<open>./base/errors\<close>, imported at the top of \<open>src/js/poloniexfutures.js\<close>), the result type
  \<open>'a res\<close> in which every \<open>throw\<close> of the adapter is an \<open>Inl\<close> value, the way JavaScript
  prints an absent value when it is concatenated into a string, and the simp collection
  \<open>js_simps\<close> that carries the evaluation rules of the modelled collaborators.
\<close>

named_theorems js_simps "evaluation rules of the modelled JavaScript collaborators"

section \<open>Exceptions as values\<close>

text \<open>
  The error classes thrown by the adapter. \<open>SyntaxError\<close> is the native JavaScript error
  that \<open>BigInt\<close> throws inside \<open>Precise\<close> on a string that is not a decimal number;
  \<open>BadSymbol\<close> is thrown by the base's \<open>market (symbol)\<close> for an unknown symbol;
  \<open>TypeError\<close> is the native error of reading a property of \<open>undefined\<close> or calling a
  method that does not exist.
\<close>

datatype exc =
    BadRequest | ArgumentsRequired | InvalidOrder | AuthenticationError | NotSupported
  | RateLimitExceeded | ExchangeNotAvailable | InvalidNonce | AccountSuspended
  | OrderNotFound | BadSymbol | SyntaxError | TypeError

text \<open>A raised exception: its class and its message.\<close>

type_synonym raised = "exc \<times> string"

type_synonym 'a res = "raised + 'a"

definition throw :: "exc \<Rightarrow> string \<Rightarrow> 'a res" where
  "throw e m = Inl (e, m)"

definition bindR :: "'a res \<Rightarrow> ('a \<Rightarrow> 'b res) \<Rightarrow> 'b res" where
  "bindR m f = (case m of Inl e \<Rightarrow> Inl e | Inr x \<Rightarrow> f x)"

text \<open>The identifier that prefixes every message of the adapter (\<open>this.id\<close>).\<close>

definition exchange_id :: string where
  "exchange_id = ''poloniexfutures''"

section \<open>JavaScript values that may be undefined\<close>

text \<open>
  An optional string concatenated into a string prints as \<open>undefined\<close> when absent, as
  \<open>base + '/' + quote\<close> does in \<open>fetchMarkets\<close>.
\<close>

definition js_str :: "string option \<Rightarrow> string" where
  "js_str s = (case s of None \<Rightarrow> ''undefined'' | Some x \<Rightarrow> x)"

text \<open>A boolean that may be undefined, read as a JavaScript condition.\<close>

definition js_if :: "bool option \<Rightarrow> bool" where
  "js_if b = (b = Some True)"

text \<open>\<open>Array.prototype.join (sep)\<close> on strings.\<close>

fun js_join :: "string \<Rightarrow> string list \<Rightarrow> string" where
  "js_join sep [] = []"
| "js_join sep [x] = x"
| "js_join sep (x # xs) = x @ sep @ js_join sep xs"

text \<open>\<open>for (const x of xs) { ... }\<close> where the body may throw: the results in order, or the first
  exception.\<close>

fun map_res :: "('a \<Rightarrow> 'b res) \<Rightarrow> 'a list \<Rightarrow> 'b list res" where
  "map_res f [] = Inr []"
| "map_res f (x # xs) = bindR (f x) (\<lambda>y. bindR (map_res f xs) (\<lambda>ys. Inr (y # ys)))"

section \<open>Lemmas\<close>

lemma bindR_Inr [simp]: "bindR (Inr x) f = f x"
  by (simp add: bindR_def)

lemma bindR_Inl [simp]: "bindR (Inl e) f = Inl e"
  by (simp add: bindR_def)

lemma bindR_throw [simp]: "bindR (throw e m) f = throw e m"
  by (simp add: bindR_def throw_def)

lemma throw_neq_Inr [simp]: "throw e m \<noteq> Inr x" "Inr x \<noteq> throw e m"
  by (simp_all add: throw_def)

lemma throw_eq_iff [simp]: "(throw e m = throw e' m') \<longleftrightarrow> e = e' \<and> m = m'"
  by (simp add: throw_def)

lemma bindR_eq_Inr_iff:
  "bindR m f = Inr y \<longleftrightarrow> (\<exists>x. m = Inr x \<and> f x = Inr y)"
  by (cases m) auto

lemma bindR_eq_Inl_iff:
  "bindR m f = Inl e \<longleftrightarrow> m = Inl e \<or> (\<exists>x. m = Inr x \<and> f x = Inl e)"
  by (cases m) auto

lemma js_str_simps [simp, js_simps]:
  "js_str None = ''undefined''" "js_str (Some x) = x"
  by (simp_all add: js_str_def)

lemma js_if_simps [simp, js_simps]:
  "js_if None = False" "js_if (Some b) = b"
  by (simp_all add: js_if_def)

lemma map_res_Inr:
  "map_res f xs = Inr ys \<longleftrightarrow> length ys = length xs \<and> (\<forall>i < length xs. f (xs ! i) = Inr (ys ! i))"
proof (induction xs arbitrary: ys)
  case Nil
  then show ?case by auto
next
  case (Cons x xs)
  show ?case
  proof
    assume "map_res f (x # xs) = Inr ys"
    then show "length ys = length (x # xs) \<and> (\<forall>i < length (x # xs). f ((x # xs) ! i) = Inr (ys ! i))"
      using Cons.IH by (auto simp: bindR_eq_Inr_iff nth_Cons split: nat.splits)
  next
    assume r: "length ys = length (x # xs) \<and> (\<forall>i < length (x # xs). f ((x # xs) ! i) = Inr (ys ! i))"
    then obtain y ys' where ys: "ys = y # ys'" by (cases ys) auto
    have "f x = Inr y" using r ys by (metis length_greater_0_conv list.distinct(1) nth_Cons_0)
    moreover have "map_res f xs = Inr ys'"
      using r ys Cons.IH by (auto simp: nth_Cons)
    ultimately show "map_res f (x # xs) = Inr ys" using ys by simp
  qed
qed

lemma map_res_defined: "(\<forall>x\<in>set xs. \<exists>y. f x = Inr y) \<Longrightarrow> \<exists>ys. map_res f xs = Inr ys"
  by (induction xs) auto

lemma map_res_map [simp]: "map_res (\<lambda>x. Inr (g x)) xs = Inr (map g xs)"
  by (induction xs) auto

end
