(* ===== verification/Decimal.thy ===== *)
theory Decimal
  imports Prelude
begin

text \<open>
  The decimal-string arithmetic collaborator (\<open>Precise\<close> of the exchange library, called
  as \<open>Precise.stringAbs\<close>, \<open>stringDiv\<close>, \<open>stringMul\<close>, \<open>stringGt\<close>, \<open>stringLt\<close> in
  \<open>src/js/poloniexfutures.js\<close>). Its source is not in the repository; it is modelled from
  the spec (section 4.5) and the library's documented behaviour: a value is a big integer
  and a count of decimals, \<open>integer / 10 ^ decimals\<close>; division keeps 18 decimals and
  truncates toward zero, as \<open>BigInt\<close> division does; printing strips trailing zeros.
  \<open>pval\<close> maps a value to the rational it denotes: the lemmas of this theory show that
  every operation refines exact rational arithmetic, and that printing and parsing are
  inverse.
\<close>

section \<open>Integer helpers\<close>

text \<open>\<open>BigInt\<close> division truncates toward zero (HOL's \<open>div\<close> rounds toward minus infinity).\<close>

definition tdiv :: "int \<Rightarrow> int \<Rightarrow> int" where
  "tdiv a b = sgn a * sgn b * (\<bar>a\<bar> div \<bar>b\<bar>)"

text \<open>Truncation toward zero of a rational: the reference for \<open>tdiv\<close>.\<close>

definition rtrunc :: "rat \<Rightarrow> int" where
  "rtrunc x = (if 0 \<le> x then \<lfloor>x\<rfloor> else - \<lfloor>- x\<rfloor>)"

section \<open>Values\<close>

record precise =
  integer :: int
  decimals :: int

definition pval :: "precise \<Rightarrow> rat" where
  "pval p = of_int (integer p) * 10 powi (- decimals p)"

section \<open>Parsing: the \<open>Precise\<close> constructor\<close>

definition digit_of :: "char \<Rightarrow> nat option" where
  "digit_of c = (let n = of_char c :: nat in if 48 \<le> n \<and> n \<le> 57 then Some (n - 48) else None)"

fun parse_digits :: "nat \<Rightarrow> string \<Rightarrow> nat option" where
  "parse_digits acc [] = Some acc"
| "parse_digits acc (c # cs) =
     (case digit_of c of None \<Rightarrow> None | Some d \<Rightarrow> parse_digits (10 * acc + d) cs)"

text \<open>\<open>BigInt (s)\<close>: an optional sign and decimal digits; the empty string is \<open>0n\<close>, a lone sign
  throws.\<close>

definition parse_bigint :: "string \<Rightarrow> int option" where
  "parse_bigint s = (case s of
      [] \<Rightarrow> Some 0
    | c # cs \<Rightarrow>
        if c = CHR ''-'' then (if cs = [] then None else map_option (\<lambda>n. - int n) (parse_digits 0 cs))
        else if c = CHR ''+'' then (if cs = [] then None else map_option int (parse_digits 0 cs))
        else map_option int (parse_digits 0 s))"

text \<open>\<open>parseInt (modifier)\<close> of the exponent part: an optional sign and at least one digit.\<close>

definition parse_exponent :: "string \<Rightarrow> int option" where
  "parse_exponent s = (if s = [] \<or> s = ''-'' \<or> s = ''+'' then None else parse_bigint s)"

definition js_lower :: "char \<Rightarrow> char" where
  "js_lower c = (if c = CHR ''E'' then CHR ''e'' else c)"

text \<open>Removal of the first \<open>'.'\<close>, as \<open>number.replace ('.', '')\<close> does.\<close>

fun remove_first :: "char \<Rightarrow> string \<Rightarrow> string" where
  "remove_first x [] = []"
| "remove_first x (c # cs) = (if c = x then cs else c # remove_first x cs)"

definition index_of :: "char \<Rightarrow> string \<Rightarrow> nat option" where
  "index_of x s = (if x \<in> set s then Some (length (takeWhile (\<lambda>c. c \<noteq> x) s)) else None)"

text \<open>
  \<open>new Precise (string)\<close>: lower-case, split off the exponent at the first \<open>e\<close>, count the
  digits after the first \<open>'.'\<close>, and read the rest as a \<open>BigInt\<close>. \<open>None\<close> is the
  \<open>SyntaxError\<close> that \<open>BigInt\<close> throws.
\<close>

definition precise_of_string :: "string \<Rightarrow> precise option" where
  "precise_of_string s0 =
    (let s = map js_lower s0;
         number = takeWhile (\<lambda>c. c \<noteq> CHR ''e'') s;
         modifier = (if CHR ''e'' \<in> set s
                     then parse_exponent (takeWhile (\<lambda>c. c \<noteq> CHR ''e'') (tl (dropWhile (\<lambda>c. c \<noteq> CHR ''e'') s)))
                     else Some 0);
         decs = (case index_of CHR ''.'' number of None \<Rightarrow> 0 | Some i \<Rightarrow> length number - i - 1)
     in case modifier of
          None \<Rightarrow> None
        | Some m \<Rightarrow> map_option (\<lambda>n. \<lparr>integer = n, decimals = int decs - m\<rparr>)
                                  (parse_bigint (remove_first CHR ''.'' number)))"

section \<open>Printing: \<open>reduce\<close> and \<open>toString\<close>\<close>

text \<open>\<open>reduce\<close> strips the trailing zeros of the integer, lowering the decimals (which may become
  negative); zero gets zero decimals.\<close>

function strip_zeros :: "int \<Rightarrow> int \<Rightarrow> int \<times> int" where
  "strip_zeros i d = (if i \<noteq> 0 \<and> i mod 10 = 0 then strip_zeros (i div 10) (d - 1) else (i, d))"
  by pat_completeness auto
termination
proof (relation "measure (\<lambda>(i, d). nat \<bar>i\<bar>)")
  fix i d :: int
  assume g: "i \<noteq> 0 \<and> i mod 10 = 0"
  then have i: "i = 10 * (i div 10)" using div_mult_mod_eq [of i 10] by simp
  then have "i div 10 \<noteq> 0" using g by auto
  moreover have "\<bar>i\<bar> = 10 * \<bar>i div 10\<bar>" by (subst i) (simp add: abs_mult)
  ultimately show "((i div 10, d - 1), i, d) \<in> measure (\<lambda>(i, d). nat \<bar>i\<bar>)" by simp
qed simp

definition reduce :: "precise \<Rightarrow> precise" where
  "reduce p = (if integer p = 0 then p\<lparr>decimals := 0\<rparr>
               else let (i, d) = strip_zeros (integer p) (decimals p) in \<lparr>integer = i, decimals = d\<rparr>)"

definition digit_char :: "nat \<Rightarrow> char" where
  "digit_char n = ''0123456789'' ! n"

fun nat_digits :: "nat \<Rightarrow> string" where
  "nat_digits n = (if n < 10 then [digit_char n] else nat_digits (n div 10) @ [digit_char (n mod 10)])"

text \<open>
  \<open>toString\<close>: the digits of the magnitude, left-padded with zeros to \<open>decimals\<close>, with a point
  inserted \<open>decimals\<close> places from the right, \<open>0.\<close> in front when no integer digit is left,
  and zeros appended when the decimals are negative.
\<close>

text \<open>The sign of a printed number, and the characters of its digits.\<close>

definition sgn_prefix :: "bool \<Rightarrow> string" where
  "sgn_prefix neg = (if neg then ''-'' else '''')"

abbreviation digits :: "char set" where
  "digits \<equiv> set ''0123456789''"

definition render :: "precise \<Rightarrow> string" where
  "render p =
    (let sign = sgn_prefix (integer p < 0);
         ds = nat_digits (nat \<bar>integer p\<bar>);
         padded = replicate (nat (decimals p) - length ds) CHR ''0'' @ ds;
         index = int (length padded) - decimals p
     in if index = 0 then sign @ ''0.'' @ padded
        else if decimals p < 0 then sign @ padded @ replicate (nat (- decimals p)) CHR ''0''
        else if decimals p = 0 then sign @ padded
        else sign @ take (nat index) padded @ ''.'' @ drop (nat index) padded)"

definition precise_to_string :: "precise \<Rightarrow> string" where
  "precise_to_string p = render (reduce p)"

section \<open>Arithmetic\<close>

definition precise_mul :: "precise \<Rightarrow> precise \<Rightarrow> precise" where
  "precise_mul a b = \<lparr>integer = integer a * integer b, decimals = decimals a + decimals b\<rparr>"

definition precise_div :: "precise \<Rightarrow> precise \<Rightarrow> int \<Rightarrow> precise" where
  "precise_div a b precision =
    (let distance = precision - decimals a + decimals b;
         numerator = (if distance = 0 then integer a
                      else if distance < 0 then tdiv (integer a) (10 ^ nat (- distance))
                      else integer a * 10 ^ nat distance)
     in \<lparr>integer = tdiv numerator (integer b), decimals = precision\<rparr>)"

definition precise_add :: "precise \<Rightarrow> precise \<Rightarrow> precise" where
  "precise_add a b =
    (if decimals a = decimals b then \<lparr>integer = integer a + integer b, decimals = decimals a\<rparr>
     else let (smaller, bigger) = (if decimals a > decimals b then (b, a) else (a, b));
              exponent = decimals bigger - decimals smaller;
              normalised = integer smaller * 10 ^ nat exponent
          in \<lparr>integer = normalised + integer bigger, decimals = decimals bigger\<rparr>)"

definition precise_neg :: "precise \<Rightarrow> precise" where
  "precise_neg a = a\<lparr>integer := - integer a\<rparr>"

definition precise_sub :: "precise \<Rightarrow> precise \<Rightarrow> precise" where
  "precise_sub a b = precise_add a (precise_neg b)"

definition precise_abs :: "precise \<Rightarrow> precise" where
  "precise_abs a = a\<lparr>integer := \<bar>integer a\<bar>\<rparr>"

definition precise_gt :: "precise \<Rightarrow> precise \<Rightarrow> bool" where
  "precise_gt a b = (integer (precise_sub a b) > 0)"

definition precise_lt :: "precise \<Rightarrow> precise \<Rightarrow> bool" where
  "precise_lt a b = precise_gt b a"

section \<open>The string operations used by the adapter\<close>

text \<open>Constructing a \<open>Precise\<close> from a string that is not a number throws.\<close>

definition parse_precise :: "string \<Rightarrow> precise res" where
  "parse_precise s = (case precise_of_string s of
      None \<Rightarrow> throw SyntaxError (''Cannot convert '' @ s @ '' to a BigInt'')
    | Some p \<Rightarrow> Inr p)"

definition string_mul :: "string option \<Rightarrow> string option \<Rightarrow> string option res" where
  "string_mul s1 s2 = (case (s1, s2) of
      (Some a, Some b) \<Rightarrow> bindR (parse_precise a) (\<lambda>pa. bindR (parse_precise b) (\<lambda>pb.
                            Inr (Some (precise_to_string (precise_mul pa pb)))))
    | _ \<Rightarrow> Inr None)"

text \<open>\<open>stringDiv\<close> parses the divisor first and answers \<open>undefined\<close> for a zero divisor
  before it looks at the dividend.\<close>

definition string_div :: "string option \<Rightarrow> string option \<Rightarrow> string option res" where
  "string_div s1 s2 = (case (s1, s2) of
      (Some a, Some b) \<Rightarrow> bindR (parse_precise b) (\<lambda>pb.
                            if integer pb = 0 then Inr None
                            else bindR (parse_precise a) (\<lambda>pa.
                              Inr (Some (precise_to_string (precise_div pa pb 18)))))
    | _ \<Rightarrow> Inr None)"

definition string_abs :: "string option \<Rightarrow> string option res" where
  "string_abs s = (case s of
      None \<Rightarrow> Inr None
    | Some a \<Rightarrow> bindR (parse_precise a) (\<lambda>pa. Inr (Some (precise_to_string (precise_abs pa)))))"

definition string_gt :: "string option \<Rightarrow> string option \<Rightarrow> bool option res" where
  "string_gt s1 s2 = (case (s1, s2) of
      (Some a, Some b) \<Rightarrow> bindR (parse_precise a) (\<lambda>pa. bindR (parse_precise b) (\<lambda>pb.
                            Inr (Some (precise_gt pa pb))))
    | _ \<Rightarrow> Inr None)"

definition string_lt :: "string option \<Rightarrow> string option \<Rightarrow> bool option res" where
  "string_lt s1 s2 = (case (s1, s2) of
      (Some a, Some b) \<Rightarrow> bindR (parse_precise a) (\<lambda>pa. bindR (parse_precise b) (\<lambda>pb.
                            Inr (Some (precise_lt pa pb))))
    | _ \<Rightarrow> Inr None)"

text \<open>The rational number a decimal string denotes, if it is one.\<close>

definition str_val :: "string \<Rightarrow> rat option" where
  "str_val s = map_option pval (precise_of_string s)"

text \<open>A field that is absent or a decimal string: the operations of \<open>Precise\<close> then
  do not raise.\<close>

definition is_decimal :: "string option \<Rightarrow> bool" where
  "is_decimal x = (case x of None \<Rightarrow> True | Some s \<Rightarrow> str_val s \<noteq> None)"

section \<open>Lemmas: the operations refine rational arithmetic\<close>

declare strip_zeros.simps [simp del] nat_digits.simps [simp del]

subsection \<open>Truncating division\<close>

lemma tdiv_nonneg: "0 \<le> a \<Longrightarrow> 0 < b \<Longrightarrow> tdiv a b = a div b"
  by (cases "a = 0") (simp_all add: tdiv_def)

lemma tdiv_rtrunc: "b \<noteq> 0 \<Longrightarrow> tdiv a b = rtrunc (of_int a / of_int b)"
proof -
  assume b: "b \<noteq> 0"
  have fl: "\<lfloor>(of_int \<bar>a\<bar> / of_int \<bar>b\<bar> :: rat)\<rfloor> = \<bar>a\<bar> div \<bar>b\<bar>"
    by (rule floor_divide_of_int_eq)
  show ?thesis
  proof (cases "a = 0")
    case True
    then show ?thesis by (simp add: tdiv_def rtrunc_def)
  next
    case a: False
    have pos: "(0::rat) < of_int \<bar>a\<bar> / of_int \<bar>b\<bar>" using a b by simp
    show ?thesis
    proof (cases "sgn a * sgn b = 1")
      case True
      then have "(of_int a / of_int b :: rat) = of_int \<bar>a\<bar> / of_int \<bar>b\<bar>"
        by (auto simp: sgn_if split: if_splits)
      with True pos fl show ?thesis by (simp add: tdiv_def rtrunc_def)
    next
      case False
      then have s: "sgn a * sgn b = -1" using a b by (auto simp: sgn_if split: if_splits)
      then have "(of_int a / of_int b :: rat) = - (of_int \<bar>a\<bar> / of_int \<bar>b\<bar>)"
        by (auto simp: sgn_if split: if_splits)
      with s pos fl show ?thesis by (simp add: tdiv_def rtrunc_def)
    qed
  qed
qed

lemma tdiv_zero_left [simp]: "tdiv 0 b = 0"
  by (simp add: tdiv_def)

lemma tdiv_unfold_pos: "0 < m \<Longrightarrow> tdiv a (m * b) = sgn a * sgn b * (\<bar>a\<bar> div (m * \<bar>b\<bar>))"
  by (simp add: tdiv_def sgn_mult abs_mult)

lemma tdiv_tdiv: "0 < m \<Longrightarrow> tdiv (tdiv a m) b = tdiv a (m * b)"
proof -
  assume m: "0 < m"
  have abs_q: "\<bar>tdiv a m\<bar> = \<bar>a\<bar> div m"
    using m by (cases "a = 0") (simp_all add: tdiv_def abs_mult abs_sgn_eq pos_imp_zdiv_nonneg_iff)
  have nest: "\<bar>a\<bar> div m div \<bar>b\<bar> = \<bar>a\<bar> div (m * \<bar>b\<bar>)"
    using m by (simp add: zdiv_zmult2_eq)
  have rhs: "tdiv a (m * b) = sgn a * sgn b * (\<bar>a\<bar> div m div \<bar>b\<bar>)"
    using m nest by (simp add: tdiv_unfold_pos)
  show ?thesis
  proof (cases "\<bar>a\<bar> div m = 0")
    case True
    then have "tdiv a m = 0" using abs_q by simp
    with True rhs show ?thesis by simp
  next
    case False
    have "0 \<le> \<bar>a\<bar> div m" using m by (simp add: pos_imp_zdiv_nonneg_iff)
    with False have "0 < \<bar>a\<bar> div m" by linarith
    then have "sgn (tdiv a m) = sgn a"
      using m by (simp add: tdiv_def sgn_mult)
    then have "tdiv (tdiv a m) b = sgn a * sgn b * (\<bar>a\<bar> div m div \<bar>b\<bar>)"
      using abs_q by (simp add: tdiv_def)
    with rhs show ?thesis by simp
  qed
qed

subsection \<open>Values\<close>

lemma powi10_pos [simp]: "0 < (10::rat) powi d"
  by simp

lemma powi10_add: "(10::rat) powi (a + b) = 10 powi a * 10 powi b"
  by (simp add: power_int_add)

lemma pval_mul: "pval (precise_mul a b) = pval a * pval b"
  using powi10_add [of "- decimals a" "- decimals b"]
  by (simp add: pval_def precise_mul_def algebra_simps)

lemma pval_neg: "pval (precise_neg a) = - pval a"
  by (simp add: pval_def precise_neg_def)

lemma pval_abs: "pval (precise_abs a) = \<bar>pval a\<bar>"
  by (simp add: pval_def precise_abs_def abs_mult)

lemma powi10_nat_diff: "d \<le> e \<Longrightarrow> (10::rat) ^ nat (e - d) * 10 powi (- e) = 10 powi (- d)"
proof -
  assume "d \<le> e"
  then have "(10::rat) ^ nat (e - d) = 10 powi (e - d)" by (simp add: power_int_def)
  then show ?thesis by (simp flip: powi10_add)
qed

lemma pval_add: "pval (precise_add a b) = pval a + pval b"
proof (cases "decimals a = decimals b")
  case True
  then show ?thesis by (simp add: precise_add_def pval_def algebra_simps)
next
  case False
  show ?thesis
  proof (cases "decimals a > decimals b")
    case True
    have "of_int (integer b * 10 ^ nat (decimals a - decimals b)) * (10::rat) powi (- decimals a)
          = of_int (integer b) * 10 powi (- decimals b)"
      using True by (simp add: mult.assoc powi10_nat_diff)
    with True False show ?thesis by (simp add: precise_add_def pval_def algebra_simps)
  next
    case gt: False
    with False have lt: "decimals a < decimals b" by simp
    have "of_int (integer a * 10 ^ nat (decimals b - decimals a)) * (10::rat) powi (- decimals b)
          = of_int (integer a) * 10 powi (- decimals a)"
      using lt by (simp add: mult.assoc powi10_nat_diff)
    with lt gt False show ?thesis by (simp add: precise_add_def pval_def algebra_simps)
  qed
qed

lemma pval_sub: "pval (precise_sub a b) = pval a - pval b"
  by (simp add: precise_sub_def pval_add pval_neg)

lemma pval_pos_iff: "0 < pval p \<longleftrightarrow> 0 < integer p"
proof -
  have "0 < (10::rat) powi (- decimals p)" by simp
  then have "\<not> (10::rat) powi (- decimals p) < 0" by linarith
  then show ?thesis by (simp add: pval_def zero_less_mult_iff)
qed

lemma precise_gt_iff: "precise_gt a b \<longleftrightarrow> pval b < pval a"
  by (simp add: precise_gt_def pval_pos_iff [symmetric] pval_sub)

lemma precise_lt_iff: "precise_lt a b \<longleftrightarrow> pval a < pval b"
  by (simp add: precise_lt_def precise_gt_iff)

subsection \<open>Division keeps 18 decimals, truncated toward zero\<close>

lemma powi10_diff: "(10::rat) powi (- x) / 10 powi (- y) * 10 powi p = 10 powi (p - x + y)"
proof -
  have "(10::rat) powi (p - x + y) = 10 powi p * 10 powi (- x) * 10 powi y"
    using power_int_add [of "10::rat" "p + - x" y] power_int_add [of "10::rat" p "- x"] by simp
  moreover have "(10::rat) powi (- y) = inverse (10 powi y)" by (simp add: power_int_minus)
  ultimately show ?thesis by (simp add: field_simps)
qed

lemma pval_quotient:
  "integer b \<noteq> 0 \<Longrightarrow> pval a / pval b * 10 powi p
     = of_int (integer a) / of_int (integer b) * 10 powi (p - decimals a + decimals b)"
  by (simp add: pval_def flip: powi10_diff)

theorem precise_div_trunc:
  assumes b: "integer b \<noteq> 0"
  shows "precise_div a b p = \<lparr>integer = rtrunc (pval a / pval b * 10 powi p), decimals = p\<rparr>"
proof -
  define dist where "dist = p - decimals a + decimals b"
  have q: "pval a / pval b * 10 powi p = of_int (integer a) / of_int (integer b) * 10 powi dist"
    unfolding dist_def by (rule pval_quotient [OF b])
  have "tdiv (if dist = 0 then integer a
              else if dist < 0 then tdiv (integer a) (10 ^ nat (- dist))
              else integer a * 10 ^ nat dist) (integer b)
        = rtrunc (of_int (integer a) / of_int (integer b) * 10 powi dist)"
  proof (cases "dist < 0")
    case True
    have pos: "(0::int) < 10 ^ nat (- dist)" by simp
    have e: "(10::rat) powi dist = 1 / of_int (10 ^ nat (- dist))"
      using True by (simp add: power_int_def power_one_over)
    have "of_int (integer a) / of_int (integer b) * (10::rat) powi dist
               = of_int (integer a) / of_int (10 ^ nat (- dist) * integer b)"
      unfolding e by (simp add: field_simps)
    moreover have "tdiv (tdiv (integer a) (10 ^ nat (- dist))) (integer b)
                   = tdiv (integer a) (10 ^ nat (- dist) * integer b)"
      using pos by (rule tdiv_tdiv)
    moreover have "tdiv (integer a) (10 ^ nat (- dist) * integer b)
                   = rtrunc (of_int (integer a) / of_int (10 ^ nat (- dist) * integer b))"
      using b by (simp add: tdiv_rtrunc del: of_int_mult of_int_power)
    ultimately show ?thesis using True by simp
  next
    case False
    then have e: "(10::rat) powi dist = of_int (10 ^ nat dist)"
      by (simp add: power_int_def)
    have "of_int (integer a) / of_int (integer b) * (10::rat) powi dist
               = of_int (integer a * 10 ^ nat dist) / of_int (integer b)"
      unfolding e by (simp add: field_simps)
    with False b show ?thesis
      by (auto simp: tdiv_rtrunc)
  qed
  then show ?thesis
    unfolding precise_div_def Let_def dist_def [symmetric] q by simp
qed

subsection \<open>Printing and parsing are inverse\<close>

lemma parse_digits_append:
  "parse_digits acc (xs @ ys) = Option.bind (parse_digits acc xs) (\<lambda>a. parse_digits a ys)"
  by (induction acc xs rule: parse_digits.induct) (auto split: option.splits)

lemma digit_of_digit_char: "n < 10 \<Longrightarrow> digit_of (digit_char n) = Some n"
proof -
  assume "n < 10"
  then have "n \<in> {0, 1, 2, 3, 4, 5, 6, 7, 8, 9}" by auto
  then show ?thesis by (auto simp: digit_of_def digit_char_def)
qed

lemma parse_digits_nat_digits: "parse_digits acc (nat_digits n) = Some (acc * 10 ^ length (nat_digits n) + n)"
proof (induction n arbitrary: acc rule: nat_digits.induct)
  case (1 n)
  show ?case
  proof (cases "n < 10")
    case True
    then show ?thesis by (simp add: nat_digits.simps digit_of_digit_char)
  next
    case False
    have "parse_digits acc (nat_digits n)
          = Option.bind (parse_digits acc (nat_digits (n div 10))) (\<lambda>a. parse_digits a [digit_char (n mod 10)])"
      using False by (simp add: nat_digits.simps [of n] parse_digits_append)
    also have "\<dots> = Some ((acc * 10 ^ length (nat_digits (n div 10)) + n div 10) * 10 + n mod 10)"
      using False "1.IH" by (simp add: digit_of_digit_char)
    also have "\<dots> = Some (acc * 10 ^ length (nat_digits n) + n)"
      using False by (simp add: nat_digits.simps [of n] algebra_simps)
    finally show ?thesis .
  qed
qed

lemma parse_digits_zeros: "parse_digits acc (replicate k CHR ''0'') = Some (acc * 10 ^ k)"
  by (induction k arbitrary: acc) (simp_all add: digit_of_def replicate_append_same [symmetric] del: replicate_Suc, simp add: parse_digits_append digit_of_def)

lemma nat_digits_chars: "set (nat_digits n) \<subseteq> set ''0123456789''"
proof (induction n rule: nat_digits.induct)
  case (1 n)
  have d: "m < 10 \<Longrightarrow> digit_char m \<in> set ''0123456789''" for m
    by (simp add: digit_char_def nth_mem del: set_simps)
  show ?case
    using "1.IH" d by (cases "n < 10") (auto simp: nat_digits.simps [of n])
qed

lemma nat_digits_nonempty: "nat_digits n \<noteq> []"
  by (subst nat_digits.simps) simp

lemma parse_digits_total: "set t \<subseteq> digits \<Longrightarrow> \<exists>v. parse_digits acc t = Some v"
proof (induction t arbitrary: acc)
  case Nil
  then show ?case by simp
next
  case (Cons c t)
  then have "c \<in> digits" by simp
  then obtain d where "digit_of c = Some d" by (auto simp: digit_of_def)
  with Cons show ?case by simp
qed

lemma js_lower_id: "CHR ''E'' \<notin> set s \<Longrightarrow> map js_lower s = s"
  by (induction s) (auto simp: js_lower_def)

lemma index_of_append: "x \<notin> set a \<Longrightarrow> index_of x (a @ x # b) = Some (length a)"
  by (simp add: index_of_def takeWhile_append takeWhile_tail)

lemma index_of_none: "x \<notin> set a \<Longrightarrow> index_of x a = None"
  by (simp add: index_of_def)

lemma remove_first_append: "x \<notin> set a \<Longrightarrow> remove_first x (a @ x # b) = a @ b"
  by (induction a) auto

lemma remove_first_none: "x \<notin> set a \<Longrightarrow> remove_first x a = a"
  by (induction a) auto

lemma parse_bigint_digits:
  assumes "set t \<subseteq> digits" "t \<noteq> []" "parse_digits 0 t = Some v"
  shows "parse_bigint t = Some (int v)" "parse_bigint (CHR ''-'' # t) = Some (- int v)"
proof -
  obtain c cs where t: "t = c # cs" using assms(2) by (cases t) auto
  with assms(1) have "c \<noteq> CHR ''-''" "c \<noteq> CHR ''+''" by auto
  with assms t show "parse_bigint t = Some (int v)" by (simp add: parse_bigint_def)
  from assms show "parse_bigint (CHR ''-'' # t) = Some (- int v)" by (simp add: parse_bigint_def)
qed


lemma precise_of_string_clean:
  assumes "CHR ''E'' \<notin> set s" "CHR ''e'' \<notin> set s"
  shows "precise_of_string s =
           map_option (\<lambda>n. \<lparr>integer = n, decimals =
                 int (case index_of CHR ''.'' s of None \<Rightarrow> 0 | Some i \<Rightarrow> length s - i - 1)\<rparr>)
             (parse_bigint (remove_first CHR ''.'' s))"
proof -
  have l: "map js_lower s = s" using assms(1) by (rule js_lower_id)
  have t: "takeWhile (\<lambda>c. c \<noteq> CHR ''e'') s = s" using assms(2) by (auto simp: takeWhile_eq_all_conv)
  have m0: "(if CHR ''e'' \<in> set s then parse_exponent (takeWhile (\<lambda>c. c \<noteq> CHR ''e'') (tl (dropWhile (\<lambda>c. c \<noteq> CHR ''e'') s)))
        else Some 0) = Some 0" using assms(2) by simp
  show ?thesis unfolding precise_of_string_def Let_def l t m0 by simp
qed

lemma not_in_digits: "set a \<subseteq> digits \<Longrightarrow> c \<notin> digits \<Longrightarrow> c \<notin> set a"
  by blast

lemma precise_of_string_plain:
  assumes "set t \<subseteq> digits" "t \<noteq> []" "parse_digits 0 t = Some v"
  shows "precise_of_string (sgn_prefix neg @ t)
           = Some \<lparr>integer = (if neg then - int v else int v), decimals = 0\<rparr>"
proof -
  let ?s = "sgn_prefix neg @ t"
  have "CHR ''E'' \<notin> set t" "CHR ''e'' \<notin> set t" "CHR ''.'' \<notin> set t"
    using not_in_digits [OF assms(1)] by simp_all
  then have E: "CHR ''E'' \<notin> set ?s" and e: "CHR ''e'' \<notin> set ?s" and d: "CHR ''.'' \<notin> set ?s"
    by (simp_all add: sgn_prefix_def)
  have idx: "index_of CHR ''.'' ?s = None" using d by (rule index_of_none)
  have rem: "remove_first CHR ''.'' ?s = ?s" using d by (rule remove_first_none)
  have pb: "parse_bigint ?s = Some (if neg then - int v else int v)"
    using parse_bigint_digits [OF assms] by (simp add: sgn_prefix_def)
  show ?thesis unfolding precise_of_string_clean [OF E e] idx rem pb by simp
qed

lemma precise_of_string_dotted:
  assumes "set a \<subseteq> digits" "set b \<subseteq> digits" "a \<noteq> []" "parse_digits 0 (a @ b) = Some v"
  shows "precise_of_string (sgn_prefix neg @ a @ CHR ''.'' # b)
           = Some \<lparr>integer = (if neg then - int v else int v), decimals = int (length b)\<rparr>"
proof -
  let ?s = "sgn_prefix neg @ a @ CHR ''.'' # b"
  have "CHR ''E'' \<notin> set a" "CHR ''e'' \<notin> set a" "CHR ''.'' \<notin> set a"
    using not_in_digits [OF assms(1)] by simp_all
  moreover have "CHR ''E'' \<notin> set b" "CHR ''e'' \<notin> set b"
    using not_in_digits [OF assms(2)] by simp_all
  ultimately have E: "CHR ''E'' \<notin> set ?s" and e: "CHR ''e'' \<notin> set ?s"
    and nd: "CHR ''.'' \<notin> set (sgn_prefix neg @ a)"
    by (simp_all add: sgn_prefix_def)
  have idx: "index_of CHR ''.'' ?s = Some (length (sgn_prefix neg @ a))"
    using index_of_append [OF nd, of b] by simp
  have rem: "remove_first CHR ''.'' ?s = sgn_prefix neg @ a @ b"
    using remove_first_append [OF nd, of b] by simp
  have "set (a @ b) \<subseteq> digits" "a @ b \<noteq> []" using assms by auto
  then have pb: "parse_bigint (sgn_prefix neg @ a @ b) = Some (if neg then - int v else int v)"
    using parse_bigint_digits [OF _ _ assms(4)] by (simp add: sgn_prefix_def)
  have len: "length ?s - length (sgn_prefix neg @ a) - 1 = length b" by simp
  show ?thesis unfolding precise_of_string_clean [OF E e] idx rem pb option.case len by simp
qed

lemma strip_zeros_pval:
  "strip_zeros i d = (i', d') \<Longrightarrow> rat_of_int i' * 10 powi (- d') = rat_of_int i * 10 powi (- d)"
proof (induction i d arbitrary: i' d' rule: strip_zeros.induct)
  case (1 i d)
  show ?case
  proof (cases "i \<noteq> 0 \<and> i mod 10 = 0")
    case True
    with "1.prems" have "strip_zeros (i div 10) (d - 1) = (i', d')"
      by (simp add: strip_zeros.simps [of i d])
    then have "rat_of_int i' * 10 powi (- d') = rat_of_int (i div 10) * 10 powi (- (d - 1))"
      by (rule "1.IH" [OF True])
    also have "\<dots> = rat_of_int (i div 10) * 10 * 10 powi (- d)"
      using powi10_add [of 1 "- d"] by simp
    also have "\<dots> = rat_of_int i * 10 powi (- d)"
      using True div_mult_mod_eq [of i 10] by (simp flip: of_int_mult)
    finally show ?thesis .
  next
    case False
    with "1.prems" show ?thesis by (simp add: strip_zeros.simps [of i d])
  qed
qed

lemma pval_reduce: "pval (reduce p) = pval p"
  by (cases "strip_zeros (integer p) (decimals p)")
     (auto simp: reduce_def pval_def dest: strip_zeros_pval)

lemma digits_nat_digits: "set (nat_digits n) \<subseteq> digits"
  by (rule nat_digits_chars)

lemma digits_zeros: "set (replicate k CHR ''0'') \<subseteq> digits"
  by (cases k) auto

lemma parse_zeros_then: "parse_digits 0 (replicate k CHR ''0'' @ ds) = parse_digits 0 ds"
  by (simp add: parse_digits_append parse_digits_zeros)

lemma sign_value: "(if i < 0 then - int (nat \<bar>i\<bar>) else int (nat \<bar>i\<bar>)) = (i::int)"
  by simp

theorem render_roundtrip: "\<exists>q. precise_of_string (render p) = Some q \<and> pval q = pval p"
proof -
  define i where "i = integer p"
  define d where "d = decimals p"
  define n where "n = nat \<bar>i\<bar>"
  define ds where "ds = nat_digits n"
  define P where "P = replicate (nat d - length ds) CHR ''0'' @ ds"
  define idx where "idx = int (length P) - d"
  have ds_val: "parse_digits 0 ds = Some n" using parse_digits_nat_digits [of 0 n] by (simp add: ds_def)
  have P_val: "parse_digits 0 P = Some n" by (simp add: P_def parse_zeros_then ds_val)
  have P_dig: "set P \<subseteq> digits" using digits_zeros digits_nat_digits by (auto simp: P_def ds_def)
  have ds_ne: "ds \<noteq> []" by (simp add: ds_def nat_digits_nonempty)
  have P_ne: "P \<noteq> []" using ds_ne by (simp add: P_def)
  have r: "render p = (if idx = 0 then sgn_prefix (i < 0) @ ''0.'' @ P
        else if d < 0 then sgn_prefix (i < 0) @ P @ replicate (nat (- d)) CHR ''0''
        else if d = 0 then sgn_prefix (i < 0) @ P
        else sgn_prefix (i < 0) @ take (nat idx) P @ ''.'' @ drop (nat idx) P)"
    by (simp only: render_def Let_def i_def d_def n_def ds_def P_def idx_def)
  have pv: "pval p = of_int i * 10 powi (- d)" by (simp add: pval_def i_def d_def)
  show ?thesis
  proof (cases "idx = 0")
    case True
    then have len: "int (length P) = d" by (simp add: idx_def)
    have "parse_digits 0 (''0'' @ P) = Some n" using P_val by (simp add: digit_of_def)
    then have "precise_of_string (sgn_prefix (i < 0) @ ''0'' @ CHR ''.'' # P)
               = Some \<lparr>integer = i, decimals = d\<rparr>"
      using precise_of_string_dotted [of "''0''" P n "i < 0"] P_dig len by (simp add: n_def)
    with True r pv show ?thesis by (simp add: pval_def)
  next
    case nz: False
    show ?thesis
    proof (cases "d < 0")
      case True
      then have P: "P = ds" by (simp add: P_def)
      have "parse_digits 0 (ds @ replicate (nat (- d)) CHR ''0'') = Some (n * 10 ^ nat (- d))"
        using ds_val by (simp add: parse_digits_append parse_digits_zeros)
      moreover have "set (ds @ replicate (nat (- d)) CHR ''0'') \<subseteq> digits"
        using digits_zeros digits_nat_digits by (auto simp: ds_def)
      ultimately have "precise_of_string (sgn_prefix (i < 0) @ ds @ replicate (nat (- d)) CHR ''0'')
          = Some \<lparr>integer = (if i < 0 then - int (n * 10 ^ nat (- d)) else int (n * 10 ^ nat (- d))),
                  decimals = 0\<rparr>"
        using precise_of_string_plain ds_ne by simp
      moreover have "(10::rat) powi (- d) = 10 ^ nat (- d)" using True by (simp add: power_int_def)
      ultimately show ?thesis using nz True r pv P
        by (auto simp: pval_def n_def)
    next
      case nn: False
      show ?thesis
      proof (cases "d = 0")
        case True
        have "precise_of_string (sgn_prefix (i < 0) @ P) = Some \<lparr>integer = i, decimals = 0\<rparr>"
          using precise_of_string_plain [OF P_dig P_ne P_val, of "i < 0"] by (simp add: n_def)
        with nz nn True r pv show ?thesis by (simp add: pval_def)
      next
        case pos: False
        then have dpos: "0 < d" using nn by simp
        have "int (length P) \<ge> d" using dpos by (simp add: P_def)
        with nz have ipos: "0 < idx" by (simp add: idx_def)
        have ane: "take (nat idx) P \<noteq> []" using ipos P_ne by simp
        have lenb: "int (length (drop (nat idx) P)) = d" using ipos dpos unfolding idx_def by simp
        have dig_a: "set (take (nat idx) P) \<subseteq> digits" using P_dig by (meson set_take_subset subset_trans)
        have dig_b: "set (drop (nat idx) P) \<subseteq> digits" using P_dig by (meson set_drop_subset subset_trans)
        have "parse_digits 0 (take (nat idx) P @ drop (nat idx) P) = Some n" using P_val by simp
        then have "precise_of_string (sgn_prefix (i < 0) @ take (nat idx) P @ CHR ''.'' # drop (nat idx) P)
                   = Some \<lparr>integer = i, decimals = d\<rparr>"
          using precise_of_string_dotted [OF dig_a dig_b ane, of n "i < 0"] lenb by (simp add: n_def)
        with nz nn pos r pv show ?thesis by (simp add: pval_def)
      qed
    qed
  qed
qed

theorem precise_roundtrip: "\<exists>q. precise_of_string (precise_to_string p) = Some q \<and> pval q = pval p"
  using render_roundtrip [of "reduce p"] by (simp add: precise_to_string_def pval_reduce)

subsection \<open>The string operations\<close>

lemma parse_precise_Inr [simp]: "parse_precise s = Inr p \<longleftrightarrow> precise_of_string s = Some p"
  by (auto simp: parse_precise_def throw_def split: option.splits)

lemma parse_precise_Some: "precise_of_string s = Some p \<Longrightarrow> parse_precise s = Inr p"
  by simp

lemma string_abs_Some:
  "string_abs (Some a) = Inr r \<longleftrightarrow> (\<exists>p. precise_of_string a = Some p \<and> r = Some (precise_to_string (precise_abs p)))"
  by (cases "precise_of_string a") (auto simp: string_abs_def parse_precise_def throw_def)

lemma string_abs_value:
  assumes "string_abs (Some a) = Inr r" "precise_of_string a = Some p"
  shows "\<exists>c q. r = Some c \<and> precise_of_string c = Some q \<and> pval q = \<bar>pval p\<bar>"
  using assms precise_roundtrip [of "precise_abs p"] by (auto simp: string_abs_Some pval_abs)


subsection \<open>The string operations on the values they denote\<close>

lemma str_val_to_string [simp]: "str_val (precise_to_string p) = Some (pval p)"
  using precise_roundtrip [of p] by (auto simp: str_val_def)

lemma str_val_Some: "str_val s = Some x \<longleftrightarrow> (\<exists>p. precise_of_string s = Some p \<and> pval p = x)"
  by (auto simp: str_val_def)

lemma pval_zero_iff: "pval p = 0 \<longleftrightarrow> integer p = 0"
  by (simp add: pval_def powi10_pos [THEN less_imp_neq, symmetric])

lemma pval_rec: "pval \<lparr>integer = n, decimals = d\<rparr> = of_int n * 10 powi (- d)"
  by (simp add: pval_def)

lemma string_mul_value:
  assumes "str_val a = Some x" "str_val b = Some y"
  shows "\<exists>c. string_mul (Some a) (Some b) = Inr (Some c) \<and> str_val c = Some (x * y)"
proof -
  obtain pa pb where "precise_of_string a = Some pa" "pval pa = x" "precise_of_string b = Some pb" "pval pb = y"
    using assms by (auto simp: str_val_Some)
  then show ?thesis by (simp add: string_mul_def parse_precise_Some pval_mul)
qed

lemma string_div_zero:
  assumes "str_val b = Some 0"
  shows "string_div (Some a) (Some b) = Inr None"
  using assms by (auto simp: str_val_Some string_div_def pval_zero_iff parse_precise_Some)

lemma string_div_value:
  assumes "str_val a = Some x" "str_val b = Some y" "y \<noteq> 0"
  shows "\<exists>c. string_div (Some a) (Some b) = Inr (Some c)
             \<and> str_val c = Some (of_int (rtrunc (x / y * 10 ^ 18)) / 10 ^ 18)"
proof -
  obtain pa pb where a: "precise_of_string a = Some pa" "pval pa = x"
    and b: "precise_of_string b = Some pb" "pval pb = y" using assms(1,2) by (auto simp: str_val_Some)
  have nz: "integer pb \<noteq> 0" using b(2) assms(3) pval_zero_iff by auto
  have e: "(10::rat) powi (- 18) = 1 / 10 ^ 18" by (simp add: power_int_minus)
  have "pval (precise_div pa pb 18) = of_int (rtrunc (x / y * 10 ^ 18)) / 10 ^ 18"
    unfolding precise_div_trunc [OF nz] using a(2) b(2) by (simp add: pval_rec e)
  then show ?thesis using a(1) b(1) nz by (simp add: string_div_def parse_precise_Some)
qed

lemma rtrunc_of_int [simp]: "rtrunc (of_int n) = n"
  by (simp add: rtrunc_def)

lemma rtrunc_numeral [simp]: "rtrunc (numeral n) = numeral n"
  by (simp add: rtrunc_def)

lemma string_div_exact:
  assumes "str_val a = Some x" "str_val b = Some y" "y \<noteq> 0" "x / y * 10 ^ 18 = of_int n"
  shows "\<exists>c. string_div (Some a) (Some b) = Inr (Some c) \<and> str_val c = Some (x / y)"
proof -
  have "of_int (rtrunc (x / y * 10 ^ 18)) / (10::rat) ^ 18 = x / y"
    using assms(4) by (simp add: field_simps)
  then show ?thesis using string_div_value [OF assms(1-3)] by simp
qed

lemma string_gt_value:
  assumes "str_val a = Some x" "str_val b = Some y"
  shows "string_gt (Some a) (Some b) = Inr (Some (y < x))"
  using assms by (auto simp: str_val_Some string_gt_def precise_gt_iff parse_precise_Some)

lemma string_gt_None: "string_gt None b = Inr None" "string_gt a None = Inr None"
  by (simp_all add: string_gt_def split: option.splits)

lemma string_lt_value:
  assumes "str_val a = Some x" "str_val b = Some y"
  shows "string_lt (Some a) (Some b) = Inr (Some (x < y))"
  using assms by (auto simp: str_val_Some string_lt_def precise_lt_iff parse_precise_Some)

lemmas precise_eval = precise_of_string_def js_lower_def index_of_def parse_bigint_def parse_exponent_def
  digit_of_def

lemma str_val_zero [simp]: "str_val ''0'' = Some 0"
  by (simp add: str_val_def precise_eval pval_def)

lemma is_decimal_simps [simp]:
  "is_decimal None" "is_decimal (Some s) \<longleftrightarrow> str_val s \<noteq> None"
  by (simp_all add: is_decimal_def)

lemma string_gt_defined: "is_decimal a \<Longrightarrow> is_decimal b \<Longrightarrow> \<exists>r. string_gt a b = Inr r"
  by (cases a; cases b) (auto simp: string_gt_None string_gt_value)

lemma string_lt_defined: "is_decimal a \<Longrightarrow> is_decimal b \<Longrightarrow> \<exists>r. string_lt a b = Inr r"
  by (cases a; cases b) (auto simp: string_lt_value, auto simp: string_lt_def)

lemma string_abs_defined: "is_decimal a \<Longrightarrow> \<exists>r. string_abs a = Inr r \<and> is_decimal r"
  by (cases a) (auto simp: string_abs_def str_val_Some parse_precise_Some)

lemma string_div_defined: "is_decimal a \<Longrightarrow> is_decimal b \<Longrightarrow> \<exists>r. string_div a b = Inr r \<and> is_decimal r"
  by (cases a; cases b) (auto simp: string_div_def str_val_Some parse_precise_Some)

end
