(* ===== verification/Exchange_Base.thy ===== *)
theory Exchange_Base
  imports Decimal "HOL-Library.Option_ord"
begin

text \<open>
  The generic exchange base that \<open>src/js/poloniexfutures.js\<close> extends and calls: parsed
  JSON responses, request parameter objects, and the field accessors \<open>safeValue\<close>,
  \<open>safeString\<close>, \<open>safeInteger\<close>, \<open>safeIntegerProduct\<close>, \<open>safeNumber\<close> with their
  \<open>2\<close>-variants, \<open>extend\<close>, \<open>omit\<close>, \<open>implodeParams\<close>, \<open>urlencode\<close> and \<open>json\<close>. Their code
  is not in the repository (\<open>./base/Exchange\<close>, \<open>./base/functions\<close>); they are modelled
  from the spec (sections 2 and 9) and the library's documented semantics:
  \<^item> a JavaScript object is an association list, so that key order, which decides the order
    of a query string and of a signed JSON body, is kept;
  \<^item> a field that is missing, \<open>null\<close> or the empty string reads as absent (\<open>prop\<close>);
  \<^item> a JSON number is kept as the text JavaScript prints for it, and numeric accessors read it
    with the exact decimal parser of \<open>Decimal\<close> (the rounding of the binary float that
    JavaScript would use is not modelled).
\<close>

section \<open>JSON values and parameter objects\<close>

datatype json = JNull | JBool bool | JNum string | JStr string | JArr "json list"
  | JObj "(string \<times> json) list"

type_synonym params = "(string \<times> json) list"

text \<open>\<open>String (v)\<close>: arrays print their elements joined by commas, \<open>null\<close> elements empty.\<close>

fun json_to_string :: "json \<Rightarrow> string" where
  "json_to_string JNull = ''null''"
| "json_to_string (JBool b) = (if b then ''true'' else ''false'')"
| "json_to_string (JNum n) = n"
| "json_to_string (JStr s) = s"
| "json_to_string (JArr xs) =
     js_join '','' (map (\<lambda>y. if y = JNull then [] else json_to_string y) xs)"
| "json_to_string (JObj kvs) = ''[object Object]''"

definition get_key :: "json \<Rightarrow> string \<Rightarrow> json option" where
  "get_key j k = (case j of JObj kvs \<Rightarrow> map_of kvs k | _ \<Rightarrow> None)"

definition get_index :: "json \<Rightarrow> nat \<Rightarrow> json option" where
  "get_index j i = (case j of JArr xs \<Rightarrow> if i < length xs then Some (xs ! i) else None | _ \<Rightarrow> None)"

text \<open>\<open>prop (o, k)\<close>: the field if \<open>o\<close> is an object and the field is neither \<open>null\<close> nor \<open>''\<close>.\<close>

definition present :: "json option \<Rightarrow> json option" where
  "present v = (case v of Some JNull \<Rightarrow> None | Some (JStr []) \<Rightarrow> None | _ \<Rightarrow> v)"

definition js_prop :: "json option \<Rightarrow> string \<Rightarrow> json option" where
  "js_prop x k = present (Option.bind x (\<lambda>j. get_key j k))"

definition js_prop_idx :: "json option \<Rightarrow> nat \<Rightarrow> json option" where
  "js_prop_idx x i = present (Option.bind x (\<lambda>j. get_index j i))"

section \<open>Field accessors\<close>

definition safe_value :: "json option \<Rightarrow> string \<Rightarrow> json option \<Rightarrow> json option" where
  "safe_value x k d = (case js_prop x k of None \<Rightarrow> d | v \<Rightarrow> v)"

definition safe_value2 :: "json option \<Rightarrow> string \<Rightarrow> string \<Rightarrow> json option \<Rightarrow> json option" where
  "safe_value2 x k1 k2 d = (case js_prop x k1 of None \<Rightarrow> safe_value x k2 d | v \<Rightarrow> v)"

definition safe_string :: "json option \<Rightarrow> string \<Rightarrow> string option \<Rightarrow> string option" where
  "safe_string x k d = (case js_prop x k of None \<Rightarrow> d | Some v \<Rightarrow> Some (json_to_string v))"

definition safe_string_idx :: "json option \<Rightarrow> nat \<Rightarrow> string option" where
  "safe_string_idx x i = map_option json_to_string (js_prop_idx x i)"

definition safe_string2 :: "json option \<Rightarrow> string \<Rightarrow> string \<Rightarrow> string option \<Rightarrow> string option" where
  "safe_string2 x k1 k2 d = (case js_prop x k1 of None \<Rightarrow> safe_string x k2 d | Some v \<Rightarrow> Some (json_to_string v))"

text \<open>\<open>safeStringUpper\<close>: the string in upper case.\<close>

definition js_upper :: "char \<Rightarrow> char" where
  "js_upper c = (let n = of_char c :: nat in
     if 97 \<le> n \<and> n \<le> 122 then ''ABCDEFGHIJKLMNOPQRSTUVWXYZ'' ! (n - 97) else c)"

definition safe_string_upper :: "json option \<Rightarrow> string \<Rightarrow> string option" where
  "safe_string_upper x k = map_option (map js_upper) (safe_string x k None)"

text \<open>\<open>safeNumber\<close> / \<open>parseNumber\<close>: a number is represented by its decimal text.\<close>

definition safe_number :: "json option \<Rightarrow> string \<Rightarrow> string option" where
  "safe_number x k = safe_string x k None"

text \<open>A number or a numeric string, read exactly.\<close>

definition num_of_json :: "json \<Rightarrow> precise option" where
  "num_of_json v = (case v of JNum s \<Rightarrow> precise_of_string s | JStr s \<Rightarrow> precise_of_string s | _ \<Rightarrow> None)"

definition safe_integer :: "json option \<Rightarrow> string \<Rightarrow> int option" where
  "safe_integer x k = map_option (\<lambda>p. rtrunc (pval p)) (Option.bind (js_prop x k) num_of_json)"

definition safe_integer2 :: "json option \<Rightarrow> string \<Rightarrow> string \<Rightarrow> int option" where
  "safe_integer2 x k1 k2 =
     map_option (\<lambda>p. rtrunc (pval p)) (Option.bind (safe_value2 x k1 k2 None) num_of_json)"

text \<open>\<open>safeIntegerProduct (o, k, factor)\<close>: \<open>parseInt (n * factor)\<close>, exactly.\<close>

definition safe_integer_product :: "json option \<Rightarrow> string \<Rightarrow> rat \<Rightarrow> int option" where
  "safe_integer_product x k f = map_option (\<lambda>p. rtrunc (pval p * f)) (Option.bind (js_prop x k) num_of_json)"

text \<open>JavaScript truthiness of a value that may be undefined.\<close>

definition js_truthy :: "json option \<Rightarrow> bool" where
  "js_truthy v = (case v of
      None \<Rightarrow> False | Some JNull \<Rightarrow> False | Some (JBool b) \<Rightarrow> b
    | Some (JNum n) \<Rightarrow> n \<notin> {''0'', ''-0'', ''NaN''} | Some (JStr s) \<Rightarrow> s \<noteq> []
    | Some _ \<Rightarrow> True)"

text \<open>\<open>safeCurrencyCode\<close>: the currency registry's canonical code of an id, absent stays absent.\<close>

definition safe_currency_code :: "(string \<Rightarrow> string) \<Rightarrow> string option \<Rightarrow> string option" where
  "safe_currency_code canon cid = map_option canon cid"

section \<open>Parameter objects\<close>

text \<open>\<open>extend (a, b)\<close> is \<open>Object.assign ({}, a, b)\<close>: the keys of \<open>a\<close> in order, with the
  values of \<open>b\<close> where \<open>b\<close> has the key, then the other keys of \<open>b\<close>.\<close>

definition extend :: "params \<Rightarrow> params \<Rightarrow> params" where
  "extend a b = map (\<lambda>(k, v). (k, case map_of b k of Some v' \<Rightarrow> v' | None \<Rightarrow> v)) a
                @ filter (\<lambda>(k, v). k \<notin> fst ` set a) b"

definition omit :: "params \<Rightarrow> string list \<Rightarrow> params" where
  "omit ps ks = filter (\<lambda>(k, v). k \<notin> set ks) ps"

text \<open>\<open>o[k] = v\<close>: replaced in place when present, appended otherwise.\<close>

definition obj_set :: "params \<Rightarrow> string \<Rightarrow> json \<Rightarrow> params" where
  "obj_set ps k v = (if k \<in> fst ` set ps then map (\<lambda>(k', v'). if k' = k then (k', v) else (k', v')) ps
                     else ps @ [(k, v)])"

definition keys_ok :: "params \<Rightarrow> bool" where
  "keys_ok ps = distinct (map fst ps)"

section \<open>Path templates and encodings\<close>

text \<open>\<open>s.replace (pat, rep)\<close> with a string pattern: the first occurrence only.\<close>

fun replace_aux :: "string \<Rightarrow> string \<Rightarrow> string \<Rightarrow> string" where
  "replace_aux pat rep [] = []"
| "replace_aux pat rep (c # cs) =
     (if take (length pat) (c # cs) = pat then rep @ drop (length pat) (c # cs)
      else c # replace_aux pat rep cs)"

definition replace_first :: "string \<Rightarrow> string \<Rightarrow> string \<Rightarrow> string" where
  "replace_first pat rep s = (if pat = [] then rep @ s else replace_aux pat rep s)"

text \<open>\<open>implodeParams (path, params)\<close>: each \<open>{key}\<close> replaced by the value of \<open>key\<close>, arrays
  skipped.\<close>

definition implode_params :: "string \<Rightarrow> params \<Rightarrow> string" where
  "implode_params path ps =
     fold (\<lambda>(k, v) s. case v of JArr _ \<Rightarrow> s
                              | _ \<Rightarrow> replace_first (CHR ''{'' # k @ ''}'') (json_to_string v) s) ps path"

definition hex_digit :: "nat \<Rightarrow> char" where
  "hex_digit n = ''0123456789ABCDEF'' ! n"

definition unreserved :: "char \<Rightarrow> bool" where
  "unreserved c = (let n = of_char c :: nat in
     (48 \<le> n \<and> n \<le> 57) \<or> (65 \<le> n \<and> n \<le> 90) \<or> (97 \<le> n \<and> n \<le> 122) \<or> c \<in> set ''-_.~'')"

definition percent_encode :: "string \<Rightarrow> string" where
  "percent_encode s = concat (map (\<lambda>c. if unreserved c then [c]
       else [CHR ''%'', hex_digit (of_char c div 16), hex_digit (of_char c mod 16)]) s)"

text \<open>\<open>urlencode\<close> (\<open>qs.stringify\<close>) of a flat object: \<open>key=value\<close> pairs joined by \<open>&\<close>,
  \<open>null\<close> as the empty value.\<close>

definition urlencode :: "params \<Rightarrow> string" where
  "urlencode ps = js_join ''&'' (map (\<lambda>(k, v). percent_encode k @ ''='' @
       (if v = JNull then [] else percent_encode (json_to_string v))) ps)"

definition dquote :: char where
  "dquote = CHR 0x22"

definition bslash :: char where
  "bslash = CHR 0x5C"

definition json_escape :: "char \<Rightarrow> string" where
  "json_escape c = (if c = dquote then [bslash, dquote] else if c = bslash then [bslash, bslash]
     else if of_char c < (32::nat)
       then [bslash, CHR ''u'', CHR ''0'', CHR ''0'', hex_digit (of_char c div 16), hex_digit (of_char c mod 16)]
     else [c])"

definition json_quote :: "string \<Rightarrow> string" where
  "json_quote s = dquote # concat (map json_escape s) @ [dquote]"

text \<open>\<open>JSON.stringify\<close>, without white space.\<close>

fun json_encode :: "json \<Rightarrow> string" where
  "json_encode JNull = ''null''"
| "json_encode (JBool b) = (if b then ''true'' else ''false'')"
| "json_encode (JNum n) = n"
| "json_encode (JStr s) = json_quote s"
| "json_encode (JArr xs) = ''['' @ js_join '','' (map json_encode xs) @ '']''"
| "json_encode (JObj kvs) =
     ''{'' @ js_join '','' (map (\<lambda>(k, v). json_quote k @ '':'' @ json_encode v) kvs) @ ''}''"


section \<open>Arrays, lengths and calls\<close>

text \<open>The elements a loop \<open>for (let i = 0; i < x.length; i++)\<close> visits through \<open>x[i]\<close>: an
  array's elements, a string's characters, nothing for a value without a length.\<close>

definition js_items :: "json option \<Rightarrow> json list" where
  "js_items x = (case x of Some (JArr xs) \<Rightarrow> xs | Some (JStr s) \<Rightarrow> map (\<lambda>c. JStr [c]) s | _ \<Rightarrow> [])"

text \<open>\<open>x.length\<close>: a \<open>TypeError\<close> on \<open>undefined\<close> and \<open>null\<close>, \<open>undefined\<close> on a value
  without a length.\<close>

definition js_length :: "json option \<Rightarrow> nat option res" where
  "js_length x = (case x of
      None \<Rightarrow> throw TypeError ''Cannot read properties of undefined (reading length)''
    | Some JNull \<Rightarrow> throw TypeError ''Cannot read properties of null (reading length)''
    | Some (JArr xs) \<Rightarrow> Inr (Some (length xs))
    | Some (JStr s) \<Rightarrow> Inr (Some (length s))
    | Some _ \<Rightarrow> Inr None)"

text \<open>\<open>String (n)\<close> of an integer.\<close>

definition int_str :: "int \<Rightarrow> string" where
  "int_str i = sgn_prefix (i < 0) @ nat_digits (nat \<bar>i\<bar>)"

text \<open>\<open>this[method] (params)\<close>: the generated endpoint methods, by name, as the interface
  between an operation and the transport. The answer is the parsed response, or the
  exception the transport (signing, \<open>handleErrors\<close>) raised.\<close>

type_synonym caller = "string \<Rightarrow> params \<Rightarrow> json option res"

text \<open>\<open>filterBySymbolSinceLimit (array, symbol, since, limit, tail)\<close>: the entries of the
  symbol, those whose timestamp is at least \<open>since\<close> (a zero timestamp or \<open>since\<close> is
  falsy and fails), then the first \<open>limit\<close> entries, or the last ones when \<open>tail\<close>
  (\<open>slice (-0)\<close> keeps them all).\<close>

definition filter_by_symbol_since_limit ::
  "('a \<Rightarrow> string option) \<Rightarrow> ('a \<Rightarrow> int option) \<Rightarrow> 'a list \<Rightarrow> string option \<Rightarrow> int option
     \<Rightarrow> nat option \<Rightarrow> bool \<Rightarrow> 'a list" where
  "filter_by_symbol_since_limit sym_of ts_of xs smb since limit tail =
     (let r = (if smb = None \<and> since = None then xs
               else filter (\<lambda>x. (smb = None \<or> sym_of x = smb)
                   \<and> (case since of None \<Rightarrow> True
                      | Some t \<Rightarrow> (case ts_of x of None \<Rightarrow> False | Some u \<Rightarrow> u \<noteq> 0 \<and> t \<noteq> 0 \<and> t \<le> u))) xs)
      in case limit of
           None \<Rightarrow> r
         | Some n \<Rightarrow> if tail then (if n = 0 then r else drop (length r - n) r) else take n r)"

text \<open>\<open>parseOrders\<close>, \<open>parseTrades\<close>: each entry parsed, sorted by timestamp (a stable sort,
  absent timestamps first), then filtered by the market's symbol, \<open>since\<close> and \<open>limit\<close>,
  taking the most recent entries when \<open>since\<close> is undefined.\<close>

definition parse_sorted_list ::
  "('a \<Rightarrow> 'b res) \<Rightarrow> ('b \<Rightarrow> string option) \<Rightarrow> ('b \<Rightarrow> int option) \<Rightarrow> 'a list \<Rightarrow> string option
     \<Rightarrow> int option \<Rightarrow> nat option \<Rightarrow> 'b list res" where
  "parse_sorted_list parse sym_of ts_of xs smb since limit =
     bindR (map_res parse xs) (\<lambda>ys.
       Inr (filter_by_symbol_since_limit sym_of ts_of (sort_key ts_of ys) smb since limit (since = None)))"

text \<open>\<open>toArray (x)\<close>: an array's elements, an object's values, a string's characters.\<close>

definition js_to_array :: "json option \<Rightarrow> json list" where
  "js_to_array x = (case x of Some (JArr xs) \<Rightarrow> xs | Some (JObj kvs) \<Rightarrow> map snd kvs
     | Some (JStr s) \<Rightarrow> map (\<lambda>c. JStr [c]) s | _ \<Rightarrow> [])"

text \<open>\<open>k in x\<close> for an object: the key is present, whatever its value.\<close>

definition has_key :: "json option \<Rightarrow> string \<Rightarrow> bool" where
  "has_key x k = (case x of Some (JObj kvs) \<Rightarrow> k \<in> fst ` set kvs | _ \<Rightarrow> False)"

text \<open>\<open>filterByArray (objects, key, values, false)\<close>: all entries when \<open>values\<close> is
  undefined, else those whose key is one of the values (an empty array keeps none).\<close>

definition filter_by_array :: "('a \<Rightarrow> string) \<Rightarrow> 'a list \<Rightarrow> string list option \<Rightarrow> 'a list" where
  "filter_by_array key xs vals = (case vals of None \<Rightarrow> xs | Some vs \<Rightarrow> filter (\<lambda>x. key x \<in> set vs) xs)"

lemmas json_eval = safe_string_def safe_value_def safe_number_def js_prop_def present_def get_key_def

subsection \<open>Request objects: \<open>omit\<close>, \<open>extend\<close> and assignment\<close>

lemma map_of_omit: "map_of (omit ps ks) k = (if k \<in> set ks then None else map_of ps k)"
  by (induction ps) (auto simp: omit_def)

lemma omit_omit: "omit (omit ps ks) ks' = omit ps (ks @ ks')"
  by (simp add: omit_def case_prod_unfold)

lemma js_prop_omit: "k \<notin> set ks \<Longrightarrow> js_prop (Some (JObj (omit ps ks))) k = js_prop (Some (JObj ps)) k"
  by (simp add: js_prop_def get_key_def map_of_omit)

lemma map_of_extend: "map_of (Exchange_Base.extend a b) k = (case map_of b k of Some v \<Rightarrow> Some v | None \<Rightarrow> map_of a k)"
proof -
  have f: "map_of (filter (\<lambda>(k', v). k' \<notin> fst ` set a) b) k = (if k \<in> fst ` set a then None else map_of b k)"
    by (induction b) (auto simp: rev_image_eqI)
  have m: "map_of (map (\<lambda>(k', v). (k', case map_of b k' of Some v' \<Rightarrow> v' | None \<Rightarrow> v)) a) k
            = map_option (\<lambda>v. case map_of b k of Some v' \<Rightarrow> v' | None \<Rightarrow> v) (map_of a k)"
    by (induction a) (auto split: option.splits)
  show ?thesis
  proof (cases "map_of a k")
    case None
    then have "k \<notin> fst ` set a" by (simp add: map_of_eq_None_iff)
    then show ?thesis using None by (simp add: Exchange_Base.extend_def map_add_def f m split: option.splits)
  next
    case (Some v)
    then have "k \<in> fst ` set a" by (auto dest: map_of_SomeD intro: rev_image_eqI)
    then show ?thesis using Some by (simp add: Exchange_Base.extend_def map_add_def f m split: option.splits)
  qed
qed

lemma map_of_update_vals:
  "map_of (map (\<lambda>(k2, v2). if k2 = k then (k2, v) else (k2, v2)) ps) k'
     = (if k' = k \<and> k \<in> fst ` set ps then Some v else map_of ps k')"
proof (induction ps)
  case Nil
  then show ?case by simp
next
  case (Cons p ps)
  obtain a b where p: "p = (a, b)" by (cases p)
  show ?case using Cons.IH by (cases "a = k"; cases "a = k'") (simp_all add: p)
qed

lemma map_of_obj_set: "map_of (obj_set ps k v) k' = (if k' = k then Some v else map_of ps k')"
proof (cases "k \<in> fst ` set ps")
  case True
  then show ?thesis by (simp add: obj_set_def map_of_update_vals)
next
  case False
  then have "map_of ps k = None" by (simp add: map_of_eq_None_iff)
  then show ?thesis using False by (cases "map_of ps k'") (auto simp: obj_set_def map_add_def)
qed

lemma safe_value_omit: "k \<notin> set ks \<Longrightarrow> safe_value (Some (JObj (omit ps ks))) k d = safe_value (Some (JObj ps)) k d"
  by (simp add: safe_value_def js_prop_omit)

lemma safe_value2_omit:
  "k1 \<notin> set ks \<Longrightarrow> k2 \<notin> set ks \<Longrightarrow>
     safe_value2 (Some (JObj (omit ps ks))) k1 k2 d = safe_value2 (Some (JObj ps)) k1 k2 d"
  by (simp add: safe_value2_def js_prop_omit safe_value_omit split: option.split)

lemma keys_ok_omit: "keys_ok ps \<Longrightarrow> keys_ok (omit ps ks)"
  by (induction ps) (auto simp: keys_ok_def omit_def)

lemma keys_ok_obj_set: "keys_ok ps \<Longrightarrow> keys_ok (obj_set ps k v)"
proof -
  have m: "fst \<circ> (\<lambda>(k', v'). if k' = k then (k', v) else (k', v')) = fst" by (rule ext) auto
  have "k \<notin> fst ` set ps \<Longrightarrow> distinct (map fst ps) \<Longrightarrow> distinct (map fst (ps @ [(k, v)]))" by simp
  then show "keys_ok ps \<Longrightarrow> keys_ok (obj_set ps k v)" by (simp add: keys_ok_def obj_set_def m)
qed

lemma keys_ok_extend: "keys_ok a \<Longrightarrow> keys_ok b \<Longrightarrow> keys_ok (Exchange_Base.extend a b)"
proof -
  assume a: "keys_ok a" and b: "keys_ok b"
  have "fst \<circ> (\<lambda>(k, v). (k, case map_of b k of Some v' \<Rightarrow> v' | None \<Rightarrow> v)) = fst" by (rule ext) auto
  moreover have "distinct (map fst (filter (\<lambda>(k, v). k \<notin> fst ` set a) b))"
    using b by (induction b) (auto simp: keys_ok_def)
  moreover have "set (map fst (filter (\<lambda>(k, v). k \<notin> fst ` set a) b)) \<inter> set (map fst a) = {}"
    by (auto simp: image_iff)
  ultimately show ?thesis using a by (simp add: keys_ok_def Exchange_Base.extend_def Int_commute)
qed

end
