(* ===== verification/Signer.thy ===== *)
theory Signer
  imports Exchange_Base
begin

text \<open>
  The Endpoint Signer: \<open>sign\<close> of \<open>src/js/poloniexfutures.js\<close> (lines 1572--1616) and the
  parts of \<open>describe\<close> it reads (\<open>version\<close>, \<open>urls.api\<close>, \<open>options.versions\<close>,
  \<open>requiredCredentials\<close>). The exchange object's state that \<open>sign\<close> reads is the record
  \<open>exchange\<close>; the clock (\<open>this.milliseconds ()\<close>) is a field, and the HMAC-SHA256/base64
  primitive of the runtime is a field \<open>hmac\<close> (message, secret), so that every lemma holds
  for any clock value and any HMAC implementation.
\<close>

section \<open>Exchange state read by the signer\<close>

record exchange =
  urls_api :: json
  options :: json
  version :: string
  apiKey :: "string option"
  secret :: "string option"
  password :: "string option"
  milliseconds :: nat
  hmac :: "string \<Rightarrow> string \<Rightarrow> string"

text \<open>The request descriptor \<open>{url, method, body, headers}\<close> that \<open>sign\<close> returns.\<close>

record request =
  url :: string
  req_method :: string
  body :: "string option"
  headers :: "params option"

text \<open>\<open>describe ()\<close>: \<open>version\<close> (line 22), \<open>urls.api\<close> (lines 64--67) and
  \<open>options.versions\<close> (lines 156--164).\<close>

definition pf_urls_api :: json where
  "pf_urls_api = JObj [(''public'', JStr ''https://futures-api.poloniex.com''),
                       (''private'', JStr ''https://futures-api.poloniex.com'')]"

definition pf_options :: json where
  "pf_options = JObj [(''versions'', JObj [(''public'', JObj [(''GET'', JObj [
                  (''ticker'', JStr ''v2''), (''tickers'', JStr ''v2''),
                  (''level3/snapshot'', JStr ''v2'')])])])]"

definition pf_version :: string where
  "pf_version = ''v1''"

text \<open>The state of a freshly described exchange with the given credentials, clock and HMAC.\<close>

definition pf_exchange :: "string option \<Rightarrow> string option \<Rightarrow> string option \<Rightarrow> nat
                           \<Rightarrow> (string \<Rightarrow> string \<Rightarrow> string) \<Rightarrow> exchange" where
  "pf_exchange k s p t h = \<lparr>urls_api = pf_urls_api, options = pf_options, version = pf_version,
     apiKey = k, secret = s, password = p, milliseconds = t, hmac = h\<rparr>"

section \<open>Credentials\<close>

text \<open>A credential is present when it is defined and not the empty string.\<close>

definition cred_ok :: "string option \<Rightarrow> bool" where
  "cred_ok c = (case c of None \<Rightarrow> False | Some s \<Rightarrow> s \<noteq> [])"

definition missing_cred :: "string \<Rightarrow> raised" where
  "missing_cred key = (AuthenticationError, exchange_id @ '' requires '' @ [dquote] @ key @ [dquote] @ '' credential'')"

text \<open>\<open>checkRequiredCredentials ()\<close> over \<open>requiredCredentials\<close> (lines 145--149), in the order
  of the base's table: \<open>apiKey\<close>, \<open>secret\<close>, then \<open>password\<close>.\<close>

definition check_required_credentials :: "exchange \<Rightarrow> unit res" where
  "check_required_credentials ex =
     (if \<not> cred_ok (apiKey ex) then Inl (missing_cred ''apiKey'')
      else if \<not> cred_ok (secret ex) then Inl (missing_cred ''secret'')
      else if \<not> cred_ok (password ex) then Inl (missing_cred ''password'')
      else Inr ())"

section \<open>sign\<close>

text \<open>The API version: a per-endpoint override in \<open>options.versions\<close>, else \<open>this.version\<close>; a
  \<open>version\<close> parameter wins over both (lines 1574--1578).\<close>

definition resolve_version :: "exchange \<Rightarrow> string \<Rightarrow> string \<Rightarrow> string \<Rightarrow> params \<Rightarrow> string option" where
  "resolve_version ex path api meth ps =
     (let versions = safe_value (Some (options ex)) ''versions'' (Some (JObj []));
          apiVersions = safe_value versions api (Some (JObj []));
          methodVersions = safe_value apiVersions meth (Some (JObj []));
          defaultVersion = safe_string methodVersions path (Some (version ex))
      in safe_string (Some (JObj ps)) ''version'' defaultVersion)"

text \<open>The authentication headers of a private call: the signature of the payload with the
  account secret, the timestamp, the key and the passphrase (lines 1606--1613).\<close>

definition signed_headers :: "exchange \<Rightarrow> string \<Rightarrow> params" where
  "signed_headers ex payload = [(''PF-API-SIGN'', JStr (hmac ex payload (js_str (secret ex)))),
     (''PF-API-TIMESTAMP'', JStr (nat_digits (milliseconds ex))),
     (''PF-API-KEY'', JStr (js_str (apiKey ex))), (''PF-API-PASSPHRASE'', JStr (js_str (password ex))),
     (''Content-Type'', JStr ''application/json'')]"

definition is_get_or_head :: "string \<Rightarrow> bool" where
  "is_get_or_head meth = (meth = ''GET'' \<or> meth = ''HEAD'')"

text \<open>
  \<open>sign (path, api, method, params, headers, body)\<close>. The query is \<open>this.omit (params, path)\<close>:
  the parameters less a key equal to the path string itself. Private calls check the
  credentials, sign \<open>now + method + endpoint + body\<close> where the endpoint is always the
  \<open>v1\<close> path, and carry the query in the URL for \<open>GET\<close>/\<open>HEAD\<close> and as a JSON body
  otherwise.
\<close>

definition sign :: "exchange \<Rightarrow> string \<Rightarrow> string \<Rightarrow> string \<Rightarrow> params \<Rightarrow> params option
                    \<Rightarrow> string option \<Rightarrow> request res" where
  "sign ex path api meth ps hdrs bdy =
     (let url0 = js_str (map_option json_to_string (get_key (urls_api ex) api));
          ver = resolve_version ex path api meth ps;
          tail = ''/api/'' @ js_str ver @ ''/'' @ implode_params path ps;
          url1 = url0 @ tail;
          query = omit ps [path]
      in if api = ''public'' then
           Inr \<lparr>url = (if query \<noteq> [] then url1 @ ''?'' @ urlencode query else url1),
                req_method = meth, body = bdy, headers = hdrs\<rparr>
         else bindR (check_required_credentials ex) (\<lambda>_.
           let endpoint0 = ''/api/v1/'' @ implode_params path ps;
               bodyEncoded = urlencode query;
               withQuery = (is_get_or_head meth \<and> query \<noteq> [] \<and> bodyEncoded \<noteq> []);
               url2 = (if withQuery then url1 @ ''?'' @ bodyEncoded else url1);
               endpoint = (if withQuery then endpoint0 @ ''?'' @ bodyEncoded else endpoint0);
               now = nat_digits (milliseconds ex);
               body2 = (if \<not> is_get_or_head meth \<or> bdy \<noteq> None
                        then Some (json_encode (JObj query)) else None);
               endpart = (case body2 of None \<Rightarrow> [] | Some b \<Rightarrow> b);
               payload = now @ meth @ endpoint @ endpart
           in Inr \<lparr>url = url2, req_method = meth, body = body2,
                   headers = Some (signed_headers ex payload)\<rparr>))"

section \<open>Lemmas\<close>

lemmas pf_eval = pf_exchange_def pf_options_def pf_urls_api_def pf_version_def resolve_version_def
  safe_value_def safe_string_def js_prop_def present_def get_key_def


lemma creds_ok_check: "cred_ok (apiKey ex) \<Longrightarrow> cred_ok (secret ex) \<Longrightarrow> cred_ok (password ex) \<Longrightarrow>
    check_required_credentials ex = Inr ()"
  by (simp add: check_required_credentials_def)

lemma creds_missing_check:
  "\<not> (cred_ok (apiKey ex) \<and> cred_ok (secret ex) \<and> cred_ok (password ex)) \<Longrightarrow>
    \<exists>m. check_required_credentials ex = Inl (AuthenticationError, m)"
  by (auto simp: check_required_credentials_def missing_cred_def)

lemma sign_private_Inr:
  assumes "api \<noteq> ''public''" and "cred_ok (apiKey ex)" "cred_ok (secret ex)" "cred_ok (password ex)"
  shows "\<exists>r. sign ex path api meth ps hdrs bdy = Inr r"
  using assms by (simp add: sign_def Let_def creds_ok_check)

lemma sign_private_Inl:
  assumes "api \<noteq> ''public''" and "\<not> (cred_ok (apiKey ex) \<and> cred_ok (secret ex) \<and> cred_ok (password ex))"
  shows "\<exists>m. sign ex path api meth ps hdrs bdy = Inl (AuthenticationError, m)"
  using creds_missing_check [OF assms(2)] assms(1) by (auto simp: sign_def Let_def)

lemma urlencode_nonempty: "ps \<noteq> [] \<Longrightarrow> urlencode ps \<noteq> []"
proof -
  assume "ps \<noteq> []"
  then obtain k v qs where "ps = (k, v) # qs" by (cases ps) auto
  then show ?thesis by (cases qs) (auto simp: urlencode_def)
qed

text \<open>A public request never fails and leaves the method, body and headers as given.\<close>

theorem sign_public_passthrough:
  "\<exists>r. sign ex path ''public'' meth ps hdrs bdy = Inr r \<and>
       req_method r = meth \<and> body r = bdy \<and> headers r = hdrs"
  by (simp add: sign_def Let_def)

text \<open>C3: A private request made while apiKey, secret or password is missing or empty raises AuthenticationError before any signature is computed.\<close>

theorem sign_private_missing_credentials:
  assumes "api \<noteq> ''public''"
    and "\<not> (cred_ok (apiKey ex) \<and> cred_ok (secret ex) \<and> cred_ok (password ex))"
  shows "\<exists>m. sign ex path api meth ps hdrs bdy = Inl (AuthenticationError, m)"
  using creds_missing_check [OF assms(2)] assms(1) by (auto simp: sign_def Let_def)

text \<open>C1: A private request with a method other than GET or HEAD and all three credentials is signed with the body equal to the JSON of the query, the url from the api base, version and imploded path, and the signature payload timestamp + method + /api/v1/ endpoint + body.\<close>

theorem sign_private_body:
  assumes "api \<noteq> ''public''" and "cred_ok (apiKey ex)" "cred_ok (secret ex)" "cred_ok (password ex)"
    and "\<not> is_get_or_head meth"
  shows "sign ex path api meth ps hdrs bdy = Inr
     \<lparr>url = js_str (map_option json_to_string (get_key (urls_api ex) api)) @ ''/api/''
            @ js_str (resolve_version ex path api meth ps) @ ''/'' @ implode_params path ps,
      req_method = meth, body = Some (json_encode (JObj (omit ps [path]))),
      headers = Some (signed_headers ex (nat_digits (milliseconds ex) @ meth @ ''/api/v1/''
                        @ implode_params path ps @ json_encode (JObj (omit ps [path]))))\<rparr>"
  using assms by (simp add: sign_def Let_def creds_ok_check)

text \<open>C2: A private GET with a nonempty query and all credentials carries the urlencoded query in both the url and the signed endpoint, and has no body.\<close>

theorem sign_private_get:
  assumes "api \<noteq> ''public''" and "cred_ok (apiKey ex)" "cred_ok (secret ex)" "cred_ok (password ex)"
    and "meth = ''GET''" and "omit ps [path] \<noteq> []"
  shows "sign ex path api meth ps hdrs None = Inr
     \<lparr>url = js_str (map_option json_to_string (get_key (urls_api ex) api)) @ ''/api/''
            @ js_str (resolve_version ex path api meth ps) @ ''/'' @ implode_params path ps
            @ ''?'' @ urlencode (omit ps [path]),
      req_method = meth, body = None,
      headers = Some (signed_headers ex (nat_digits (milliseconds ex) @ meth @ ''/api/v1/''
                        @ implode_params path ps @ ''?'' @ urlencode (omit ps [path])))\<rparr>"
  using assms urlencode_nonempty [OF assms(6)]
  by (simp add: sign_def Let_def creds_ok_check is_get_or_head_def)

text \<open>With no version parameter the version is v2 exactly for public GET ticker, tickers and level3/snapshot, and v1 otherwise.\<close>

theorem pf_version_resolution:
  assumes "js_prop (Some (JObj ps)) ''version'' = None"
  shows "resolve_version (pf_exchange k s p t h) path api meth ps =
           Some (if api = ''public'' \<and> meth = ''GET'' \<and> path \<in> {''ticker'', ''tickers'', ''level3/snapshot''}
                 then ''v2'' else ''v1'')"
  using assms by (auto simp: pf_eval)

theorem version_param_wins:
  assumes "js_prop (Some (JObj ps)) ''version'' = Some v"
  shows "resolve_version ex path api meth ps = Some (json_to_string v)"
  using assms by (simp add: resolve_version_def safe_string_def)

lemma implode_order_id: "implode_params ''orders/{order-id}'' [(''order-id'', JStr oid)] = ''orders/'' @ oid"
  by (simp add: implode_params_def replace_first_def)

text \<open>C4: sign omits only the key equal to the whole path, so a path placeholder such as order-id is substituted in the url and still sent in the request body.\<close>

theorem sign_keeps_path_params:
  assumes "cred_ok k" "cred_ok s" "cred_ok p"
  shows "\<exists>r. sign (pf_exchange k s p t h) ''orders/{order-id}'' ''private'' ''DELETE''
                  [(''order-id'', JStr oid)] None None = Inr r
           \<and> url r = ''https://futures-api.poloniex.com/api/v1/orders/'' @ oid
           \<and> body r = Some (json_encode (JObj [(''order-id'', JStr oid)]))"
  using assms by (simp add: sign_def Let_def creds_ok_check pf_eval is_get_or_head_def implode_order_id omit_def)

end
