(* ===== verification/Errors.thy ===== *)
theory Errors
  imports Exchange_Base
begin

text \<open>
  The Error Classifier: \<open>handleErrors\<close> of \<open>src/js/poloniexfutures.js\<close> (lines 1618--1635)
  over the \<open>exceptions\<close> tables of \<open>describe\<close> (lines 166--192), with the base's
  \<open>throwExactlyMatchedException\<close> and \<open>throwBroadlyMatchedException\<close>. A raised exception is
  the value \<open>Some (class, message)\<close>; \<open>None\<close> means the call is presumed successful and
  parsing proceeds.
\<close>

section \<open>Exception tables\<close>

definition exact_table :: "(string \<times> exc) list" where
  "exact_table = [
     (''400'', BadRequest), (''401'', AuthenticationError), (''403'', NotSupported),
     (''404'', NotSupported), (''405'', NotSupported), (''415'', BadRequest),
     (''429'', RateLimitExceeded), (''500'', ExchangeNotAvailable), (''503'', ExchangeNotAvailable),
     (''400001'', AuthenticationError), (''400002'', InvalidNonce), (''400003'', AuthenticationError),
     (''400004'', AuthenticationError), (''400005'', AuthenticationError),
     (''400006'', AuthenticationError), (''400007'', AuthenticationError),
     (''404000'', NotSupported), (''400100'', BadRequest), (''411100'', AccountSuspended),
     (''500000'', ExchangeNotAvailable)]"

definition broad_table :: "(string \<times> exc) list" where
  "broad_table = [(''Position does not exist'', OrderNotFound)]"

section \<open>Matching\<close>

text \<open>\<open>s.indexOf (pat) >= 0\<close>: \<open>pat\<close> occurs in \<open>s\<close>.\<close>

fun contains :: "string \<Rightarrow> string \<Rightarrow> bool" where
  "contains pat [] = (pat = [])"
| "contains pat (c # cs) = (take (length pat) (c # cs) = pat \<or> contains pat cs)"

text \<open>\<open>throwExactlyMatchedException (exact, string, message)\<close>: raise when \<open>string\<close> is a key.\<close>

definition throw_exactly_matched :: "(string \<times> exc) list \<Rightarrow> string option \<Rightarrow> string \<Rightarrow> raised option" where
  "throw_exactly_matched tbl s m =
     (case s of None \<Rightarrow> None | Some k \<Rightarrow> map_option (\<lambda>e. (e, m)) (map_of tbl k))"

text \<open>\<open>findBroadlyMatchedKey\<close>: the first key of the table that occurs in the string.\<close>

fun find_broadly_matched_key :: "(string \<times> exc) list \<Rightarrow> string \<Rightarrow> (string \<times> exc) option" where
  "find_broadly_matched_key [] s = None"
| "find_broadly_matched_key ((k, e) # kes) s =
     (if contains k s then Some (k, e) else find_broadly_matched_key kes s)"

definition throw_broadly_matched :: "(string \<times> exc) list \<Rightarrow> string option \<Rightarrow> string \<Rightarrow> raised option" where
  "throw_broadly_matched tbl s m =
     (case s of None \<Rightarrow> None | Some str \<Rightarrow> map_option (\<lambda>(k, e). (e, m)) (find_broadly_matched_key tbl str))"

text \<open>The first of a sequence of throwing calls that throws.\<close>

definition first_raise :: "raised option \<Rightarrow> raised option \<Rightarrow> raised option" where
  "first_raise a b = (case a of None \<Rightarrow> b | Some e \<Rightarrow> Some e)"

section \<open>handleErrors\<close>

text \<open>
  \<open>handleErrors (code, reason, url, method, headers, body, response, ...)\<close>: with no parsed
  response, only the body is matched against the broad table; otherwise the message, then the
  code are matched exactly and the body broadly, the message prefixed by the exchange id.
\<close>

definition handle_errors :: "json option \<Rightarrow> string option \<Rightarrow> raised option" where
  "handle_errors response bdy =
     (if \<not> js_truthy response then throw_broadly_matched broad_table bdy (js_str bdy)
      else let errorCode = safe_string response ''code'' None;
               message = safe_string response ''msg'' (Some '''');
               feedback = exchange_id @ '' '' @ js_str message
           in first_raise (throw_exactly_matched exact_table message feedback)
               (first_raise (throw_exactly_matched exact_table errorCode feedback)
                 (throw_broadly_matched broad_table bdy feedback)))"

section \<open>Lemmas\<close>


lemma take_length_eq_iff: "take (length p) s = p \<longleftrightarrow> (\<exists>v. s = p @ v)"
proof
  assume "take (length p) s = p"
  then have "s = p @ drop (length p) s" by (metis append_take_drop_id)
  then show "\<exists>v. s = p @ v" ..
next
  assume "\<exists>v. s = p @ v"
  then show "take (length p) s = p" by auto
qed

lemma contains_iff: "contains pat s \<longleftrightarrow> (\<exists>u v. s = u @ pat @ v)"
proof (induction s)
  case Nil
  then show ?case by simp
next
  case (Cons c cs)
  have "(\<exists>u v. c # cs = u @ pat @ v) \<longleftrightarrow> (\<exists>v. c # cs = pat @ v) \<or> (\<exists>u v. cs = u @ pat @ v)"
  proof
    assume "\<exists>u v. c # cs = u @ pat @ v"
    then obtain u v where uv: "c # cs = u @ pat @ v" by blast
    show "(\<exists>v. c # cs = pat @ v) \<or> (\<exists>u v. cs = u @ pat @ v)"
    proof (cases u)
      case Nil
      with uv show ?thesis by auto
    next
      case (Cons d u')
      with uv have "cs = u' @ pat @ v" by simp
      then show ?thesis by blast
    qed
  next
    assume "(\<exists>v. c # cs = pat @ v) \<or> (\<exists>u v. cs = u @ pat @ v)"
    then show "\<exists>u v. c # cs = u @ pat @ v"
    proof
      assume "\<exists>v. c # cs = pat @ v"
      then show ?thesis by (metis append_Nil)
    next
      assume "\<exists>u v. cs = u @ pat @ v"
      then obtain u v where "cs = u @ pat @ v" by blast
      then have "c # cs = (c # u) @ pat @ v" by simp
      then show ?thesis by blast
    qed
  qed
  with Cons.IH show ?case by (simp add: take_length_eq_iff)
qed

lemma find_broadly_matched_key_Some:
  "find_broadly_matched_key tbl s = Some (k, e) \<Longrightarrow> (k, e) \<in> set tbl \<and> contains k s"
  by (induction tbl s rule: find_broadly_matched_key.induct) (auto split: if_splits)

lemma find_broadly_matched_key_None:
  "find_broadly_matched_key tbl s = None \<longleftrightarrow> (\<forall>(k, e) \<in> set tbl. \<not> contains k s)"
  by (induction tbl s rule: find_broadly_matched_key.induct) auto

lemma first_raise_simps [simp]:
  "first_raise None b = b" "first_raise (Some e) b = Some e"
  by (simp_all add: first_raise_def)

lemmas handle_errors_unfold = handle_errors_def Let_def throw_exactly_matched_def throw_broadly_matched_def

text \<open>When the message is not an exact key and the code is, handleErrors raises the class of the code with message id + ' ' + msg.\<close>

theorem handle_errors_exact_code:
  assumes "js_truthy resp"
    and "safe_string resp ''msg'' (Some '''') = Some m" and "map_of exact_table m = None"
    and "safe_string resp ''code'' None = Some c" and "map_of exact_table c = Some e"
  shows "handle_errors resp bdy = Some (e, exchange_id @ '' '' @ m)"
  using assms by (simp add: handle_errors_unfold)

text \<open>C27: When the response message is a key of the exact table, handleErrors raises that class with message id + ' ' + msg, before the code is looked at.\<close>

theorem handle_errors_exact_message:
  assumes "js_truthy resp"
    and "safe_string resp ''msg'' (Some '''') = Some m" and "map_of exact_table m = Some e"
  shows "handle_errors resp bdy = Some (e, exchange_id @ '' '' @ m)"
  using assms by (simp add: handle_errors_unfold)

text \<open>When neither message nor code is an exact key and the body contains 'Position does not exist', handleErrors raises OrderNotFound.\<close>

theorem handle_errors_broad:
  assumes "js_truthy resp"
    and "safe_string resp ''msg'' (Some '''') = Some m" and "map_of exact_table m = None"
    and "\<forall>c. safe_string resp ''code'' None = Some c \<longrightarrow> map_of exact_table c = None"
    and "contains ''Position does not exist'' b"
  shows "handle_errors resp (Some b) = Some (OrderNotFound, exchange_id @ '' '' @ m)"
  using assms by (cases "safe_string resp ''code'' None") (simp_all add: handle_errors_unfold broad_table_def)

text \<open>When nothing matches, handleErrors raises nothing and the response goes on to be parsed.\<close>

theorem handle_errors_none:
  assumes "js_truthy resp"
    and "safe_string resp ''msg'' (Some '''') = Some m" and "map_of exact_table m = None"
    and "\<forall>c. safe_string resp ''code'' None = Some c \<longrightarrow> map_of exact_table c = None"
    and "\<forall>b. bdy = Some b \<longrightarrow> \<not> contains ''Position does not exist'' b"
  shows "handle_errors resp bdy = None"
  using assms
  by (cases "safe_string resp ''code'' None"; cases bdy) (simp_all add: handle_errors_unfold broad_table_def)

text \<open>With no parsed response only the body is matched against the broad table, the body itself being the message.\<close>

theorem handle_errors_no_response:
  "\<not> js_truthy resp \<Longrightarrow>
     handle_errors resp bdy = (case bdy of Some b \<Rightarrow> if contains ''Position does not exist'' b
                                                   then Some (OrderNotFound, b) else None
                                       | None \<Rightarrow> None)"
  by (cases bdy) (simp_all add: handle_errors_unfold broad_table_def)

text \<open>Every exception handleErrors raises has a class listed in the exact or broad table.\<close>

theorem handle_errors_classes:
  "handle_errors resp bdy = Some (e, m) \<Longrightarrow> e \<in> snd ` set exact_table \<union> snd ` set broad_table"
  apply (simp add: handle_errors_unfold first_raise_def split: if_splits option.splits)
  apply (auto dest!: map_of_SomeD find_broadly_matched_key_Some intro: rev_image_eqI)
  done

end
