(* ===== verification/Api.thy ===== *)
theory Api
  imports Signer Errors
begin

text \<open>
  The REST interface of \<open>describe\<close> (\<open>api\<close>, lines 73--126 of \<open>src/js/poloniexfutures.js\<close>)
  and the dispatch \<open>this[method] (params)\<close> through it. The base class generates one method
  per path, named by the scope, the capitalised HTTP method and the capitalised
  alphanumeric pieces of the path (\<open>defineRestApi\<close>); a call signs the request with \<open>sign\<close>,
  sends it, and runs \<open>handleErrors\<close> on the answer. The HTTP exchange itself is a parameter;
  the per-endpoint weights are rate-limit metadata and are not modelled.
\<close>

section \<open>The endpoint table\<close>

definition api_table :: "(string \<times> (string \<times> string list) list) list" where
  "api_table = [
     (''public'',
       [(''get'', [''contracts/active'', ''contracts/{symbol}'', ''ticker'', ''tickers'',
                  ''level2/snapshot'', ''level2/depth'', ''level2/message/query'', ''level3/snapshot'',
                  ''trade/history'', ''interest/query'', ''index/query'', ''mark-price/{symbol}/current'',
                  ''premium/query'', ''funding-rate/{symbol}/current'', ''timestamp'', ''status'',
                  ''kline/query'']),
        (''post'', [''bullet-public''])]),
     (''private'',
       [(''get'', [''account-overview'', ''transaction-history'', ''orders'', ''stopOrders'',
                  ''recentDoneOrders'', ''orders/{order-id}'', ''fills'', ''openOrderStatistics'',
                  ''position'', ''positions'', ''funding-history'', ''marginType/query'']),
        (''post'', [''orders'', ''batchOrders'', ''position/margin/auto-deposit-status'',
                   ''position/margin/deposit-margin'', ''bullet-private'', ''marginType/change'']),
        (''delete'', [''orders/{order-id}'', ''orders'', ''stopOrders''])])]"

section \<open>Generated method names\<close>

definition is_alnum :: "char \<Rightarrow> bool" where
  "is_alnum c = (let n = of_char c :: nat in
     (48 \<le> n \<and> n \<le> 57) \<or> (65 \<le> n \<and> n \<le> 90) \<or> (97 \<le> n \<and> n \<le> 122))"

text \<open>\<open>path.split (/[^a-zA-Z0-9]/)\<close>.\<close>

definition split_alnum :: "string \<Rightarrow> string list" where
  "split_alnum s = foldr (\<lambda>x acc. if is_alnum x then (x # hd acc) # tl acc else [] # acc) s [[]]"

fun capitalize :: "string \<Rightarrow> string" where
  "capitalize [] = []"
| "capitalize (c # cs) = js_upper c # cs"

definition method_name :: "string \<Rightarrow> string \<Rightarrow> string \<Rightarrow> string" where
  "method_name api meth path = api @ capitalize meth @ concat (map capitalize (split_alnum path))"

text \<open>Each generated method with its scope, its upper-case HTTP method and its path.\<close>

definition endpoints :: "(string \<times> string \<times> string \<times> string) list" where
  "endpoints = concat (map (\<lambda>(api, ms). concat (map (\<lambda>(meth, paths).
       map (\<lambda>path. (method_name api meth path, api, map js_upper meth, path)) paths) ms)) api_table)"

definition endpoint_of :: "string \<Rightarrow> (string \<times> string \<times> string) option" where
  "endpoint_of name = map_of endpoints name"

section \<open>A call\<close>

text \<open>The HTTP exchange: a signed request answered by the parsed JSON response (absent when
  the body is not JSON) and the raw body.\<close>

type_synonym http = "request \<Rightarrow> json option \<times> string option"

definition api_call :: "exchange \<Rightarrow> http \<Rightarrow> caller" where
  "api_call ex http name ps =
     (case endpoint_of name of
        None \<Rightarrow> throw TypeError (''this[method] is not a function'')
      | Some (api, meth, path) \<Rightarrow>
          bindR (sign ex path api meth ps None None) (\<lambda>r.
            (case http r of (resp, bdy) \<Rightarrow>
              (case handle_errors resp bdy of Some e \<Rightarrow> Inl e | None \<Rightarrow> Inr resp))))"

section \<open>Lemmas\<close>

lemmas endpoint_eval = endpoint_of_def endpoints_def api_table_def method_name_def split_alnum_def
  is_alnum_def js_upper_def

lemma endpoints_table:
  "endpoints = [
     (''publicGetContractsActive'', ''public'', ''GET'', ''contracts/active''),
     (''publicGetContractsSymbol'', ''public'', ''GET'', ''contracts/{symbol}''),
     (''publicGetTicker'', ''public'', ''GET'', ''ticker''),
     (''publicGetTickers'', ''public'', ''GET'', ''tickers''),
     (''publicGetLevel2Snapshot'', ''public'', ''GET'', ''level2/snapshot''),
     (''publicGetLevel2Depth'', ''public'', ''GET'', ''level2/depth''),
     (''publicGetLevel2MessageQuery'', ''public'', ''GET'', ''level2/message/query''),
     (''publicGetLevel3Snapshot'', ''public'', ''GET'', ''level3/snapshot''),
     (''publicGetTradeHistory'', ''public'', ''GET'', ''trade/history''),
     (''publicGetInterestQuery'', ''public'', ''GET'', ''interest/query''),
     (''publicGetIndexQuery'', ''public'', ''GET'', ''index/query''),
     (''publicGetMarkPriceSymbolCurrent'', ''public'', ''GET'', ''mark-price/{symbol}/current''),
     (''publicGetPremiumQuery'', ''public'', ''GET'', ''premium/query''),
     (''publicGetFundingRateSymbolCurrent'', ''public'', ''GET'', ''funding-rate/{symbol}/current''),
     (''publicGetTimestamp'', ''public'', ''GET'', ''timestamp''),
     (''publicGetStatus'', ''public'', ''GET'', ''status''),
     (''publicGetKlineQuery'', ''public'', ''GET'', ''kline/query''),
     (''publicPostBulletPublic'', ''public'', ''POST'', ''bullet-public''),
     (''privateGetAccountOverview'', ''private'', ''GET'', ''account-overview''),
     (''privateGetTransactionHistory'', ''private'', ''GET'', ''transaction-history''),
     (''privateGetOrders'', ''private'', ''GET'', ''orders''),
     (''privateGetStopOrders'', ''private'', ''GET'', ''stopOrders''),
     (''privateGetRecentDoneOrders'', ''private'', ''GET'', ''recentDoneOrders''),
     (''privateGetOrdersOrderId'', ''private'', ''GET'', ''orders/{order-id}''),
     (''privateGetFills'', ''private'', ''GET'', ''fills''),
     (''privateGetOpenOrderStatistics'', ''private'', ''GET'', ''openOrderStatistics''),
     (''privateGetPosition'', ''private'', ''GET'', ''position''),
     (''privateGetPositions'', ''private'', ''GET'', ''positions''),
     (''privateGetFundingHistory'', ''private'', ''GET'', ''funding-history''),
     (''privateGetMarginTypeQuery'', ''private'', ''GET'', ''marginType/query''),
     (''privatePostOrders'', ''private'', ''POST'', ''orders''),
     (''privatePostBatchOrders'', ''private'', ''POST'', ''batchOrders''),
     (''privatePostPositionMarginAutoDepositStatus'', ''private'', ''POST'', ''position/margin/auto-deposit-status''),
     (''privatePostPositionMarginDepositMargin'', ''private'', ''POST'', ''position/margin/deposit-margin''),
     (''privatePostBulletPrivate'', ''private'', ''POST'', ''bullet-private''),
     (''privatePostMarginTypeChange'', ''private'', ''POST'', ''marginType/change''),
     (''privateDeleteOrdersOrderId'', ''private'', ''DELETE'', ''orders/{order-id}''),
     (''privateDeleteOrders'', ''private'', ''DELETE'', ''orders''),
     (''privateDeleteStopOrders'', ''private'', ''DELETE'', ''stopOrders'')]"
  by code_simp

lemma endpoint_delete_order: "endpoint_of ''privateDeleteOrdersOrderId'' = Some (''private'', ''DELETE'', ''orders/{order-id}'')"
  by (simp add: endpoint_of_def endpoints_table)

lemma endpoint_by_client_oid: "endpoint_of ''privateGetOrdersByClientOid'' = None"
  by (simp add: endpoint_of_def endpoints_table)


lemma api_call_unknown:
  "endpoint_of name = None \<Longrightarrow> api_call ex http name ps = throw TypeError ''this[method] is not a function''"
  by (simp add: api_call_def)

lemma api_call_signed:
  assumes "endpoint_of name = Some (api, meth, path)" "sign ex path api meth ps None None = Inr r"
  shows "api_call ex http name ps =
           (case handle_errors (fst (http r)) (snd (http r)) of Some e \<Rightarrow> Inl e | None \<Rightarrow> Inr (fst (http r)))"
  using assms by (auto simp: api_call_def split: prod.split option.split)

lemma api_call_unsigned:
  assumes "endpoint_of name = Some (api, meth, path)" "sign ex path api meth ps None None = Inl e"
  shows "api_call ex http name ps = Inl e"
  using assms by (simp add: api_call_def)

end
