(* ===== verification/Markets.thy ===== *)
theory Markets
  imports Exchange_Base
begin

text \<open>
  The Market Normalizer: the loop body of \<open>fetchMarkets\<close> (\<open>src/js/poloniexfutures.js\<close>,
  lines 268--339) as \<open>parse_market\<close>, the loop as \<open>fetch_markets\<close>, and the market registry
  the normalizers read through the base's \<open>safeMarket\<close> and \<open>market (symbol)\<close>. The
  registry's code (\<open>loadMarkets\<close>/\<open>setMarkets\<close> of the base) is not in the repository; it is
  modelled from the spec (section 3, "Market ... cached process-wide") as two lookup tables
  built from the list of markets.
\<close>

section \<open>The market record\<close>

text \<open>The fields of the object pushed by \<open>fetchMarkets\<close> that carry information; the ones
  the source sets to constant \<open>undefined\<close> (\<open>expiry\<close>, \<open>strike\<close>, \<open>optionType\<close>, the cost
  limits) are left out. Numbers are kept as their decimal text.\<close>

record market =
  market_id :: "string option"
  symbol :: string
  base :: "string option"
  quote :: "string option"
  settle :: "string option"
  baseId :: "string option"
  quoteId :: "string option"
  settleId :: "string option"
  mtype :: "string option"
  swap :: bool
  active :: "bool option"
  contract :: bool
  linear :: "bool option"
  inverse :: "json option"
  taker :: "string option"
  maker :: "string option"
  contractSize :: "string option"
  precision_amount :: "string option"
  precision_price :: "string option"
  leverage_min :: "string option"
  leverage_max :: "string option"
  amount_min :: "string option"
  amount_max :: "string option"
  price_min :: "string option"
  price_max :: "string option"
  minfo :: "json option"

section \<open>fetchMarkets\<close>

text \<open>One contract listing (lines 272--337). \<open>Precise.stringAbs (multiplier)\<close> throws on a
  malformed multiplier.\<close>

definition parse_market :: "(string \<Rightarrow> string) \<Rightarrow> json \<Rightarrow> market res" where
  "parse_market canon mj =
     (let m = Some mj;
          mid = safe_string m ''symbol'' None;
          bId = safe_string m ''baseCurrency'' None;
          qId = safe_string m ''quoteCurrency'' None;
          sId = safe_string m ''rootSymbol'' None;
          b = safe_currency_code canon bId;
          q = safe_currency_code canon qId;
          st = safe_currency_code canon sId;
          smb = js_str b @ ''/'' @ js_str q @ '':'' @ js_str st;
          inv = safe_value m ''isInverse'' None;
          status = safe_string m ''status'' None;
          multiplier = safe_string m ''multiplier'' None;
          tickSize = safe_number m ''indexPriceTickSize'';
          lotSize = safe_number m ''lotSize'';
          limitAmountMax = safe_number m ''maxOrderQty'';
          limitPriceMax = safe_number m ''maxPrice''
      in bindR (string_abs multiplier) (\<lambda>cs.
           Inr \<lparr>market_id = mid, symbol = smb, base = b, quote = q, settle = st,
                baseId = bId, quoteId = qId, settleId = sId, mtype = Some ''swap'', swap = True,
                active = Some (status = Some ''Open''), contract = True,
                linear = Some (\<not> js_truthy inv), inverse = inv,
                taker = safe_number m ''takerFeeRate'', maker = safe_number m ''makerFeeRate'',
                contractSize = cs, precision_amount = lotSize, precision_price = tickSize,
                leverage_min = Some ''1'', leverage_max = safe_number m ''maxLeverage'',
                amount_min = lotSize, amount_max = limitAmountMax,
                price_min = tickSize, price_max = limitPriceMax, minfo = m\<rparr>))"

text \<open>\<open>for (i = 0; i < data.length; i++) result.push (...)\<close>: the first throw aborts.\<close>

fun parse_market_list :: "(string \<Rightarrow> string) \<Rightarrow> json list \<Rightarrow> market list res" where
  "parse_market_list canon [] = Inr []"
| "parse_market_list canon (m # ms) =
     bindR (parse_market canon m) (\<lambda>mk. bindR (parse_market_list canon ms) (\<lambda>mks. Inr (mk # mks)))"

text \<open>\<open>data = safeValue (response, 'data', [])\<close>; a value without a \<open>length\<close> gives no markets,
  and a string is iterated character by character.\<close>

definition fetch_markets :: "(string \<Rightarrow> string) \<Rightarrow> json option \<Rightarrow> market list res" where
  "fetch_markets canon response =
     (case safe_value response ''data'' (Some (JArr [])) of
        Some (JArr xs) \<Rightarrow> parse_market_list canon xs
      | Some (JStr s) \<Rightarrow> parse_market_list canon (map (\<lambda>c. JStr [c]) s)
      | _ \<Rightarrow> Inr [])"

section \<open>The market registry\<close>

record registry =
  markets :: "string \<rightharpoonup> market"
  markets_by_id :: "string \<rightharpoonup> market"
  currency_code :: "string \<Rightarrow> string"

text \<open>\<open>setMarkets\<close>: index the loaded markets by symbol and by id; a later market wins.\<close>

definition index_by :: "('a \<Rightarrow> string option) \<Rightarrow> 'a list \<Rightarrow> string \<rightharpoonup> 'a" where
  "index_by key xs = fold (\<lambda>x m. case key x of None \<Rightarrow> m | Some k \<Rightarrow> m(k \<mapsto> x)) xs Map.empty"

definition load_markets :: "(string \<Rightarrow> string) \<Rightarrow> market list \<Rightarrow> registry" where
  "load_markets canon mks = \<lparr>markets = index_by (\<lambda>mk. Some (symbol mk)) mks,
     markets_by_id = index_by market_id mks, currency_code = canon\<rparr>"

text \<open>\<open>this.market (symbol)\<close>: the loaded market of that unified symbol, else the market of
  that exchange id, else \<open>BadSymbol\<close>.\<close>

definition market_of :: "registry \<Rightarrow> string \<Rightarrow> market res" where
  "market_of reg smb = (case markets reg smb of
      Some mk \<Rightarrow> Inr mk
    | None \<Rightarrow> (case markets_by_id reg smb of
        Some mk \<Rightarrow> Inr mk
      | None \<Rightarrow> throw BadSymbol (exchange_id @ '' does not have market symbol '' @ smb)))"

text \<open>The placeholder market \<open>safeMarket\<close> builds for an unknown id.\<close>

definition default_market :: "string option \<Rightarrow> market" where
  "default_market mid = \<lparr>market_id = mid, symbol = js_str mid, base = None, quote = None,
     settle = None, baseId = None, quoteId = None, settleId = None, mtype = None, swap = False,
     active = None, contract = False, linear = None, inverse = None, taker = None, maker = None,
     contractSize = None, precision_amount = None, precision_price = None, leverage_min = None,
     leverage_max = None, amount_min = None, amount_max = None, price_min = None, price_max = None,
     minfo = None\<rparr>"

definition split_on :: "char \<Rightarrow> string \<Rightarrow> string list" where
  "split_on c s = foldr (\<lambda>x acc. if x = c then [] # acc else (x # hd acc) # tl acc) s [[]]"

text \<open>\<open>safeMarket (marketId, market, delimiter)\<close>: the registry's market for the id; for an
  unknown id with a delimiter, a placeholder (with base and quote when the id splits in two);
  else the given market; else a placeholder.\<close>

definition safe_market :: "registry \<Rightarrow> string option \<Rightarrow> market option \<Rightarrow> char option \<Rightarrow> market" where
  "safe_market reg mid mk delim =
     (let fallback = (case mk of Some m \<Rightarrow> m | None \<Rightarrow> default_market mid)
      in case mid of
           None \<Rightarrow> fallback
         | Some i \<Rightarrow>
             (case markets_by_id reg i of
                Some m \<Rightarrow> m
              | None \<Rightarrow>
                  (case delim of
                     None \<Rightarrow> fallback
                   | Some c \<Rightarrow>
                       (case split_on c i of
                          [bi, qi] \<Rightarrow>
                            let bId = (if bi = [] then None else Some bi);
                                qId = (if qi = [] then None else Some qi);
                                b = safe_currency_code (currency_code reg) bId;
                                q = safe_currency_code (currency_code reg) qId
                            in (default_market mid)\<lparr>baseId := bId, quoteId := qId,
                                 base := b, quote := q, symbol := js_str b @ ''/'' @ js_str q\<rparr>
                        | _ \<Rightarrow> default_market mid))))"

text \<open>\<open>safeSymbol (marketId, market, delimiter)\<close>: the symbol of \<open>safeMarket\<close>.\<close>

definition safe_symbol :: "registry \<Rightarrow> string option \<Rightarrow> market option \<Rightarrow> char option \<Rightarrow> string" where
  "safe_symbol reg mid mk delim = symbol (safe_market reg mid mk delim)"

text \<open>\<open>market['id']\<close> as a request value (\<open>undefined\<close> serialises as \<open>null\<close>).\<close>

definition market_id_json :: "market \<Rightarrow> json" where
  "market_id_json m = (case market_id m of Some i \<Rightarrow> JStr i | None \<Rightarrow> JNull)"

section \<open>Lemmas\<close>

lemmas parse_market_unfold = parse_market_def Let_def

lemma parse_market_Inr:
  "parse_market canon mj = Inr mk \<Longrightarrow> string_abs (safe_string (Some mj) ''multiplier'' None) = Inr (contractSize mk)"
  by (auto simp: parse_market_unfold bindR_eq_Inr_iff)

text \<open>A parsed market is active exactly when its status is Open.\<close>

theorem parse_market_active:
  "parse_market canon mj = Inr mk \<Longrightarrow> active mk = Some (safe_string (Some mj) ''status'' None = Some ''Open'')"
  by (auto simp: parse_market_unfold bindR_eq_Inr_iff)

text \<open>C28: A parsed market's symbol is base/quote:settle with base, quote and settle the canonical codes of baseCurrency, quoteCurrency and rootSymbol.\<close>

theorem parse_market_symbol:
  "parse_market canon mj = Inr mk \<Longrightarrow>
     symbol mk = js_str (base mk) @ ''/'' @ js_str (quote mk) @ '':'' @ js_str (settle mk)
     \<and> base mk = map_option canon (safe_string (Some mj) ''baseCurrency'' None)
     \<and> quote mk = map_option canon (safe_string (Some mj) ''quoteCurrency'' None)
     \<and> settle mk = map_option canon (safe_string (Some mj) ''rootSymbol'' None)"
  by (auto simp: parse_market_unfold bindR_eq_Inr_iff safe_currency_code_def)

text \<open>A parsed market is linear exactly when isInverse is not truthy.\<close>

theorem parse_market_linear:
  "parse_market canon mj = Inr mk \<Longrightarrow> linear mk = Some (\<not> js_truthy (inverse mk))"
  by (auto simp: parse_market_unfold bindR_eq_Inr_iff)

text \<open>A parsed market's contractSize is a decimal string whose value is the absolute value of the multiplier.\<close>

theorem parse_market_contract_size:
  assumes "parse_market canon mj = Inr mk"
    and "safe_string (Some mj) ''multiplier'' None = Some mult" and "precise_of_string mult = Some p"
  shows "\<exists>c q. contractSize mk = Some c \<and> precise_of_string c = Some q \<and> pval q = \<bar>pval p\<bar>"
proof -
  have "string_abs (Some mult) = Inr (contractSize mk)"
    using parse_market_Inr [OF assms(1)] assms(2) by simp
  then show ?thesis using string_abs_value [OF _ assms(3)] by blast
qed

text \<open>Parsing a contract succeeds whenever its multiplier is absent or a valid number.\<close>

theorem parse_market_total:
  assumes "\<forall>mult. safe_string (Some mj) ''multiplier'' None = Some mult \<longrightarrow> precise_of_string mult \<noteq> None"
  shows "\<exists>mk. parse_market canon mj = Inr mk"
proof (cases "safe_string (Some mj) ''multiplier'' None")
  case None
  then show ?thesis by (simp add: parse_market_unfold string_abs_def)
next
  case (Some mult)
  with assms obtain p where "precise_of_string mult = Some p" by auto
  with Some show ?thesis by (simp add: parse_market_unfold string_abs_def parse_precise_def)
qed

text \<open>A contract whose multiplier is not a number makes the parse raise the SyntaxError of BigInt.\<close>

theorem parse_market_bad_multiplier:
  assumes "safe_string (Some mj) ''multiplier'' None = Some mult" and "precise_of_string mult = None"
  shows "parse_market canon mj = Inl (SyntaxError, ''Cannot convert '' @ mult @ '' to a BigInt'')"
  using assms by (simp add: parse_market_unfold string_abs_def parse_precise_def throw_def)

lemma parse_market_list_length:
  "parse_market_list canon xs = Inr mks \<Longrightarrow> length mks = length xs"
  by (induction xs arbitrary: mks) (auto simp: bindR_eq_Inr_iff)

lemma parse_market_list_nth:
  "parse_market_list canon xs = Inr mks \<Longrightarrow> i < length xs \<Longrightarrow> parse_market canon (xs ! i) = Inr (mks ! i)"
proof (induction xs arbitrary: mks i)
  case Nil
  then show ?case by simp
next
  case (Cons x xs)
  then obtain mk mks' where "parse_market canon x = Inr mk" "parse_market_list canon xs = Inr mks'"
      "mks = mk # mks'"
    by (auto simp: bindR_eq_Inr_iff)
  with Cons show ?case by (cases i) auto
qed

text \<open>fetchMarkets returns one market per entry of data, in order, each the parse of that entry.\<close>

theorem fetch_markets_each:
  assumes "fetch_markets canon response = Inr mks"
    and "safe_value response ''data'' (Some (JArr [])) = Some (JArr xs)"
  shows "length mks = length xs \<and> (\<forall>i < length xs. parse_market canon (xs ! i) = Inr (mks ! i))"
  using assms parse_market_list_length parse_market_list_nth by (auto simp: fetch_markets_def)

lemma index_by_Some:
  "index_by key xs k = Some x \<Longrightarrow> x \<in> set xs \<and> key x = Some k"
proof -
  have "\<And>m. fold (\<lambda>x m. case key x of None \<Rightarrow> m | Some k \<Rightarrow> m(k \<mapsto> x)) xs m k = Some y \<Longrightarrow>
            m k = Some y \<or> (y \<in> set xs \<and> key y = Some k)" for y
    by (induction xs) (fastforce split: option.splits if_splits)+
  then show "index_by key xs k = Some x \<Longrightarrow> x \<in> set xs \<and> key x = Some k"
    by (fastforce simp: index_by_def)
qed

lemma index_by_found:
  "x \<in> set xs \<Longrightarrow> key x = Some k \<Longrightarrow> \<exists>y. index_by key xs k = Some y"
proof -
  have "\<And>m. (\<exists>y. m k = Some y) \<or> (\<exists>x \<in> set xs. key x = Some k) \<Longrightarrow>
          \<exists>y. fold (\<lambda>x m. case key x of None \<Rightarrow> m | Some k \<Rightarrow> m(k \<mapsto> x)) xs m k = Some y"
    by (induction xs) (auto split: option.splits)
  then show "x \<in> set xs \<Longrightarrow> key x = Some k \<Longrightarrow> \<exists>y. index_by key xs k = Some y"
    by (auto simp: index_by_def)
qed

theorem load_markets_lookup:
  assumes "mk \<in> set mks"
  shows "\<exists>m. market_of (load_markets canon mks) (symbol mk) = Inr m \<and> m \<in> set mks \<and> symbol m = symbol mk"
proof -
  obtain m where "index_by (\<lambda>mk. Some (symbol mk)) mks (symbol mk) = Some m"
    using index_by_found [OF assms, of "\<lambda>mk. Some (symbol mk)"] by auto
  then show ?thesis using index_by_Some [of "\<lambda>mk. Some (symbol mk)" mks]
    by (auto simp: market_of_def load_markets_def)
qed

end
