(* ===== verification/Market_Data.thy ===== *)
theory Market_Data
  imports Markets "HOL-Library.Multiset"
begin

text \<open>
  The public market data of \<open>src/js/poloniexfutures.js\<close>: \<open>parseTicker\<close>, \<open>fetchTicker\<close>
  and \<open>fetchTickers\<close> (lines 342--421), \<open>fetchOrderBook\<close> and \<open>fetchL3OrderBook\<close>
  (423--523) with the base's \<open>parseOrderBook\<close>, and \<open>parseTrade\<close>, \<open>fetchTrades\<close> and
  \<open>fetchMyTrades\<close> (525--653, 1480--1544). Each record is the object handed to the base's
  \<open>safeTicker\<close> or \<open>safeTrade\<close> (whose completion of derived fields is not modelled), without
  the fields the adapter always leaves \<open>undefined\<close> and without \<open>datetime\<close>.
  Exchange timestamps in nanoseconds are scaled by \<open>10^-6\<close> exactly.
\<close>

section \<open>Tickers\<close>

record ticker =
  tk_symbol :: string
  tk_timestamp :: "int option"
  tk_bid :: "string option"
  tk_bid_volume :: "string option"
  tk_ask :: "string option"
  tk_ask_volume :: "string option"
  tk_close :: "string option"
  tk_last :: "string option"
  tk_base_volume :: "string option"
  tk_info :: "json option"

definition parse_ticker :: "registry \<Rightarrow> market option \<Rightarrow> json option \<Rightarrow> ticker" where
  "parse_ticker reg mkt t =
     (let marketId = safe_string t ''symbol'' None;
          smb = safe_symbol reg marketId mkt None;
          timestamp = safe_integer_product t ''ts'' (1 / 1000000);
          last = safe_string t ''price'' None
      in \<lparr>tk_symbol = smb, tk_timestamp = timestamp,
          tk_bid = safe_string t ''bestBidPrice'' None, tk_bid_volume = safe_string t ''bestBidSize'' None,
          tk_ask = safe_string t ''bestAskPrice'' None, tk_ask_volume = safe_string t ''bestAskSize'' None,
          tk_close = last, tk_last = last, tk_base_volume = safe_string t ''size'' None, tk_info = t\<rparr>)"

definition fetch_ticker :: "registry \<Rightarrow> caller \<Rightarrow> string \<Rightarrow> params \<Rightarrow> ticker res" where
  "fetch_ticker reg call smb params =
     bindR (market_of reg smb) (\<lambda>m.
       bindR (call ''publicGetTicker'' (Exchange_Base.extend [(''symbol'', market_id_json m)] params)) (\<lambda>response.
         Inr (parse_ticker reg (Some m) (safe_value response ''data'' (Some (JObj []))))))"



section \<open>Order books\<close>

type_synonym book_entry = "string option \<times> string option"

record order_book =
  ob_symbol :: string
  ob_bids :: "book_entry list"
  ob_asks :: "book_entry list"
  ob_timestamp :: "int option"
  ob_nonce :: "int option"

text \<open>\<open>parseBidAsk (bidask, priceKey, amountKey)\<close>: price and amount at the two positions.\<close>

definition parse_bid_ask :: "nat \<Rightarrow> nat \<Rightarrow> json \<Rightarrow> book_entry" where
  "parse_bid_ask pk ak e = (safe_string_idx (Some e) pk, safe_string_idx (Some e) ak)"

text \<open>The sort keys of \<open>sortBy (bids, 0, true)\<close> and \<open>sortBy (asks, 0)\<close>: the price's value,
  negated for the bids so that a stable ascending sort lists them from the highest.\<close>

definition ask_key :: "book_entry \<Rightarrow> rat option" where
  "ask_key e = Option.bind (fst e) str_val"

definition bid_key :: "book_entry \<Rightarrow> rat option" where
  "bid_key e = map_option uminus (ask_key e)"

definition parse_order_book ::
  "string \<Rightarrow> int option \<Rightarrow> json option \<Rightarrow> string \<Rightarrow> string \<Rightarrow> nat \<Rightarrow> nat \<Rightarrow> order_book" where
  "parse_order_book smb ts data bidsKey asksKey pk ak =
     \<lparr>ob_symbol = smb,
      ob_bids = sort_key bid_key (map (parse_bid_ask pk ak) (js_to_array (safe_value data bidsKey (Some (JArr []))))),
      ob_asks = sort_key ask_key (map (parse_bid_ask pk ak) (js_to_array (safe_value data asksKey (Some (JArr []))))),
      ob_timestamp = ts, ob_nonce = None\<rparr>"

text \<open>\<open>level\<close> is read as a number: present and neither 2 nor 3 (a string that is not a
  number included) is \<open>BadRequest\<close>, raised before the market lookup and any call; level 3 reads
  the order id, price and size entries at positions 1 and 2. \<open>limit\<close> is not used.\<close>

definition fetch_order_book :: "registry \<Rightarrow> caller \<Rightarrow> string \<Rightarrow> nat option \<Rightarrow> params \<Rightarrow> order_book res" where
  "fetch_order_book reg call smb limit params0 =
     (let level = safe_number (Some (JObj params0)) ''level'';
          lv = Option.bind level str_val;
          params = omit params0 [''level'']
      in if level \<noteq> None \<and> lv \<noteq> Some 2 \<and> lv \<noteq> Some 3
         then throw BadRequest (exchange_id @ '' fetchOrderBook() can only return level 2 & 3'')
         else bindR (market_of reg smb) (\<lambda>m.
           bindR (call (if lv = Some 3 then ''publicGetLevel3Snapshot'' else ''publicGetLevel2Snapshot'')
                       (Exchange_Base.extend [(''symbol'', market_id_json m)] params)) (\<lambda>response.
             let data = safe_value response ''data'' (Some (JObj []));
                 timestamp = safe_integer_product data ''ts'' (1 / 1000000);
                 orderbook = (if lv = Some 3 then parse_order_book (symbol m) timestamp data ''bids'' ''asks'' 1 2
                              else parse_order_book (symbol m) timestamp data ''bids'' ''asks'' 0 1)
             in Inr (orderbook\<lparr>ob_nonce := safe_integer data ''sequence''\<rparr>))))"

text \<open>\<open>fetchL3OrderBook (symbol)\<close>: \<open>fetchOrderBook\<close> of the market's exchange id at level 3;
  the caller's parameters are not passed on.\<close>

definition fetch_l3_order_book :: "registry \<Rightarrow> caller \<Rightarrow> string \<Rightarrow> params \<Rightarrow> order_book res" where
  "fetch_l3_order_book reg call smb params =
     bindR (market_of reg smb) (\<lambda>m. fetch_order_book reg call (js_str (market_id m)) None [(''level'', JNum ''3'')])"

section \<open>Trades\<close>

record trade_fee =
  fee_cost :: string
  fee_currency :: "string option"
  fee_rate :: "string option"

record trade =
  tr_id :: "string option"
  tr_order :: "string option"
  tr_timestamp :: "int option"
  tr_symbol :: string
  tr_type :: "string option"
  tr_taker_or_maker :: "string option"
  tr_side :: "string option"
  tr_price :: "string option"
  tr_amount :: "string option"
  tr_cost :: "string option"
  tr_fee :: "trade_fee option"
  tr_info :: "json option"

text \<open>The timestamp: \<open>ts\<close> in nanoseconds, truncated to milliseconds; else \<open>createdAt\<close>,
  in seconds (scaled by 1000) when the entry has a \<open>dealValue\<close> key.\<close>

definition trade_timestamp :: "json option \<Rightarrow> int option" where
  "trade_timestamp t = (case safe_integer t ''ts'' of
      Some ts \<Rightarrow> Some (rtrunc (of_int ts / 1000000))
    | None \<Rightarrow> (let c = safe_integer t ''createdAt''
              in if has_key t ''dealValue'' \<and> c \<noteq> None then map_option (\<lambda>x. x * 1000) c else c))"

text \<open>The fee, when \<open>fee\<close> is present: its currency defaults to the market's quote for a sell
  and to its base otherwise.\<close>

definition trade_fee_of :: "registry \<Rightarrow> market \<Rightarrow> json option \<Rightarrow> string option \<Rightarrow> trade_fee option" where
  "trade_fee_of reg mk t side =
     (case safe_string t ''fee'' None of
        None \<Rightarrow> None
      | Some feeCost \<Rightarrow>
          let feeCurrency = safe_currency_code (currency_code reg) (safe_string t ''feeCurrency'' None);
              feeCurrency = (if feeCurrency = None then (if side = Some ''sell'' then quote mk else base mk)
                             else feeCurrency)
          in Some \<lparr>fee_cost = feeCost, fee_currency = feeCurrency, fee_rate = safe_string t ''feeRate'' None\<rparr>)"

definition parse_trade :: "registry \<Rightarrow> market option \<Rightarrow> json option \<Rightarrow> trade" where
  "parse_trade reg mkt t =
     (let marketId = safe_string t ''symbol'' None;
          market = safe_market reg marketId mkt (Some CHR ''-'');
          side = safe_string t ''side'' None;
          type = safe_string t ''orderType'' None;
          type = (if type = Some ''match'' then None else type)
      in \<lparr>tr_id = safe_string t ''tradeId'' None, tr_order = safe_string t ''orderId'' None,
          tr_timestamp = trade_timestamp t, tr_symbol = symbol market, tr_type = type,
          tr_taker_or_maker = safe_string t ''liquidity'' None, tr_side = side,
          tr_price = safe_string t ''price'' None, tr_amount = safe_string t ''size'' None,
          tr_cost = safe_string t ''value'' None, tr_fee = trade_fee_of reg market t side, tr_info = t\<rparr>)"

definition parse_trades :: "registry \<Rightarrow> json list \<Rightarrow> market option \<Rightarrow> int option \<Rightarrow> nat option \<Rightarrow> trade list res" where
  "parse_trades reg xs mkt since limit =
     parse_sorted_list (\<lambda>x. Inr (parse_trade reg mkt (Some x))) (\<lambda>t. Some (tr_symbol t)) tr_timestamp xs
       (map_option symbol mkt) since limit"

definition fetch_trades ::
  "registry \<Rightarrow> caller \<Rightarrow> string \<Rightarrow> int option \<Rightarrow> nat option \<Rightarrow> params \<Rightarrow> trade list res" where
  "fetch_trades reg call smb since limit params =
     bindR (market_of reg smb) (\<lambda>m.
       bindR (call ''publicGetTradeHistory'' (Exchange_Base.extend [(''symbol'', market_id_json m)] params)) (\<lambda>response.
         parse_trades reg (js_to_array (safe_value response ''data'' (Some (JArr [])))) (Some m) since limit))"

definition fetch_my_trades ::
  "registry \<Rightarrow> caller \<Rightarrow> string option \<Rightarrow> int option \<Rightarrow> nat option \<Rightarrow> params \<Rightarrow> trade list res" where
  "fetch_my_trades reg call smb since limit params =
     bindR (case smb of
              None \<Rightarrow> Inr ([], None)
            | Some s \<Rightarrow> bindR (market_of reg s) (\<lambda>m. Inr ([(''symbol'', market_id_json m)], Some m)))
       (\<lambda>(request, market).
          let request = (case since of None \<Rightarrow> request | Some t \<Rightarrow> obj_set request ''startAt'' (JNum (int_str t)))
          in bindR (call ''privateGetFills'' (Exchange_Base.extend request params)) (\<lambda>response.
               let data = safe_value response ''data'' (Some (JObj []))
               in parse_trades reg (js_to_array (safe_value data ''items'' (Some (JObj [])))) market since limit))"

section \<open>Lemmas\<close>

subsection \<open>Nanoseconds to milliseconds\<close>





subsection \<open>Tickers\<close>


subsection \<open>Order books\<close>

lemma parse_order_book_sorted:
  "sorted (map bid_key (ob_bids (parse_order_book smb ts data bk ak pk vk)))
   \<and> sorted (map ask_key (ob_asks (parse_order_book smb ts data bk ak pk vk)))"
  by (simp add: parse_order_book_def sorted_sort_key)

lemma parse_order_book_mset:
  "mset (ob_bids (parse_order_book smb ts data bk ak pk vk))
     = mset (map (parse_bid_ask pk vk) (js_to_array (safe_value data bk (Some (JArr [])))))
   \<and> mset (ob_asks (parse_order_book smb ts data bk ak pk vk))
     = mset (map (parse_bid_ask pk vk) (js_to_array (safe_value data ak (Some (JArr [])))))"
  by (simp add: parse_order_book_def mset_sort)

lemma bid_key_order:
  "bid_key a \<le> bid_key b \<Longrightarrow> ask_key a = Some x \<Longrightarrow> ask_key b = Some y \<Longrightarrow> y \<le> x"
  by (simp add: bid_key_def)

text \<open>C29: fetchOrderBook with a level parameter that is neither 2 nor 3 raises BadRequest before any market lookup or request.\<close>

theorem fetch_order_book_level_rejected:
  assumes "safe_number (Some (JObj params)) ''level'' = Some l" "str_val l \<notin> {Some 2, Some 3}"
  shows "fetch_order_book reg call smb limit params =
           throw BadRequest (exchange_id @ '' fetchOrderBook() can only return level 2 & 3'')"
  using assms by (auto simp: fetch_order_book_def Let_def)

text \<open>C12: A successful fetchOrderBook called the level 2 or level 3 snapshot of the market's id without the level parameter, and returns the book of that market whose bids are the response's bids (as a multiset, read at positions 1,2 for level 3 and 0,1 otherwise) sorted by descending price, whose asks are sorted by ascending price, and whose nonce is data.sequence.\<close>

theorem fetch_order_book_shape:
  assumes "fetch_order_book reg call smb limit params = Inr ob"
  shows "\<exists>m resp pk vk.
           market_of reg smb = Inr m \<and> ob_symbol ob = symbol m
           \<and> call (if Option.bind (safe_number (Some (JObj params)) ''level'') str_val = Some 3
                   then ''publicGetLevel3Snapshot'' else ''publicGetLevel2Snapshot'')
                  (Exchange_Base.extend [(''symbol'', market_id_json m)] (omit params [''level''])) = Inr resp
           \<and> (pk, vk) = (if Option.bind (safe_number (Some (JObj params)) ''level'') str_val = Some 3
                         then (1, 2) else (0, 1))
           \<and> mset (ob_bids ob) = mset (map (parse_bid_ask pk vk)
                 (js_to_array (safe_value (safe_value resp ''data'' (Some (JObj []))) ''bids'' (Some (JArr [])))))
           \<and> mset (ob_asks ob) = mset (map (parse_bid_ask pk vk)
                 (js_to_array (safe_value (safe_value resp ''data'' (Some (JObj []))) ''asks'' (Some (JArr [])))))
           \<and> sorted (map bid_key (ob_bids ob)) \<and> sorted (map ask_key (ob_asks ob))
           \<and> ob_nonce ob = safe_integer (safe_value resp ''data'' (Some (JObj []))) ''sequence''"
proof -
  define lv where "lv = Option.bind (safe_number (Some (JObj params)) ''level'') str_val"
  define pk :: nat where "pk = (if lv = Some 3 then 1 else 0)"
  define vk :: nat where "vk = (if lv = Some 3 then 2 else 1)"
  obtain m resp where m: "market_of reg smb = Inr m"
    and r: "call (if lv = Some 3 then ''publicGetLevel3Snapshot'' else ''publicGetLevel2Snapshot'')
              (Exchange_Base.extend [(''symbol'', market_id_json m)] (omit params [''level''])) = Inr resp"
    and ob: "ob = (parse_order_book (symbol m)
                    (safe_integer_product (safe_value resp ''data'' (Some (JObj []))) ''ts'' (1 / 1000000))
                    (safe_value resp ''data'' (Some (JObj []))) ''bids'' ''asks'' pk vk)
                  \<lparr>ob_nonce := safe_integer (safe_value resp ''data'' (Some (JObj []))) ''sequence''\<rparr>"
    using assms unfolding pk_def vk_def
    by (cases "lv = Some 3") (auto simp: fetch_order_book_def Let_def lv_def bindR_eq_Inr_iff split: if_splits)
  have "(pk, vk) = (if lv = Some 3 then (1, 2) else (0, 1))" by (simp add: pk_def vk_def)
  then show ?thesis
    using m r parse_order_book_sorted [of "symbol m"] parse_order_book_mset [of "symbol m"] unfolding ob lv_def
    by (intro exI [of _ m] exI [of _ resp] exI [of _ pk] exI [of _ vk]) (simp add: parse_order_book_def)
qed

text \<open>The order book ignores \<open>limit\<close>, and \<open>fetchL3OrderBook\<close> the caller's parameters.\<close>

lemma fetch_order_book_limit_unused:
  "fetch_order_book reg call smb limit params = fetch_order_book reg call smb None params"
  by (simp add: fetch_order_book_def)

lemma fetch_l3_order_book_params_unused:
  "fetch_l3_order_book reg call smb params = fetch_l3_order_book reg call smb []"
  by (simp add: fetch_l3_order_book_def)

subsection \<open>Trades\<close>

text \<open>C15: When a trade has a fee but no feeCurrency, parseTrade's fee currency is the market's quote for a sell and its base otherwise, with the fee cost and rate from the entry.\<close>

theorem parse_trade_fee_default:
  assumes "safe_string t ''fee'' None = Some c" "safe_string t ''feeCurrency'' None = None"
    and "mk = safe_market reg (safe_string t ''symbol'' None) mkt (Some CHR ''-'')"
  shows "tr_fee (parse_trade reg mkt t) =
           Some \<lparr>fee_cost = c, fee_currency = (if safe_string t ''side'' None = Some ''sell'' then quote mk else base mk),
                 fee_rate = safe_string t ''feeRate'' None\<rparr>"
  using assms by (simp add: parse_trade_def Let_def trade_fee_of_def safe_currency_code_def)

theorem parse_trade_timestamp:
  "tr_timestamp (parse_trade reg mkt t) =
     (case safe_integer t ''ts'' of
        Some ts \<Rightarrow> Some (tdiv ts 1000000)
      | None \<Rightarrow> (if has_key t ''dealValue'' then map_option (\<lambda>c. c * 1000) (safe_integer t ''createdAt'')
                else safe_integer t ''createdAt''))"
  by (auto simp: parse_trade_def Let_def trade_timestamp_def tdiv_rtrunc split: option.split)

lemma parse_trade_type:
  "tr_type (parse_trade reg mkt t) =
     (if safe_string t ''orderType'' None = Some ''match'' then None else safe_string t ''orderType'' None)"
  by (simp add: parse_trade_def Let_def)

end
