(* ===== verification/Account.thy ===== *)
theory Account
  imports Market_Data
begin

text \<open>
  The account operations of \<open>src/js/poloniexfutures.js\<close>: \<open>parsePosition\<close> and
  \<open>fetchPositions\<close> (lines 945--1096), \<open>parseBalance\<close> and \<open>fetchBalance\<close> (723--775),
  \<open>fetchFundingHistory\<close> (1098--1170), \<open>fetchFundingRate\<close> (1431--1478) and
  \<open>setMarginMode\<close> (1546--1570). Numbers the adapter passes through \<open>parseNumber\<close> or
  \<open>safeNumber\<close> are kept as their decimal text; the derived ones are computed with the
  \<open>Precise\<close> string operations, as the code does.
\<close>

section \<open>Positions\<close>

record position =
  pos_symbol :: "string option"
  pos_timestamp :: "int option"
  pos_initial_margin :: "string option"
  pos_initial_margin_percentage :: "string option"
  pos_maintenance_margin :: "string option"
  pos_maintenance_margin_percentage :: "string option"
  pos_entry_price :: "string option"
  pos_notional :: "string option"
  pos_leverage :: "string option"
  pos_unrealized_pnl :: "string option"
  pos_contracts :: "string option"
  pos_contract_size :: "string option"
  pos_liquidation_price :: "string option"
  pos_mark_price :: "string option"
  pos_collateral :: "string option"
  pos_margin_mode :: string
  pos_side :: "string option"
  pos_percentage :: "string option"
  pos_info :: "json option"

text \<open>The side from the sign of \<open>currentQty\<close>: \<open>stringLt\<close> is only evaluated when
  \<open>stringGt\<close> is not true.\<close>

definition position_side :: "string option \<Rightarrow> string option res" where
  "position_side qty =
     bindR (string_gt qty (Some ''0'')) (\<lambda>gt.
       if js_if gt then Inr (Some ''long'')
       else bindR (string_lt qty (Some ''0'')) (\<lambda>lt. Inr (if js_if lt then Some ''short'' else None)))"

definition parse_position :: "registry \<Rightarrow> market option \<Rightarrow> json option \<Rightarrow> position res" where
  "parse_position reg mkt p =
     (let marketId = safe_string p ''symbol'' None;
          market = safe_market reg marketId mkt None;
          timestamp = safe_integer p ''currentTimestamp'';
          qty = safe_string p ''currentQty'' None
      in bindR (position_side qty) (\<lambda>side.
         bindR (string_abs (safe_string p ''posCost'' None)) (\<lambda>notional.
           let initialMargin = safe_string p ''posInit'' None in
           bindR (string_div initialMargin notional) (\<lambda>initialMarginPercentage.
             let unrealisedPnl = safe_string p ''unrealisedPnl'' None;
                 marginMode = (if js_truthy (safe_value p ''crossMode'' None) then ''cross'' else ''isolated'')
             in bindR (string_abs qty) (\<lambda>contracts.
                bindR (string_div unrealisedPnl initialMargin) (\<lambda>percentage.
                  Inr \<lparr>pos_symbol = Some (symbol market), pos_timestamp = timestamp,
                       pos_initial_margin = initialMargin,
                       pos_initial_margin_percentage = initialMarginPercentage,
                       pos_maintenance_margin = safe_number p ''posMaint'',
                       pos_maintenance_margin_percentage = safe_number p ''maintMarginReq'',
                       pos_entry_price = safe_number p ''avgEntryPrice'', pos_notional = notional,
                       pos_leverage = safe_number p ''realLeverage'', pos_unrealized_pnl = unrealisedPnl,
                       pos_contracts = contracts, pos_contract_size = contractSize market,
                       pos_liquidation_price = safe_number p ''liquidationPrice'',
                       pos_mark_price = safe_number p ''markPrice'', pos_collateral = safe_number p ''maintMargin'',
                       pos_margin_mode = marginMode, pos_side = side, pos_percentage = percentage,
                       pos_info = p\<rparr>))))))"

text \<open>\<open>parsePositions (positions, symbols)\<close>: the requested symbols are resolved through the
  registry first (an unknown one is \<open>BadSymbol\<close>), then every entry is parsed and the
  entries of those symbols kept, in order.\<close>

definition parse_positions :: "registry \<Rightarrow> json list \<Rightarrow> string list option \<Rightarrow> position list res" where
  "parse_positions reg xs symbols =
     bindR (case symbols of None \<Rightarrow> Inr None
            | Some ss \<Rightarrow> bindR (map_res (market_of reg) ss) (\<lambda>ms. Inr (Some (map symbol ms)))) (\<lambda>syms.
       bindR (map_res (\<lambda>x. parse_position reg None (Some x)) xs) (\<lambda>ps.
         Inr (filter_by_array (\<lambda>p. js_str (pos_symbol p)) ps syms)))"

definition fetch_positions :: "registry \<Rightarrow> caller \<Rightarrow> string list option \<Rightarrow> params \<Rightarrow> position list res" where
  "fetch_positions reg call symbols params =
     bindR (call ''privateGetPositions'' params) (\<lambda>response.
       parse_positions reg (js_to_array (safe_value response ''data'' None)) symbols)"

section \<open>Balance\<close>

record balance_account =
  acc_free :: "string option"
  acc_total :: "string option"

record balance =
  bal_accounts :: "(string \<times> balance_account) list"
  bal_info :: "json option"

text \<open>\<open>parseBalance\<close>: one account, under the canonical code of \<open>data.currency\<close> (the key
  \<open>undefined\<close> when it is absent).\<close>

definition parse_balance :: "(string \<Rightarrow> string) \<Rightarrow> json option \<Rightarrow> balance" where
  "parse_balance canon response =
     (let data = safe_value response ''data'' None;
          code = safe_currency_code canon (safe_string data ''currency'' None)
      in \<lparr>bal_accounts = [(js_str code, \<lparr>acc_free = safe_string data ''availableBalance'' None,
                                          acc_total = safe_string data ''accountEquity'' None\<rparr>)],
          bal_info = response\<rparr>)"

text \<open>\<open>fetchBalance (params)\<close>; \<open>currency\<close> is the base's currency lookup (the exchange id of a
  code, or an exception).\<close>

definition fetch_balance :: "registry \<Rightarrow> (string \<Rightarrow> string res) \<Rightarrow> caller \<Rightarrow> params \<Rightarrow> balance res" where
  "fetch_balance reg currency call params =
     bindR (case safe_string (Some (JObj params)) ''currency'' None of
              None \<Rightarrow> Inr []
            | Some c \<Rightarrow> bindR (currency c) (\<lambda>cid. Inr [(''currency'', JStr cid)])) (\<lambda>request.
       bindR (call ''privateGetAccountOverview'' (Exchange_Base.extend request params)) (\<lambda>response.
         Inr (parse_balance (currency_code reg) response)))"

section \<open>Funding\<close>

record funding_entry =
  fe_symbol :: string
  fe_code :: "string option"
  fe_timestamp :: "int option"
  fe_id :: "string option"
  fe_amount :: "string option"
  fe_funding_rate :: "string option"
  fe_mark_price :: "string option"
  fe_position_qty :: "string option"
  fe_position_cost :: "string option"
  fe_info :: "json option"

definition funding_entry_of :: "registry \<Rightarrow> string \<Rightarrow> json option \<Rightarrow> funding_entry" where
  "funding_entry_of reg smb item =
     \<lparr>fe_symbol = smb, fe_code = safe_currency_code (currency_code reg) (safe_string item ''settleCurrency'' None),
      fe_timestamp = safe_integer item ''timePoint'', fe_id = safe_number item ''id'',
      fe_amount = safe_number item ''funding'', fe_funding_rate = safe_number item ''fundingRate'',
      fe_mark_price = safe_number item ''markPrice'', fe_position_qty = safe_number item ''positionQty'',
      fe_position_cost = safe_number item ''positionCost'', fe_info = item\<rparr>"

text \<open>The loop \<open>for (let i = 0; i < dataListLength; i++) fees.push (...)\<close> of lines 1152--1168.\<close>

function funding_loop ::
  "registry \<Rightarrow> string \<Rightarrow> json option \<Rightarrow> nat \<Rightarrow> nat \<Rightarrow> funding_entry list \<Rightarrow> funding_entry list" where
  "funding_loop reg s dataList n i fees =
     (if i < n then funding_loop reg s dataList n (Suc i)
                      (fees @ [funding_entry_of reg s (Option.bind dataList (\<lambda>j. get_index j i))])
      else fees)"
  by pat_completeness auto
termination
  by (relation "measure (\<lambda>(reg, s, dataList, n, i, fees). n - i)") auto

text \<open>\<open>fetchFundingHistory (symbol, since, limit, params)\<close>: the symbol is required; one entry
  per element of \<open>dataList\<close>, carrying the symbol as given.\<close>

definition fetch_funding_history ::
  "registry \<Rightarrow> caller \<Rightarrow> string option \<Rightarrow> int option \<Rightarrow> nat option \<Rightarrow> params \<Rightarrow> funding_entry list res" where
  "fetch_funding_history reg call smb since limit params =
     (case smb of
        None \<Rightarrow> throw ArgumentsRequired (exchange_id @ '' fetchFundingHistory() requires a symbol argument'')
      | Some s \<Rightarrow> bindR (market_of reg s) (\<lambda>m.
          let request = [(''symbol'', market_id_json m)];
              request = (case since of None \<Rightarrow> request | Some t \<Rightarrow> obj_set request ''startAt'' (JNum (int_str t)));
              request = (case limit of None \<Rightarrow> request | Some n \<Rightarrow> obj_set request ''maxCount'' (JNum (nat_digits n)))
          in bindR (call ''privateGetFundingHistory'' (Exchange_Base.extend request params)) (\<lambda>response.
               let data = safe_value response ''data'' None;
                   dataList = safe_value data ''dataList'' (Some (JArr []))
               in bindR (js_length dataList) (\<lambda>n.
                    Inr (funding_loop reg s dataList (case n of None \<Rightarrow> 0 | Some k \<Rightarrow> k) 0 [])))))"

record funding_rate =
  fr_symbol :: string
  fr_funding_rate :: "string option"
  fr_previous_funding_rate :: "string option"
  fr_previous_funding_timestamp :: "int option"
  fr_info :: "json option"

definition fetch_funding_rate :: "registry \<Rightarrow> caller \<Rightarrow> string \<Rightarrow> params \<Rightarrow> funding_rate res" where
  "fetch_funding_rate reg call smb params =
     bindR (market_of reg smb) (\<lambda>m.
       bindR (call ''publicGetFundingRateSymbolCurrent'' (Exchange_Base.extend [(''symbol'', market_id_json m)] params))
         (\<lambda>response.
            let data = safe_value response ''data'' None
            in Inr \<lparr>fr_symbol = symbol m, fr_funding_rate = safe_number data ''predictedValue'',
                    fr_previous_funding_rate = safe_number data ''value'',
                    fr_previous_funding_timestamp = safe_integer data ''timePoint'', fr_info = data\<rparr>))"

section \<open>Margin mode\<close>

text \<open>\<open>setMarginMode (marginMode, symbol, params)\<close>: the symbol is required and the mode must
  be the number 0 or 1 (strict equality: the string \<open>'1'\<close> is refused), both checked before the
  market lookup; \<open>params\<close> is not sent.\<close>

definition set_margin_mode :: "registry \<Rightarrow> caller \<Rightarrow> json \<Rightarrow> string option \<Rightarrow> params \<Rightarrow> json option res" where
  "set_margin_mode reg call marginMode smb params =
     (case smb of
        None \<Rightarrow> throw ArgumentsRequired (exchange_id @ '' setMarginMode() requires a symbol argument'')
      | Some s \<Rightarrow>
          if marginMode \<noteq> JNum ''0'' \<and> marginMode \<noteq> JNum ''1''
          then throw ArgumentsRequired (exchange_id @ '' setMarginMode() marginMode must be 0 (isolated) or 1 (cross)'')
          else bindR (market_of reg s) (\<lambda>m.
                 call ''privatePostMarginTypeChange'' [(''symbol'', market_id_json m), (''marginType'', marginMode)]))"

section \<open>Lemmas\<close>

lemma position_side_value:
  assumes "str_val q = Some x"
  shows "position_side (Some q) = Inr (if 0 < x then Some ''long'' else if x < 0 then Some ''short'' else None)"
  using assms by (simp add: position_side_def string_gt_value string_lt_value)

lemma position_side_None: "position_side None = Inr None"
  by (simp add: position_side_def string_gt_None string_lt_def)

lemma parse_position_Inr:
  assumes "parse_position reg mkt p = Inr ps"
  obtains side notional imp contracts pct where
    "position_side (safe_string p ''currentQty'' None) = Inr side"
    "string_abs (safe_string p ''posCost'' None) = Inr notional"
    "string_div (safe_string p ''posInit'' None) notional = Inr imp"
    "string_abs (safe_string p ''currentQty'' None) = Inr contracts"
    "string_div (safe_string p ''unrealisedPnl'' None) (safe_string p ''posInit'' None) = Inr pct"
    "pos_side ps = side" "pos_notional ps = notional" "pos_initial_margin_percentage ps = imp"
    "pos_contracts ps = contracts" "pos_percentage ps = pct"
    "pos_initial_margin ps = safe_string p ''posInit'' None"
    "pos_margin_mode ps = (if js_truthy (safe_value p ''crossMode'' None) then ''cross'' else ''isolated'')"
    "pos_symbol ps = Some (symbol (safe_market reg (safe_string p ''symbol'' None) mkt None))"
  using assms by (auto simp: parse_position_def Let_def bindR_eq_Inr_iff)

text \<open>C14: parsePosition's side is long when currentQty is positive, short when it is negative and undefined when it is zero.\<close>

theorem parse_position_side:
  assumes "parse_position reg mkt p = Inr ps"
    and "safe_string p ''currentQty'' None = Some q" "str_val q = Some x"
  shows "pos_side ps = (if 0 < x then Some ''long'' else if x < 0 then Some ''short'' else None)"
  using assms(1) by (elim parse_position_Inr) (simp add: assms(2) position_side_value [OF assms(3)])

text \<open>C32: parsePosition's notional is |posCost| and its initialMarginPercentage is posInit / |posCost| truncated to 18 decimals, as decimal strings of those rationals.\<close>

theorem parse_position_margins:
  assumes "parse_position reg mkt p = Inr ps"
    and "safe_string p ''posCost'' None = Some pc" "str_val pc = Some c" "c \<noteq> 0"
    and "safe_string p ''posInit'' None = Some pinit" "str_val pinit = Some i"
  shows "\<exists>n r. pos_notional ps = Some n \<and> str_val n = Some \<bar>c\<bar>
           \<and> pos_initial_margin_percentage ps = Some r
           \<and> str_val r = Some (of_int (rtrunc (i / \<bar>c\<bar> * 10 ^ 18)) / 10 ^ 18)"
proof -
  obtain q where q: "precise_of_string pc = Some q" "pval q = c" using assms(3) by (auto simp: str_val_Some)
  obtain n where n: "string_abs (Some pc) = Inr (Some n)" "str_val n = Some \<bar>c\<bar>"
    using q by (simp add: string_abs_def parse_precise_Some pval_abs)
  obtain r where r: "string_div (Some pinit) (Some n) = Inr (Some r)"
      "str_val r = Some (of_int (rtrunc (i / \<bar>c\<bar> * 10 ^ 18)) / 10 ^ 18)"
    using string_div_value [OF assms(6) n(2)] assms(4) by auto
  show ?thesis using assms(1) by (elim parse_position_Inr) (use n r assms(2,5) in auto)
qed

text \<open>parsePosition's percentage is unrealisedPnl / posInit truncated to 18 decimals when posInit is nonzero.\<close>

theorem parse_position_percentage:
  assumes "parse_position reg mkt p = Inr ps"
    and "safe_string p ''unrealisedPnl'' None = Some u" "str_val u = Some x"
    and "safe_string p ''posInit'' None = Some pinit" "str_val pinit = Some i" "i \<noteq> 0"
  shows "\<exists>r. pos_percentage ps = Some r \<and> str_val r = Some (of_int (rtrunc (x / i * 10 ^ 18)) / 10 ^ 18)"
  using assms(1) string_div_value [OF assms(3,5,6)] by (elim parse_position_Inr) (auto simp: assms(2,4))


theorem fetch_funding_history_requires_symbol:
  "fetch_funding_history reg call None since limit params =
     throw ArgumentsRequired (exchange_id @ '' fetchFundingHistory() requires a symbol argument'')"
  by (simp add: fetch_funding_history_def)

text \<open>C30: A successful fetchFundingHistory requested the market's id with startAt and maxCount from since and limit, and returns one entry per element of data.dataList, each carrying the symbol as given, the element's funding as amount and the element as info.\<close>

declare funding_loop.simps [simp del]

lemma funding_loop_map:
  "funding_loop reg s dataList n i fees =
     fees @ map (\<lambda>k. funding_entry_of reg s (Option.bind dataList (\<lambda>j. get_index j k))) [i..<n]"
proof (induction reg s dataList n i fees rule: funding_loop.induct)
  case (1 reg s dataList n i fees)
  then show ?case by (subst funding_loop.simps) (simp add: upt_rec)
qed


text \<open>C35: A successful fetchFundingHistory requested the market's id with startAt and maxCount from since and limit, and returns one entry per element of data.dataList, each carrying the symbol as given, the element's funding as amount and the element as info.\<close>

theorem fetch_funding_history_entries:
  assumes "fetch_funding_history reg call (Some s) since limit params = Inr fs"
  shows "\<exists>m resp. market_of reg s = Inr m \<and> call ''privateGetFundingHistory'' (Exchange_Base.extend
            (let r = [(''symbol'', market_id_json m)];
                 r = (case since of None \<Rightarrow> r | Some t \<Rightarrow> obj_set r ''startAt'' (JNum (int_str t)))
             in (case limit of None \<Rightarrow> r | Some n \<Rightarrow> obj_set r ''maxCount'' (JNum (nat_digits n)))) params) = Inr resp
          \<and> (\<forall>xs. safe_value (safe_value resp ''data'' None) ''dataList'' (Some (JArr [])) = Some (JArr xs) \<longrightarrow>
               length fs = length xs \<and> (\<forall>k < length xs. fe_symbol (fs ! k) = s
                  \<and> fe_amount (fs ! k) = safe_number (Some (xs ! k)) ''funding''
                  \<and> fe_info (fs ! k) = Some (xs ! k)))"
  using assms by (auto simp: fetch_funding_history_def Let_def bindR_eq_Inr_iff js_length_def get_index_def
      funding_entry_of_def funding_loop_map)

text \<open>C36: setMarginMode with a marginMode other than the numbers 0 and 1 (the string '1' included) raises ArgumentsRequired before any request.\<close>

theorem set_margin_mode_rejects:
  assumes "marginMode \<notin> {JNum ''0'', JNum ''1''}"
  shows "set_margin_mode reg call marginMode (Some s) params =
           throw ArgumentsRequired (exchange_id @ '' setMarginMode() marginMode must be 0 (isolated) or 1 (cross)'')"
  using assms by (simp add: set_margin_mode_def)

subsection \<open>Positions are parsed whenever their numbers are decimals\<close>

lemma position_side_defined: "is_decimal q \<Longrightarrow> \<exists>s. position_side q = Inr s"
  using string_gt_defined [of q "Some ''0''"] string_lt_defined [of q "Some ''0''"]
  by (auto simp: position_side_def)

lemma parse_position_defined:
  assumes "is_decimal (safe_string p ''currentQty'' None)" "is_decimal (safe_string p ''posCost'' None)"
    and "is_decimal (safe_string p ''posInit'' None)" "is_decimal (safe_string p ''unrealisedPnl'' None)"
  shows "\<exists>ps. parse_position reg mkt p = Inr ps"
proof -
  obtain side where "position_side (safe_string p ''currentQty'' None) = Inr side"
    using position_side_defined [OF assms(1)] by blast
  moreover obtain n where "string_abs (safe_string p ''posCost'' None) = Inr n" "is_decimal n"
    using string_abs_defined [OF assms(2)] by blast
  moreover obtain imp where "string_div (safe_string p ''posInit'' None) n = Inr imp"
    using string_div_defined [OF assms(3) \<open>is_decimal n\<close>] by blast
  moreover obtain c where "string_abs (safe_string p ''currentQty'' None) = Inr c"
    using string_abs_defined [OF assms(1)] by blast
  moreover obtain pct where "string_div (safe_string p ''unrealisedPnl'' None) (safe_string p ''posInit'' None) = Inr pct"
    using string_div_defined [OF assms(4,3)] by blast
  ultimately show ?thesis by (simp add: parse_position_def Let_def)
qed

text \<open>C34: fetchPositions returns a list of positions, raising nothing, when the request succeeds, every entry's currentQty, posCost, posInit and unrealisedPnl is absent or a decimal string, and every requested symbol is a loaded market.\<close>

theorem fetch_positions_total:
  assumes "call ''privateGetPositions'' params = Inr resp"
    and "\<forall>x \<in> set (js_to_array (safe_value resp ''data'' None)).
           is_decimal (safe_string (Some x) ''currentQty'' None) \<and> is_decimal (safe_string (Some x) ''posCost'' None)
           \<and> is_decimal (safe_string (Some x) ''posInit'' None) \<and> is_decimal (safe_string (Some x) ''unrealisedPnl'' None)"
    and "\<forall>ss. symbols = Some ss \<longrightarrow> (\<forall>s \<in> set ss. markets reg s \<noteq> None \<or> markets_by_id reg s \<noteq> None)"
  shows "\<exists>ps. fetch_positions reg call symbols params = Inr ps"
proof -
  obtain ps where ps: "map_res (\<lambda>x. parse_position reg None (Some x)) (js_to_array (safe_value resp ''data'' None)) = Inr ps"
    using map_res_defined assms(2) parse_position_defined by meson
  have "\<exists>ms. map_res (market_of reg) ss = Inr ms" if "symbols = Some ss" for ss
    using that assms(3) by (intro map_res_defined) (auto simp: market_of_def split: option.splits)
  then show ?thesis using assms(1) ps
    by (cases symbols) (auto simp: fetch_positions_def parse_positions_def)
qed

end
