(* ===== verification/Orders.thy ===== *)
theory Orders
  imports Markets
begin

text \<open>
  The order normalizer and the order operations of \<open>src/js/poloniexfutures.js\<close>:
  \<open>parseOrder\<close> (lines 1362--1429), \<open>fetchOrdersByStatus\<close> (1233--1291) with
  \<open>fetchOpenOrders\<close> and \<open>fetchClosedOrders\<close>, \<open>fetchOrder\<close> (1331--1360),
  \<open>cancelOrder\<close> (884--943) and \<open>cancelAllOrders\<close> (1172--1231). An operation receives the
  loaded market registry and the endpoint methods (\<open>caller\<close>) as parameters; what it sends
  and how it reads the answer is the model. The record is the object handed to the base's
  \<open>safeOrder\<close>; the fields that are always \<open>undefined\<close> here (\<open>remaining\<close>,
  \<open>lastTradeTimestamp\<close>, \<open>trades\<close>) and \<open>datetime\<close> (\<open>iso8601\<close> of the timestamp) are left out.
\<close>

section \<open>Orders\<close>

datatype order_status = Open | Closed | Canceled

record order =
  ord_id :: "string option"
  ord_client_id :: "string option"
  ord_symbol :: "string option"
  ord_type :: "string option"
  ord_time_in_force :: "string option"
  ord_post_only :: "json option"
  ord_side :: "string option"
  ord_amount :: "string option"
  ord_price :: "string option"
  ord_stop_price :: "string option"
  ord_cost :: "string option"
  ord_filled :: "string option"
  ord_timestamp :: "int option"
  ord_fee_currency :: "string option"
  ord_fee_cost :: "string option"
  ord_status :: "order_status option"
  ord_average :: "string option"
  ord_info :: "json option"

text \<open>\<open>status = isActive ? 'open' : 'closed'; status = cancelExist ? 'canceled' : status\<close>.\<close>

definition order_status_of :: "json option \<Rightarrow> json option \<Rightarrow> order_status" where
  "order_status_of isActive cancelExist =
     (let status = (if js_truthy isActive then Open else Closed)
      in if js_truthy cancelExist then Canceled else status)"

text \<open>\<open>average\<close>: only when \<open>filled > 0\<close>; linear markets divide the raw cost by
  \<open>contractSize * filled\<close>, the others divide \<open>contractSize * filled\<close> by the raw cost.\<close>

definition order_average :: "market \<Rightarrow> string option \<Rightarrow> string option \<Rightarrow> string option res" where
  "order_average mk filled rawCost =
     bindR (string_gt filled (Some ''0'')) (\<lambda>pos.
       if js_if pos then
         (let contractSize = contractSize mk in
          if js_if (linear mk) then bindR (string_mul contractSize filled) (\<lambda>d. string_div rawCost d)
          else bindR (string_mul contractSize filled) (\<lambda>n. string_div n rawCost))
       else Inr None)"

definition parse_order :: "registry \<Rightarrow> market option \<Rightarrow> json option \<Rightarrow> order res" where
  "parse_order reg mkt ord =
     (let marketId = safe_string ord ''symbol'' None;
          market = safe_market reg marketId mkt None;
          orderId = safe_string ord ''id'' None;
          type = safe_string ord ''type'' None;
          timestamp = safe_integer ord ''createdAt'';
          price = safe_string ord ''price'' None;
          side = safe_string ord ''side'' None;
          feeCurrency = safe_currency_code (currency_code reg) (safe_string ord ''feeCurrency'' None);
          feeCost = safe_number ord ''fee'';
          amount = safe_string ord ''size'' None;
          filled = safe_string ord ''dealSize'' None;
          rawCost = safe_string2 ord ''dealFunds'' ''filledValue'' None;
          leverage = safe_string ord ''leverage'' None
      in bindR (string_div rawCost leverage) (\<lambda>cost.
         bindR (order_average market filled rawCost) (\<lambda>average.
           let isActive = safe_value ord ''isActive'' (Some (JBool False));
               cancelExist = safe_value ord ''cancelExist'' (Some (JBool False))
           in Inr \<lparr>ord_id = orderId, ord_client_id = safe_string ord ''clientOid'' None,
                   ord_symbol = Some (symbol market), ord_type = type,
                   ord_time_in_force = safe_string ord ''timeInForce'' None,
                   ord_post_only = safe_value ord ''postOnly'' None, ord_side = side,
                   ord_amount = amount, ord_price = price,
                   ord_stop_price = safe_number ord ''stopPrice'', ord_cost = cost, ord_filled = filled,
                   ord_timestamp = timestamp, ord_fee_currency = feeCurrency, ord_fee_cost = feeCost,
                   ord_status = Some (order_status_of isActive cancelExist), ord_average = average,
                   ord_info = ord\<rparr>)))"

text \<open>The skeleton \<open>createOrder\<close>, \<open>cancelOrder\<close> and \<open>cancelAllOrders\<close> return: an id and the
  raw response, every other field \<open>undefined\<close>.\<close>

definition order_skeleton :: "string option \<Rightarrow> json option \<Rightarrow> order" where
  "order_skeleton i info = \<lparr>ord_id = i, ord_client_id = None, ord_symbol = None, ord_type = None,
     ord_time_in_force = None, ord_post_only = None, ord_side = None, ord_amount = None,
     ord_price = None, ord_stop_price = None, ord_cost = None, ord_filled = None,
     ord_timestamp = None, ord_fee_currency = None, ord_fee_cost = None, ord_status = None,
     ord_average = None, ord_info = info\<rparr>"

text \<open>\<open>parseOrders (orders, market, since, limit)\<close>.\<close>

definition parse_orders :: "registry \<Rightarrow> json list \<Rightarrow> market option \<Rightarrow> int option \<Rightarrow> nat option \<Rightarrow> order list res" where
  "parse_orders reg xs mkt since limit =
     parse_sorted_list (\<lambda>x. parse_order reg mkt (Some x)) ord_symbol ord_timestamp xs
       (map_option symbol mkt) since limit"

section \<open>Listing orders\<close>

text \<open>The two listing endpoints, chosen by the \<open>stop\<close> parameter.\<close>

definition orders_method :: "bool \<Rightarrow> string" where
  "orders_method stop = (if stop then ''privateGetStopOrders'' else ''privateGetOrders'')"

text \<open>The raw entries \<open>fetchOrdersByStatus\<close> keeps: for \<open>done\<close>, those without \<open>cancelExist\<close>;
  for any other status, none.\<close>

definition kept_orders :: "string \<Rightarrow> json list \<Rightarrow> json list" where
  "kept_orders status orders =
     (if status = ''done'' then filter (\<lambda>x. \<not> js_truthy (js_prop (Some x) ''cancelExist'')) orders else [])"

definition fetch_orders_by_status ::
  "registry \<Rightarrow> caller \<Rightarrow> string \<Rightarrow> string option \<Rightarrow> int option \<Rightarrow> nat option \<Rightarrow> params \<Rightarrow> order list res" where
  "fetch_orders_by_status reg call status0 smb since limit params0 =
     (let stop = safe_value (Some (JObj params0)) ''stop'' None;
          until = safe_integer2 (Some (JObj params0)) ''until'' ''till'';
          params = omit params0 [''stop'', ''until'', ''till''];
          status = (if status0 = ''closed'' then ''done'' else if status0 = ''open'' then ''active'' else status0)
      in bindR (if \<not> js_truthy stop then Inr [(''status'', JStr status)]
                else if status \<noteq> ''active''
                then throw BadRequest (exchange_id @ '' fetchOrdersByStatus() can only fetch untriggered stop orders'')
                else Inr []) (\<lambda>request.
         bindR (case smb of
                  None \<Rightarrow> Inr (request, None)
                | Some s \<Rightarrow> bindR (market_of reg s) (\<lambda>m.
                    Inr (obj_set request ''symbol'' (case market_id m of Some i \<Rightarrow> JStr i | None \<Rightarrow> JNull), Some m)))
           (\<lambda>(request, market).
         let request = (case since of None \<Rightarrow> request | Some t \<Rightarrow> obj_set request ''startAt'' (JNum (int_str t)));
             request = (case until of None \<Rightarrow> request | Some t \<Rightarrow> obj_set request ''endAt'' (JNum (int_str t)))
         in bindR (call (orders_method (js_truthy stop)) (Exchange_Base.extend request params)) (\<lambda>response.
              let responseData = safe_value response ''data'' (Some (JObj []));
                  orders = js_items (safe_value responseData ''items'' (Some (JArr [])))
              in parse_orders reg (kept_orders status orders) market since limit))))"

definition fetch_open_orders ::
  "registry \<Rightarrow> caller \<Rightarrow> string option \<Rightarrow> int option \<Rightarrow> nat option \<Rightarrow> params \<Rightarrow> order list res" where
  "fetch_open_orders reg call smb since limit params =
     fetch_orders_by_status reg call ''active'' smb since limit params"

definition fetch_closed_orders ::
  "registry \<Rightarrow> caller \<Rightarrow> string option \<Rightarrow> int option \<Rightarrow> nat option \<Rightarrow> params \<Rightarrow> order list res" where
  "fetch_closed_orders reg call smb since limit params =
     fetch_orders_by_status reg call ''closed'' smb since limit params"

section \<open>Single orders\<close>

text \<open>\<open>fetchOrder (id, symbol, params)\<close>: by id, or by the \<open>clientOid\<close> parameter through the
  method \<open>privateGetOrdersByClientOid\<close>; neither is \<open>InvalidOrder\<close>, raised before any call.\<close>

definition fetch_order :: "registry \<Rightarrow> caller \<Rightarrow> string option \<Rightarrow> string option \<Rightarrow> params \<Rightarrow> order res" where
  "fetch_order reg call oid smb params0 =
     bindR (case oid of
              None \<Rightarrow>
                (case safe_string2 (Some (JObj params0)) ''clientOid'' ''clientOrderId'' None of
                   None \<Rightarrow> throw InvalidOrder (exchange_id @ '' fetchOrder() requires parameter id or params.clientOid'')
                 | Some c \<Rightarrow> Inr (''privateGetOrdersByClientOid'', [(''clientOid'', JStr c)],
                                 omit params0 [''clientOid'', ''clientOrderId'']))
            | Some i \<Rightarrow> Inr (''privateGetOrdersOrderId'', [(''order-id'', JStr i)], params0))
       (\<lambda>(method, request, params).
          bindR (call method (Exchange_Base.extend request params)) (\<lambda>response.
          bindR (case smb of None \<Rightarrow> Inr None | Some s \<Rightarrow> bindR (market_of reg s) (\<lambda>m. Inr (Some m)))
            (\<lambda>market. parse_order reg market (safe_value response ''data'' None))))"

text \<open>\<open>cancelOrder (id, symbol, params)\<close>: an empty \<open>cancelledOrderIds\<close> is \<open>InvalidOrder\<close>;
  otherwise the first id. The symbol is not used.\<close>

definition cancel_order :: "caller \<Rightarrow> string \<Rightarrow> params \<Rightarrow> order res" where
  "cancel_order call oid params =
     bindR (call ''privateDeleteOrdersOrderId'' (Exchange_Base.extend [(''order-id'', JStr oid)] params))
       (\<lambda>response.
          let data = safe_value response ''data'' None;
              cancelledOrderIds = safe_value data ''cancelledOrderIds'' None
          in bindR (js_length cancelledOrderIds) (\<lambda>n.
               if n = Some 0 then throw InvalidOrder (exchange_id @ '' cancelOrder() order already cancelled'')
               else Inr (order_skeleton (safe_string_idx cancelledOrderIds 0) response)))"

text \<open>\<open>cancelAllOrders (symbol, params)\<close>: one skeleton per cancelled id, through the stop-order
  endpoint when \<open>params.stop\<close> is truthy (the parameter itself is sent along).\<close>

definition cancel_all_orders :: "registry \<Rightarrow> caller \<Rightarrow> string option \<Rightarrow> params \<Rightarrow> order list res" where
  "cancel_all_orders reg call smb params =
     bindR (case smb of
              None \<Rightarrow> Inr []
            | Some s \<Rightarrow> bindR (market_of reg s) (\<lambda>m.
                Inr [(''symbol'', case market_id m of Some i \<Rightarrow> JStr i | None \<Rightarrow> JNull)]))
       (\<lambda>request.
          let stop = safe_value (Some (JObj params)) ''stop'' None;
              method = (if js_truthy stop then ''privateDeleteStopOrders'' else ''privateDeleteOrders'')
          in bindR (call method (Exchange_Base.extend request params)) (\<lambda>response.
               let data = safe_value response ''data'' None;
                   cancelledOrderIds = safe_value data ''cancelledOrderIds'' None
               in bindR (js_length cancelledOrderIds) (\<lambda>n.
                    Inr (map (\<lambda>i. order_skeleton (safe_string_idx cancelledOrderIds i) response)
                           [0..<(case n of None \<Rightarrow> 0 | Some k \<Rightarrow> k)]))))"


section \<open>Lemmas\<close>

lemmas parse_order_unfold = parse_order_def Let_def

lemma order_status_of_cases:
  "order_status_of a c = (if js_truthy c then Canceled else if js_truthy a then Open else Closed)"
  by (simp add: order_status_of_def)

lemma parse_order_Inr:
  assumes "parse_order reg mkt ord = Inr od"
  obtains cost avg where
    "string_div (safe_string2 ord ''dealFunds'' ''filledValue'' None) (safe_string ord ''leverage'' None) = Inr cost"
    "order_average (safe_market reg (safe_string ord ''symbol'' None) mkt None) (safe_string ord ''dealSize'' None)
       (safe_string2 ord ''dealFunds'' ''filledValue'' None) = Inr avg"
    "od = \<lparr>ord_id = safe_string ord ''id'' None, ord_client_id = safe_string ord ''clientOid'' None,
           ord_symbol = Some (symbol (safe_market reg (safe_string ord ''symbol'' None) mkt None)),
           ord_type = safe_string ord ''type'' None,
           ord_time_in_force = safe_string ord ''timeInForce'' None,
           ord_post_only = safe_value ord ''postOnly'' None, ord_side = safe_string ord ''side'' None,
           ord_amount = safe_string ord ''size'' None, ord_price = safe_string ord ''price'' None,
           ord_stop_price = safe_number ord ''stopPrice'', ord_cost = cost,
           ord_filled = safe_string ord ''dealSize'' None,
           ord_timestamp = safe_integer ord ''createdAt'',
           ord_fee_currency = safe_currency_code (currency_code reg) (safe_string ord ''feeCurrency'' None),
           ord_fee_cost = safe_number ord ''fee'',
           ord_status = Some (order_status_of (safe_value ord ''isActive'' (Some (JBool False)))
                                              (safe_value ord ''cancelExist'' (Some (JBool False)))),
           ord_average = avg, ord_info = ord\<rparr>"
  using assms by (auto simp: parse_order_unfold bindR_eq_Inr_iff)

text \<open>C6: parseOrder's status is canceled when cancelExist is truthy, otherwise open when isActive is truthy, otherwise closed.\<close>

theorem parse_order_status:
  assumes "parse_order reg mkt ord = Inr od"
  shows "ord_status od = Some (if js_truthy (js_prop ord ''cancelExist'') then Canceled
                              else if js_truthy (js_prop ord ''isActive'') then Open else Closed)"
proof -
  have t: "js_truthy (safe_value ord k (Some (JBool False))) = js_truthy (js_prop ord k)" for k
    by (cases "js_prop ord k") (simp_all add: safe_value_def js_truthy_def)
  show ?thesis using assms by (elim parse_order_Inr) (simp add: order_status_of_cases t)
qed

text \<open>C37: parseOrder's cost is the decimal string of rawCost / leverage truncated to 18 decimals when both are numbers and the leverage is not zero.\<close>

theorem parse_order_cost:
  assumes "parse_order reg mkt ord = Inr od"
    and "safe_string2 ord ''dealFunds'' ''filledValue'' None = Some rc" "str_val rc = Some x"
    and "safe_string ord ''leverage'' None = Some lv" "str_val lv = Some y" "y \<noteq> 0"
  shows "\<exists>c. ord_cost od = Some c \<and> str_val c = Some (of_int (rtrunc (x / y * 10 ^ 18)) / 10 ^ 18)"
  using assms(1) string_div_value [OF assms(3) assms(5,6)]
  by (elim parse_order_Inr) (auto simp: assms(2,4))

text \<open>A zero leverage leaves parseOrder's cost unset instead of raising.\<close>

theorem parse_order_cost_zero_leverage:
  assumes "parse_order reg mkt ord = Inr od"
    and "safe_string ord ''leverage'' None = Some lv" "str_val lv = Some 0"
  shows "ord_cost od = None"
proof -
  have "string_div r (Some lv) = Inr None" for r
    using string_div_zero [OF assms(3)] by (cases r) (auto simp: string_div_def)
  then show ?thesis using assms(1) by (elim parse_order_Inr) (simp add: assms(2))
qed

lemma order_average_none:
  assumes "\<forall>f. filled = Some f \<longrightarrow> (\<exists>x. str_val f = Some x \<and> x \<le> 0)"
  shows "order_average mk filled rawCost = Inr None"
proof (cases filled)
  case None
  then show ?thesis by (simp add: order_average_def string_gt_None)
next
  case (Some f)
  then obtain x where "str_val f = Some x" "x \<le> 0" using assms by auto
  then show ?thesis using Some by (simp add: order_average_def string_gt_value)
qed

lemma order_average_pos:
  assumes "str_val f = Some q" "0 < q"
  shows "order_average mk (Some f) rawCost =
           (if js_if (linear mk) then bindR (string_mul (contractSize mk) (Some f)) (\<lambda>d. string_div rawCost d)
            else bindR (string_mul (contractSize mk) (Some f)) (\<lambda>n. string_div n rawCost))"
  using assms by (simp add: order_average_def string_gt_value Let_def)

lemma order_average_linear:
  assumes "js_if (linear mk)" and "contractSize mk = Some cs" "str_val cs = Some s" "s \<noteq> 0"
    and "str_val f = Some q" "0 < q" and "str_val rc = Some r"
  shows "\<exists>a. order_average mk (Some f) (Some rc) = Inr (Some a)
             \<and> str_val a = Some (of_int (rtrunc (r / (s * q) * 10 ^ 18)) / 10 ^ 18)"
proof -
  obtain d where d: "string_mul (Some cs) (Some f) = Inr (Some d)" "str_val d = Some (s * q)"
    using string_mul_value [OF assms(3,5)] by blast
  have "s * q \<noteq> 0" using assms(4,6) by simp
  then show ?thesis
    using string_div_value [OF assms(7) d(2)] d(1) assms by (simp add: order_average_pos [OF assms(5,6)])
qed

lemma order_average_inverse:
  assumes "\<not> js_if (linear mk)" and "contractSize mk = Some cs" "str_val cs = Some s"
    and "str_val f = Some q" "0 < q" and "str_val rc = Some r" "r \<noteq> 0"
  shows "\<exists>a. order_average mk (Some f) (Some rc) = Inr (Some a)
             \<and> str_val a = Some (of_int (rtrunc (s * q / r * 10 ^ 18)) / 10 ^ 18)"
proof -
  obtain n where n: "string_mul (Some cs) (Some f) = Inr (Some n)" "str_val n = Some (s * q)"
    using string_mul_value [OF assms(3,4)] by blast
  show ?thesis
    using string_div_value [OF n(2) assms(6,7)] n(1) assms by (simp add: order_average_pos [OF assms(4,5)])
qed

text \<open>C5: On a linear market with filled > 0, parseOrder's average is the decimal string of rawCost / (contractSize * filled), truncated to 18 decimals, where rawCost is dealFunds (else filledValue) before the division by leverage.\<close>

theorem parse_order_average_linear:
  assumes "parse_order reg mkt ord = Inr od"
    and "mk = safe_market reg (safe_string ord ''symbol'' None) mkt None"
    and "js_if (linear mk)" "contractSize mk = Some cs" "str_val cs = Some s" "s \<noteq> 0"
    and "safe_string ord ''dealSize'' None = Some f" "str_val f = Some q" "0 < q"
    and "safe_string2 ord ''dealFunds'' ''filledValue'' None = Some rc" "str_val rc = Some r"
  shows "\<exists>a. ord_average od = Some a \<and> str_val a = Some (of_int (rtrunc (r / (s * q) * 10 ^ 18)) / 10 ^ 18)"
  using assms(1) order_average_linear [OF assms(3-6,8,9,11)]
  by (elim parse_order_Inr) (auto simp: assms(2,7,10))

theorem parse_order_average_inverse:
  assumes "parse_order reg mkt ord = Inr od"
    and "mk = safe_market reg (safe_string ord ''symbol'' None) mkt None"
    and "\<not> js_if (linear mk)" "contractSize mk = Some cs" "str_val cs = Some s"
    and "safe_string ord ''dealSize'' None = Some f" "str_val f = Some q" "0 < q"
    and "safe_string2 ord ''dealFunds'' ''filledValue'' None = Some rc" "str_val rc = Some r" "r \<noteq> 0"
  shows "\<exists>a. ord_average od = Some a \<and> str_val a = Some (of_int (rtrunc (s * q / r * 10 ^ 18)) / 10 ^ 18)"
  using assms(1) order_average_inverse [OF assms(3-5,7,8,10,11)]
  by (elim parse_order_Inr) (auto simp: assms(2,6,9))

text \<open>parseOrder leaves the average unset when dealSize is absent or not positive.\<close>

theorem parse_order_no_fill:
  assumes "parse_order reg mkt ord = Inr od"
    and "\<forall>f. safe_string ord ''dealSize'' None = Some f \<longrightarrow> (\<exists>x. str_val f = Some x \<and> x \<le> 0)"
  shows "ord_average od = None"
  using assms(1) order_average_none [OF assms(2)] by (elim parse_order_Inr) simp

lemma filter_by_symbol_since_limit_Nil [simp]: "filter_by_symbol_since_limit sf tf [] smb since limit tail = []"
  by (simp add: filter_by_symbol_since_limit_def Let_def split: option.splits)

lemma parse_orders_Nil [simp]: "parse_orders reg [] mkt since limit = Inr []"
  by (simp add: parse_orders_def parse_sorted_list_def)

lemma kept_orders_done: "kept_orders ''done'' xs = filter (\<lambda>x. \<not> js_truthy (js_prop (Some x) ''cancelExist'')) xs"
  by (simp add: kept_orders_def)

lemma kept_orders_other: "status \<noteq> ''done'' \<Longrightarrow> kept_orders status xs = []"
  by (simp add: kept_orders_def)

lemmas fetch_orders_unfold = fetch_orders_by_status_def Let_def

text \<open>C7: fetchOpenOrders either raises or returns the empty list, whatever the exchange answers, because fetchOrdersByStatus keeps entries only for status done.\<close>

theorem fetch_open_orders_empty:
  "(\<exists>e. fetch_open_orders reg call smb since limit params = Inl e)
   \<or> fetch_open_orders reg call smb since limit params = Inr []"
  by (simp add: fetch_open_orders_def fetch_orders_unfold kept_orders_other bindR_def
      split: sum.split option.split prod.split)

text \<open>C8: Without the stop flag, fetchClosedOrders queries privateGetOrders and parses exactly the returned items whose cancelExist is not truthy.\<close>

theorem fetch_closed_orders_filter:
  assumes "\<not> js_truthy (safe_value (Some (JObj params)) ''stop'' None)"
  shows "\<exists>q. fetch_closed_orders reg call None since limit params =
           bindR (call ''privateGetOrders'' q) (\<lambda>response.
             parse_orders reg (filter (\<lambda>x. \<not> js_truthy (js_prop (Some x) ''cancelExist''))
               (js_items (safe_value (safe_value response ''data'' (Some (JObj []))) ''items'' (Some (JArr [])))))
               None since limit)"
  using assms by (simp add: fetch_closed_orders_def fetch_orders_unfold kept_orders_done orders_method_def) blast

text \<open>fetchOrdersByStatus with a truthy stop flag and a status other than active or open raises BadRequest without calling the exchange.\<close>

theorem fetch_orders_stop_rejected:
  assumes "js_truthy (safe_value (Some (JObj params)) ''stop'' None)" "status \<notin> {''active'', ''open''}"
  shows "fetch_orders_by_status reg call status smb since limit params =
           throw BadRequest (exchange_id @ '' fetchOrdersByStatus() can only fetch untriggered stop orders'')"
  using assms by (auto simp: fetch_orders_unfold)

text \<open>fetchOrder with neither an id nor a clientOid or clientOrderId parameter raises InvalidOrder without calling the exchange.\<close>

theorem fetch_order_requires_id:
  assumes "safe_string2 (Some (JObj params)) ''clientOid'' ''clientOrderId'' None = None"
  shows "fetch_order reg call None smb params =
           throw InvalidOrder (exchange_id @ '' fetchOrder() requires parameter id or params.clientOid'')"
  using assms by (simp add: fetch_order_def)

lemma cancelled_ids_def_eq:
  "cancel_order call oid params =
     bindR (call ''privateDeleteOrdersOrderId'' (Exchange_Base.extend [(''order-id'', JStr oid)] params))
       (\<lambda>response. bindR (js_length (safe_value (safe_value response ''data'' None) ''cancelledOrderIds'' None)) (\<lambda>n.
          if n = Some 0 then throw InvalidOrder (exchange_id @ '' cancelOrder() order already cancelled'')
          else Inr (order_skeleton (safe_string_idx (safe_value (safe_value response ''data'' None) ''cancelledOrderIds'' None) 0) response)))"
  by (simp add: cancel_order_def Let_def)

text \<open>C10: cancelOrder raises InvalidOrder when the response's cancelledOrderIds is empty.\<close>

theorem cancel_order_already_cancelled:
  assumes "call ''privateDeleteOrdersOrderId'' (Exchange_Base.extend [(''order-id'', JStr oid)] params) = Inr resp"
    and "safe_value (safe_value resp ''data'' None) ''cancelledOrderIds'' None = Some (JArr [])"
  shows "cancel_order call oid params = throw InvalidOrder (exchange_id @ '' cancelOrder() order already cancelled'')"
  using assms by (simp add: cancelled_ids_def_eq js_length_def)

text \<open>C11: cancelOrder returns a skeleton order whose id is the first cancelled id and whose info is the response.\<close>

theorem cancel_order_first_id:
  assumes "call ''privateDeleteOrdersOrderId'' (Exchange_Base.extend [(''order-id'', JStr oid)] params) = Inr resp"
    and "safe_value (safe_value resp ''data'' None) ''cancelledOrderIds'' None = Some (JArr (JStr i # rest))" "i \<noteq> []"
  shows "cancel_order call oid params = Inr (order_skeleton (Some i) resp)"
  using assms by (simp add: cancelled_ids_def_eq js_length_def safe_string_idx_def js_prop_idx_def get_index_def present_def
      split: list.split)

text \<open>C39: cancelOrder raises a TypeError when the response carries no cancelledOrderIds.\<close>

theorem cancel_order_no_ids:
  assumes "call ''privateDeleteOrdersOrderId'' (Exchange_Base.extend [(''order-id'', JStr oid)] params) = Inr resp"
    and "safe_value (safe_value resp ''data'' None) ''cancelledOrderIds'' None = None"
  shows "\<exists>m. cancel_order call oid params = Inl (TypeError, m)"
  using assms by (simp add: cancelled_ids_def_eq js_length_def throw_def)

text \<open>cancelAllOrders returns one skeleton order per cancelled id, in order.\<close>

theorem cancel_all_orders_ids:
  assumes "call (if js_truthy (safe_value (Some (JObj params)) ''stop'' None) then ''privateDeleteStopOrders''
                 else ''privateDeleteOrders'') params = Inr resp"
    and "safe_value (safe_value resp ''data'' None) ''cancelledOrderIds'' None = Some (JArr xs)"
  shows "\<exists>os. cancel_all_orders reg call None params = Inr os \<and> length os = length xs
           \<and> (\<forall>k < length xs. os ! k = order_skeleton (safe_string_idx (Some (JArr xs)) k) resp)"
proof -
  have "Exchange_Base.extend [] params = params" by (simp add: Exchange_Base.extend_def case_prod_beta)
  then show ?thesis using assms by (cases "js_truthy (safe_value (Some (JObj params)) ''stop'' None)")
      (simp_all add: cancel_all_orders_def Let_def js_length_def)
qed

end
