(* ===== verification/Create_Order.thy ===== *)
theory Create_Order
  imports Orders
begin

text \<open>
  \<open>createOrder\<close> of \<open>src/js/poloniexfutures.js\<close> (lines 776--882): the order's checks in the
  order the code makes them, the request it builds, and the order skeleton it returns. The
  base class's \<open>amountToPrecision\<close>, \<open>priceToPrecision\<close> and \<open>uuid\<close> are the fields of a
  \<open>precision_env\<close>, the interface this operation is stated over; the amount is the JavaScript
  number as a rational, the price the value passed.
\<close>

section \<open>The base class's interface\<close>

record precision_env =
  amount_to_precision :: "string \<Rightarrow> rat \<Rightarrow> string res"
  price_to_precision :: "string \<Rightarrow> json \<Rightarrow> string res"
  uuid :: string

text \<open>\<open>parseInt (s)\<close>: leading spaces, an optional sign, then the longest run of decimal
  digits; none is \<open>NaN\<close>, written \<open>None\<close>.\<close>

definition js_parse_int :: "string \<Rightarrow> int option" where
  "js_parse_int s =
     (let t = dropWhile (\<lambda>c. c = CHR '' '') s;
          (neg, r) = (case t of
                        [] \<Rightarrow> (False, [])
                      | c # cs \<Rightarrow> if c = CHR ''-'' then (True, cs) else if c = CHR ''+'' then (False, cs) else (False, t));
          ds = takeWhile (\<lambda>c. digit_of c \<noteq> None) r
      in if ds = [] then None else map_option (\<lambda>n. if neg then - int n else int n) (parse_digits 0 ds))"

text \<open>A number as a request value: \<open>NaN\<close> is sent as \<open>null\<close>.\<close>

definition int_json :: "int option \<Rightarrow> json" where
  "int_json n = (case n of Some i \<Rightarrow> JNum (int_str i) | None \<Rightarrow> JNull)"

section \<open>createOrder\<close>

text \<open>The request of lines 808--815, before the optional fields; \<open>size\<close> is
  \<open>parseInt (amountToPrecision (symbol, amount))\<close>.\<close>

definition order_request :: "string option \<Rightarrow> string \<Rightarrow> market \<Rightarrow> string \<Rightarrow> string \<Rightarrow> params" where
  "order_request clientOrderId side m type a =
     [(''clientOid'', JStr (js_str clientOrderId)), (''side'', JStr side), (''symbol'', market_id_json m),
      (''type'', JStr type), (''size'', int_json (js_parse_int a)), (''leverage'', JNum ''1'')]"

text \<open>The stop fields, when \<open>triggerPrice\<close> or \<open>stopPrice\<close> is truthy (lines 818--824).\<close>

definition stop_fields :: "precision_env \<Rightarrow> string \<Rightarrow> string \<Rightarrow> params \<Rightarrow> params \<Rightarrow> params res" where
  "stop_fields env smb side params request =
     (case safe_value2 (Some (JObj params)) ''triggerPrice'' ''stopPrice'' None of
        Some sp \<Rightarrow>
          if js_truthy (Some sp) then
            let request = obj_set request ''stop'' (JStr (if side = ''buy'' then ''up'' else ''down''));
                request = obj_set request ''stopPriceType''
                            (JStr (js_str (safe_string (Some (JObj params)) ''stopPriceType'' (Some ''TP''))))
            in bindR (price_to_precision env smb sp) (\<lambda>p. Inr (obj_set request ''stopPrice'' (JStr p)))
          else Inr request
      | None \<Rightarrow> Inr request)"

text \<open>The price and time in force of a limit order (lines 825--834).\<close>

definition limit_fields ::
  "precision_env \<Rightarrow> string \<Rightarrow> string \<Rightarrow> json option \<Rightarrow> params \<Rightarrow> params \<Rightarrow> params res" where
  "limit_fields env smb type price params request =
     (let timeInForce = safe_string_upper (Some (JObj params)) ''timeInForce''
      in if type = ''limit'' then
           (case price of
              None \<Rightarrow> throw ArgumentsRequired (exchange_id @ '' createOrder() requires a price argument for limit orders'')
            | Some p \<Rightarrow> bindR (price_to_precision env smb p) (\<lambda>ps.
                let request = obj_set request ''price'' (JStr ps)
                in Inr (case timeInForce of None \<Rightarrow> request | Some t \<Rightarrow> obj_set request ''timeInForce'' (JStr t))))
         else Inr request)"

definition create_order ::
  "registry \<Rightarrow> precision_env \<Rightarrow> caller \<Rightarrow> string \<Rightarrow> string \<Rightarrow> string \<Rightarrow> rat \<Rightarrow> json option \<Rightarrow> params \<Rightarrow> order res" where
  "create_order reg env call smb type side amount price params0 =
     bindR (market_of reg smb) (\<lambda>m.
       let clientOrderId = safe_string2 (Some (JObj params0)) ''clientOid'' ''clientOrderId'' (Some (uuid env));
           params = omit params0 [''clientOid'', ''clientOrderId'']
       in if amount < 1 then throw InvalidOrder (exchange_id @ '' createOrder() minimum contract order amount is 1'')
          else bindR (amount_to_precision env smb amount) (\<lambda>a.
            bindR (stop_fields env smb side params (order_request clientOrderId side m type a)) (\<lambda>request.
               bindR (limit_fields env smb type price params request) (\<lambda>request.
                 let postOnly = safe_value (Some (JObj params)) ''postOnly'' (Some (JBool False));
                     hidden = safe_value (Some (JObj params)) ''hidden'' None
                 in if js_truthy postOnly \<and> hidden \<noteq> None
                    then throw BadRequest (exchange_id @
                           '' createOrder() does not support the postOnly parameter together with a hidden parameter'')
                    else if js_truthy (safe_value (Some (JObj params)) ''iceberg'' None)
                            \<and> safe_value (Some (JObj params)) ''visibleSize'' None = None
                    then throw ArgumentsRequired (exchange_id @
                           '' createOrder() requires a visibleSize parameter for iceberg orders'')
                    else
                      let params = omit params [''timeInForce'', ''stopPrice'', ''triggerPrice'']
                      in bindR (call ''privatePostOrders'' (Exchange_Base.extend request params)) (\<lambda>response.
                           let data = safe_value response ''data'' (Some (JObj []))
                           in Inr (order_skeleton (safe_string data ''orderId'' None) response))))))"

section \<open>Lemmas\<close>

subsection \<open>\<open>parseInt\<close> reads back the decimal text of an integer\<close>

lemma digit_of_digits: "c \<in> digits \<Longrightarrow> digit_of c \<noteq> None"
  by (auto simp: digit_of_def)

lemma takeWhile_nat_digits: "takeWhile (\<lambda>c. \<exists>y. digit_of c = Some y) (nat_digits n) = nat_digits n"
  using digits_nat_digits [of n] digit_of_digits by (auto simp: takeWhile_eq_all_conv)

lemma hd_nat_digits: "hd (nat_digits n) \<in> digits"
  using digits_nat_digits [of n] nat_digits_nonempty [of n] hd_in_set by blast

theorem js_parse_int_int_str: "js_parse_int (int_str i) = Some i"
proof -
  define n where "n = nat \<bar>i\<bar>"
  have p: "parse_digits 0 (nat_digits n) = Some n" by (simp add: parse_digits_nat_digits)
  show ?thesis
  proof (cases "i < 0")
    case True
    then show ?thesis using p nat_digits_nonempty [of n]
      by (simp add: js_parse_int_def int_str_def sgn_prefix_def Let_def takeWhile_nat_digits n_def)
  next
    case False
    obtain c cs where d: "nat_digits n = c # cs" using nat_digits_nonempty by (cases "nat_digits n") auto
    have "c \<in> digits" using hd_nat_digits [of n] d by simp
    then have cs: "c \<noteq> CHR ''-''" "c \<noteq> CHR ''+''" "c \<noteq> CHR '' ''" by auto
    have i: "i = int n" using False by (simp add: n_def)
    have drop: "dropWhile (\<lambda>c. c = CHR '' '') (nat_digits n) = nat_digits n" using d cs by simp
    have r: "(case nat_digits n of [] \<Rightarrow> (False, [])
              | c # cs \<Rightarrow> if c = CHR ''-'' then (True, cs) else if c = CHR ''+'' then (False, cs)
                         else (False, nat_digits n)) = (False, nat_digits n)"
      using d cs by simp
    have s: "int_str i = nat_digits n" using False by (simp add: int_str_def sgn_prefix_def n_def)
    show ?thesis unfolding js_parse_int_def s drop Let_def r
      using nat_digits_nonempty [of n] by (simp add: takeWhile_nat_digits p i)
  qed
qed

subsection \<open>The optional fields\<close>

lemma stop_fields_none:
  "\<not> js_truthy (safe_value2 (Some (JObj params)) ''triggerPrice'' ''stopPrice'' None) \<Longrightarrow>
     stop_fields env smb side params request = Inr request"
  by (auto simp: stop_fields_def split: option.split)

lemma stop_fields_keeps:
  assumes "stop_fields env smb side params request = Inr r" "k \<notin> {''stop'', ''stopPriceType'', ''stopPrice''}"
  shows "map_of r k = map_of request k"
  using assms by (auto simp: stop_fields_def Let_def bindR_eq_Inr_iff map_of_obj_set split: option.splits if_splits)

lemma stop_fields_stop:
  assumes "stop_fields env smb side params request = Inr r"
    and "js_truthy (safe_value2 (Some (JObj params)) ''triggerPrice'' ''stopPrice'' None)"
  shows "map_of r ''stop'' = Some (JStr (if side = ''buy'' then ''up'' else ''down''))"
  using assms by (auto simp: stop_fields_def Let_def bindR_eq_Inr_iff map_of_obj_set js_truthy_def
      split: option.splits if_splits)


lemma limit_fields_keeps:
  assumes "limit_fields env smb type price params request = Inr r" "k \<notin> {''price'', ''timeInForce''}"
  shows "map_of r k = map_of request k"
  using assms by (auto simp: limit_fields_def Let_def bindR_eq_Inr_iff map_of_obj_set split: option.splits if_splits)

lemma create_order_Inr:
  assumes "create_order reg env call smb type side amount price params = Inr od"
  obtains m a r1 r2 resp where "market_of reg smb = Inr m" "\<not> amount < 1" "amount_to_precision env smb amount = Inr a"
    "stop_fields env smb side (omit params [''clientOid'', ''clientOrderId''])
       (order_request (safe_string2 (Some (JObj params)) ''clientOid'' ''clientOrderId'' (Some (uuid env))) side m type a)
       = Inr r1"
    "limit_fields env smb type price (omit params [''clientOid'', ''clientOrderId'']) r1 = Inr r2"
    "call ''privatePostOrders'' (Exchange_Base.extend r2
       (omit params [''clientOid'', ''clientOrderId'', ''timeInForce'', ''stopPrice'', ''triggerPrice''])) = Inr resp"
    "od = order_skeleton (safe_string (safe_value resp ''data'' (Some (JObj []))) ''orderId'' None) resp"
  using assms by (auto simp: create_order_def Let_def bindR_eq_Inr_iff omit_omit split: if_splits)

subsection \<open>createOrder\<close>

text \<open>C19: createOrder with an amount below 1 raises InvalidOrder after the market lookup and before amountToPrecision or any request.\<close>

theorem create_order_min_amount:
  assumes "market_of reg smb = Inr m" "amount < 1"
  shows "create_order reg env call smb type side amount price params =
           throw InvalidOrder (exchange_id @ '' createOrder() minimum contract order amount is 1'')"
  using assms by (simp add: create_order_def Let_def)

text \<open>C20: A limit order without a price (and without a trigger price) raises ArgumentsRequired before any request.\<close>

theorem create_order_limit_requires_price:
  assumes "market_of reg smb = Inr m" "\<not> amount < 1" "amount_to_precision env smb amount = Inr a"
    and "\<not> js_truthy (safe_value2 (Some (JObj params)) ''triggerPrice'' ''stopPrice'' None)"
  shows "create_order reg env call smb ''limit'' side amount None params =
           throw ArgumentsRequired (exchange_id @ '' createOrder() requires a price argument for limit orders'')"
proof -
  have "stop_fields env smb side (omit params [''clientOid'', ''clientOrderId'']) r = Inr r" for r
    using assms(4) by (intro stop_fields_none) (simp add: safe_value2_omit)
  then show ?thesis using assms(1-3) by (simp add: create_order_def Let_def limit_fields_def)
qed


text \<open>C18: When triggerPrice or stopPrice is truthy and params has no stop key, the request createOrder sends has stop = up for a buy and down for a sell.\<close>

theorem create_order_stop_direction:
  assumes "create_order reg env call smb type side amount price params = Inr od"
    and "js_truthy (safe_value2 (Some (JObj params)) ''triggerPrice'' ''stopPrice'' None)"
    and "''stop'' \<notin> fst ` set params"
  shows "\<exists>req resp. call ''privatePostOrders'' req = Inr resp
           \<and> map_of req ''stop'' = Some (JStr (if side = ''buy'' then ''up'' else ''down''))"
proof -
  have t: "js_truthy (safe_value2 (Some (JObj (omit params [''clientOid'', ''clientOrderId'']))) ''triggerPrice'' ''stopPrice'' None)"
    using assms(2) by (simp add: safe_value2_omit)
  have n: "map_of params ''stop'' = None" using assms(3) by (simp add: map_of_eq_None_iff)
  from assms(1) show ?thesis
  proof (rule create_order_Inr)
    fix m a r1 r2 resp
    assume s: "stop_fields env smb side (omit params [''clientOid'', ''clientOrderId''])
       (order_request (safe_string2 (Some (JObj params)) ''clientOid'' ''clientOrderId'' (Some (uuid env))) side m type a)
       = Inr r1"
      and l: "limit_fields env smb type price (omit params [''clientOid'', ''clientOrderId'']) r1 = Inr r2"
      and c: "call ''privatePostOrders'' (Exchange_Base.extend r2
       (omit params [''clientOid'', ''clientOrderId'', ''timeInForce'', ''stopPrice'', ''triggerPrice''])) = Inr resp"
    have "map_of r2 ''stop'' = Some (JStr (if side = ''buy'' then ''up'' else ''down''))"
      using stop_fields_stop [OF s t] limit_fields_keeps [OF l, of "''stop''"] by simp
    moreover define req where
      "req = Exchange_Base.extend r2 (omit params [''clientOid'', ''clientOrderId'', ''timeInForce'', ''stopPrice'', ''triggerPrice''])"
    ultimately have "map_of req ''stop'' = Some (JStr (if side = ''buy'' then ''up'' else ''down''))" using n by (simp add: map_of_extend map_of_omit)
    then show ?thesis using c unfolding req_def [symmetric] by blast
  qed
qed

text \<open>C21: When amountToPrecision returns the decimal text of an integer n, the size createOrder sends is n again: parseInt reads back the integer's decimal text.\<close>

theorem create_order_size:
  assumes "create_order reg env call smb type side amount price params = Inr od"
    and "amount_to_precision env smb amount = Inr (int_str n)"
    and "''size'' \<notin> fst ` set params"
  shows "\<exists>req resp. call ''privatePostOrders'' req = Inr resp \<and> map_of req ''size'' = Some (JNum (int_str n))"
proof -
  have n: "map_of params ''size'' = None" using assms(3) by (simp add: map_of_eq_None_iff)
  from assms(1) show ?thesis
  proof (rule create_order_Inr)
    fix m a r1 r2 resp
    assume a: "amount_to_precision env smb amount = Inr a"
      and s: "stop_fields env smb side (omit params [''clientOid'', ''clientOrderId''])
       (order_request (safe_string2 (Some (JObj params)) ''clientOid'' ''clientOrderId'' (Some (uuid env))) side m type a)
       = Inr r1"
      and l: "limit_fields env smb type price (omit params [''clientOid'', ''clientOrderId'']) r1 = Inr r2"
      and c: "call ''privatePostOrders'' (Exchange_Base.extend r2
       (omit params [''clientOid'', ''clientOrderId'', ''timeInForce'', ''stopPrice'', ''triggerPrice''])) = Inr resp"
    have "a = int_str n" using a assms(2) by simp
    then have "map_of r2 ''size'' = Some (JNum (int_str n))"
      using stop_fields_keeps [OF s, of "''size''"] limit_fields_keeps [OF l, of "''size''"]
      by (simp add: order_request_def int_json_def js_parse_int_int_str)
    moreover define req where
      "req = Exchange_Base.extend r2 (omit params [''clientOid'', ''clientOrderId'', ''timeInForce'', ''stopPrice'', ''triggerPrice''])"
    ultimately have "map_of req ''size'' = Some (JNum (int_str n))" using n by (simp add: map_of_extend map_of_omit)
    then show ?thesis using c unfolding req_def [symmetric] by blast
  qed
qed




end
