(* ===== verification/Candles.thy ===== *)
theory Candles
  imports Create_Order
begin

text \<open>
  \<open>fetchTime\<close> and \<open>fetchOHLCV\<close> of \<open>src/js/poloniexfutures.js\<close> (lines 655--721), with the
  \<open>timeframes\<close> table of \<open>describe\<close> (lines 50--61) and the base class's \<open>parseTimeframe\<close>
  and \<open>parseOHLCVs\<close>. The clock \<open>this.milliseconds ()\<close> is the argument \<open>now\<close>; numbers
  that JavaScript would make \<open>NaN\<close> are \<open>None\<close>.
\<close>

section \<open>Timeframes\<close>

text \<open>The \<open>granularity\<close> the exchange is sent for each unified timeframe, in minutes.\<close>

definition timeframes :: "(string \<times> nat) list" where
  "timeframes = [(''1m'', 1), (''5m'', 5), (''15m'', 15), (''30m'', 30), (''1h'', 60), (''2h'', 120),
                 (''4h'', 480), (''12h'', 720), (''1d'', 1440), (''1w'', 10080)]"

text \<open>The seconds of one unit of the base's \<open>parseTimeframe\<close>.\<close>

definition timeframe_unit :: "char \<Rightarrow> int option" where
  "timeframe_unit u =
     (if u = CHR ''y'' then Some (60 * 60 * 24 * 365) else if u = CHR ''M'' then Some (60 * 60 * 24 * 30)
      else if u = CHR ''w'' then Some (60 * 60 * 24 * 7) else if u = CHR ''d'' then Some (60 * 60 * 24)
      else if u = CHR ''h'' then Some (60 * 60) else if u = CHR ''m'' then Some 60
      else if u = CHR ''s'' then Some 1 else None)"

text \<open>\<open>parseTimeframe (timeframe)\<close>: \<open>parseInt\<close> of all but the last character times the
  seconds of the last one; an unknown unit is \<open>NotSupported\<close>.\<close>

definition parse_timeframe :: "string \<Rightarrow> int option res" where
  "parse_timeframe tf =
     (let unit = (if tf = [] then [] else [last tf])
      in case unit of
           [u] \<Rightarrow> (case timeframe_unit u of
                    Some scale \<Rightarrow> Inr (map_option (\<lambda>amount. amount * scale) (js_parse_int (butlast tf)))
                  | None \<Rightarrow> throw NotSupported (''timeframe unit '' @ unit @ '' is not supported''))
         | _ \<Rightarrow> throw NotSupported (''timeframe unit '' @ unit @ '' is not supported''))"

section \<open>fetchTime\<close>

definition fetch_time :: "caller \<Rightarrow> params \<Rightarrow> int option res" where
  "fetch_time call params = bindR (call ''publicGetTimestamp'' params) (\<lambda>response. Inr (safe_integer response ''data''))"

section \<open>Candles\<close>

text \<open>A candle as \<open>parseOHLCV\<close> returns it: an array entry read as timestamp and five
  numbers, any other entry unchanged.\<close>

datatype candle =
    Candle "int option" "string option" "string option" "string option" "string option" "string option"
  | Raw_candle json

fun candle_ts :: "candle \<Rightarrow> int option" where
  "candle_ts (Candle t _ _ _ _ _) = t"
| "candle_ts (Raw_candle j) = safe_integer (Some j) ''0''"

definition parse_ohlcv :: "json \<Rightarrow> candle" where
  "parse_ohlcv x = (case x of
      JArr _ \<Rightarrow> Candle (map_option (\<lambda>p. rtrunc (pval p)) (Option.bind (js_prop_idx (Some x) 0) num_of_json))
                  (safe_string_idx (Some x) 1) (safe_string_idx (Some x) 2) (safe_string_idx (Some x) 3)
                  (safe_string_idx (Some x) 4) (safe_string_idx (Some x) 5)
    | _ \<Rightarrow> Raw_candle x)"

text \<open>\<open>parseOHLCVs\<close>: every entry parsed, sorted by timestamp, then \<open>filterBySinceLimit\<close>
  (the last \<open>limit\<close> candles when \<open>since\<close> is undefined).\<close>

definition parse_ohlcvs :: "json list \<Rightarrow> int option \<Rightarrow> nat option \<Rightarrow> candle list" where
  "parse_ohlcvs xs since limit =
     filter_by_symbol_since_limit (\<lambda>_. None) candle_ts (sort_key candle_ts (map parse_ohlcv xs)) None since limit
       (since = None)"

text \<open>\<open>fetchOHLCV (symbol, timeframe, since, limit, params)\<close>: the window
  \<open>[since, since + limit * duration]\<close> (\<open>limit\<close> defaulting to 200) when \<open>since\<close> is given,
  else the last \<open>limit\<close> durations before now; an undefined granularity is not sent.\<close>

definition fetch_ohlcv ::
  "registry \<Rightarrow> caller \<Rightarrow> int \<Rightarrow> string \<Rightarrow> string \<Rightarrow> int option \<Rightarrow> nat option \<Rightarrow> params \<Rightarrow> candle list res" where
  "fetch_ohlcv reg call now smb timeframe since limit params =
     bindR (market_of reg smb) (\<lambda>m.
       let request = [(''symbol'', market_id_json m)] @
                     (case map_of timeframes timeframe of None \<Rightarrow> [] | Some g \<Rightarrow> [(''granularity'', JNum (nat_digits g))])
       in bindR (parse_timeframe timeframe) (\<lambda>secs.
          let duration = map_option (\<lambda>s. s * 1000) secs;
              endAt = now
          in (let (request, since, limit) =
                 (case since of
                    Some s \<Rightarrow>
                      let request = obj_set request ''from'' (JNum (int_str s));
                          limit = (case limit of None \<Rightarrow> 200 | Some l \<Rightarrow> l);
                          endAt = map_option (\<lambda>d. s + int limit * d) duration
                      in (obj_set request ''to'' (int_json endAt), Some s, Some limit)
                  | None \<Rightarrow>
                      (case limit of
                         Some l \<Rightarrow>
                           let since = map_option (\<lambda>d. endAt - int l * d) duration
                           in (obj_set request ''from'' (int_json since), since, Some l)
                       | None \<Rightarrow> (request, None, None)))
              in bindR (call ''publicGetKlineQuery'' (Exchange_Base.extend request params)) (\<lambda>response.
                   Inr (parse_ohlcvs (js_to_array (safe_value response ''data'' (Some (JArr [])))) since limit)))))"

section \<open>Lemmas\<close>






lemma obj_set_new: "k \<notin> fst ` set ps \<Longrightarrow> obj_set ps k v = ps @ [(k, v)]"
  by (simp add: obj_set_def)

text \<open>C23: fetchOHLCV with since sends symbol, granularity, from = since and to = since + limit * duration (limit defaulting to 200) and filters the candles by that since and limit.\<close>

theorem fetch_ohlcv_window:
  assumes "market_of reg smb = Inr m" "map_of timeframes tf = Some g" "parse_timeframe tf = Inr (Some secs)"
  shows "fetch_ohlcv reg call now smb tf (Some s) limit params =
           (let n = (case limit of None \<Rightarrow> 200 | Some l \<Rightarrow> l)
            in bindR (call ''publicGetKlineQuery'' (Exchange_Base.extend
                   [(''symbol'', market_id_json m), (''granularity'', JNum (nat_digits g)),
                    (''from'', JNum (int_str s)), (''to'', JNum (int_str (s + int n * (secs * 1000))))] params))
                 (\<lambda>response. Inr (parse_ohlcvs (js_to_array (safe_value response ''data'' (Some (JArr [])))) (Some s) (Some n))))"
  using assms by (simp add: fetch_ohlcv_def Let_def obj_set_new int_json_def)

text \<open>C24: fetchOHLCV without since but with a limit sends from = now - limit * duration and no to, and filters the candles from that time.\<close>

theorem fetch_ohlcv_last:
  assumes "market_of reg smb = Inr m" "map_of timeframes tf = Some g" "parse_timeframe tf = Inr (Some secs)"
  shows "fetch_ohlcv reg call now smb tf None (Some l) params =
           bindR (call ''publicGetKlineQuery'' (Exchange_Base.extend
                   [(''symbol'', market_id_json m), (''granularity'', JNum (nat_digits g)),
                    (''from'', JNum (int_str (now - int l * (secs * 1000))))] params))
             (\<lambda>response. Inr (parse_ohlcvs (js_to_array (safe_value response ''data'' (Some (JArr []))))
                                 (Some (now - int l * (secs * 1000))) (Some l)))"
  using assms by (simp add: fetch_ohlcv_def Let_def obj_set_new int_json_def)


end
