(* ===== verification/Spec2Isabelle.thy ===== *)
theory Spec2Isabelle
  imports Api Account Candles
begin

text \<open>
  A verification development of \<open>src/js/poloniexfutures.js\<close>, the Poloniex Futures adapter
  of a ccxt-style exchange library. The adapter has no state of its own beyond the exchange
  instance (urls, options, credentials, clock): each operation builds a request, the base
  class signs and sends it (\<open>sign\<close>), classifies the answer (\<open>handleErrors\<close>) and hands
  the parsed JSON back to a normalizer that produces the library's unified structures.

  \<^bold>\<open>Theories.\<close>
  \<^item> \<open>Prelude\<close>: exceptions as values (\<open>exc\<close>, \<open>'a res = raised + 'a\<close>, \<open>throw\<close>,
    \<open>bindR\<close>), JavaScript's \<open>undefined\<close> (\<open>js_str\<close>, \<open>js_if\<close>), \<open>Array.join\<close>, loops that may
    throw (\<open>map_res\<close>).
  \<^item> \<open>Decimal\<close>: the base's \<open>Precise\<close> (not in the repository, modelled from the spec):
    a \<open>BigInt\<close> mantissa with a decimal exponent, the constructor from a string, \<open>toString\<close>,
    \<open>mul\<close>, \<open>div\<close> (18 decimals, truncated toward zero), \<open>abs\<close>, \<open>gt\<close> and the \<open>string*\<close>
    wrappers the adapter calls. Lemmas: each operation refines exact rational arithmetic
    through \<open>pval\<close> (\<open>pval_mul\<close>, \<open>precise_div_trunc\<close>), printing and parsing are inverse
    (\<open>precise_roundtrip\<close>), and the string operations compute on the values the strings denote
    (\<open>str_val\<close>, \<open>string_div_value\<close>, \<open>string_mul_value\<close>, \<open>string_gt_value\<close>).
  \<^item> \<open>Exchange_Base\<close>: JSON values (\<open>json\<close>, objects as association lists, so that key
    order is kept), the safe accessors, \<open>extend\<close>, \<open>omit\<close>, \<open>implodeParams\<close>, \<open>urlencode\<close>,
    \<open>JSON.stringify\<close>, \<open>parseOrders\<close>' sort and \<open>filterBySymbolSinceLimit\<close>, and the
    interface \<open>caller\<close> through which an operation calls an endpoint method.
  \<^item> \<open>Signer\<close>: the exchange instance (\<open>exchange\<close>; the HMAC primitive and the clock are
    fields), the values of \<open>describe\<close> (\<open>pf_exchange\<close>), \<open>checkRequiredCredentials\<close> and
    \<open>sign\<close> (lines 1572--1616). Lemmas: the request of each branch (public, private GET,
    private with a body), the credential failure, version resolution.
  \<^item> \<open>Errors\<close>: the exception tables and \<open>handleErrors\<close> (lines 1618--1635): order of the
    exact and broad matches, the classes it can raise.
  \<^item> \<open>Api\<close>: the endpoint table of \<open>describe\<close> (lines 73--126), the method names the base
    generates from it, and \<open>api_call\<close>: dispatch by name, \<open>sign\<close>, the HTTP exchange (a
    parameter \<open>http\<close>) and \<open>handleErrors\<close>. \<open>api_call ex http\<close> is the implementation of the
    \<open>caller\<close> interface the operations are stated over.
  \<^item> \<open>Markets\<close>: \<open>fetchMarkets\<close> (lines 196--340) and the registry of loaded markets
    (\<open>loadMarkets\<close>, \<open>market\<close>, \<open>safeMarket\<close> of the base).
  \<^item> \<open>Orders\<close>: \<open>parseOrder\<close>, \<open>fetchOrdersByStatus\<close>, \<open>fetchOpenOrders\<close>,
    \<open>fetchClosedOrders\<close>, \<open>fetchOrder\<close>, \<open>cancelOrder\<close>, \<open>cancelAllOrders\<close>.
  \<^item> \<open>Market_Data\<close>: \<open>parseTicker\<close>, \<open>fetchTicker\<close>, \<open>fetchTickers\<close> (lines 342--421),
    \<open>fetchOrderBook\<close> and \<open>fetchL3OrderBook\<close> (423--523) over the base's \<open>parseOrderBook\<close>,
    \<open>parseTrade\<close>, \<open>fetchTrades\<close>, \<open>fetchMyTrades\<close> (525--653, 1480--1544). Lemmas: nanosecond
    timestamps become milliseconds by exact integer division (\<open>parse_ticker_timestamp\<close>, with
    its bounds), the shape of a book (sides sorted by price, a permutation of the response's
    entries, the level's endpoint and positions), the level check, the default fee currency.
  \<^item> \<open>Account\<close>: \<open>parsePosition\<close>, \<open>fetchPositions\<close>, \<open>parseBalance\<close>, \<open>fetchBalance\<close>,
    \<open>fetchFundingHistory\<close> (its \<open>for\<close> loop as \<open>funding_loop\<close>, a \<open>function\<close> with a
    measure), \<open>fetchFundingRate\<close>, \<open>setMarginMode\<close>. Lemmas: side and margin ratios of a
    position as rationals, totality of \<open>fetchPositions\<close> on decimal fields, the loop's step
    count and its equivalence with a \<open>map\<close> (\<open>funding_loop_map\<close>).
  \<^item> \<open>Create_Order\<close>: \<open>createOrder\<close> (lines 776--882) over \<open>precision_env\<close>, the interface of
    the base's \<open>amountToPrecision\<close>, \<open>priceToPrecision\<close> and \<open>uuid\<close>; \<open>parseInt\<close>. Lemmas:
    its checks in order (minimum amount, limit price, postOnly with hidden, iceberg), the
    request of a market order, the stop direction, \<open>parseInt\<close> reading back an integer's
    text, and that the request keeps distinct keys (\<open>keys_ok\<close>, through \<open>omit\<close>,
    \<open>obj_set\<close> and \<open>extend\<close>, whose lookup lemmas are in \<open>Exchange_Base\<close>).
  \<^item> \<open>Candles\<close>: \<open>fetchTime\<close>, \<open>fetchOHLCV\<close> (lines 655--721), the \<open>timeframes\<close> table
    (50--61), the base's \<open>parseTimeframe\<close> and \<open>parseOHLCVs\<close>. Lemmas: the table against
    \<open>parseTimeframe\<close> (every entry agrees but \<open>4h\<close>), the requested window with and without
    \<open>since\<close>, candles sorted and at most \<open>limit\<close>.
  \<^item> this theory: sample payloads (taken from the response samples in the source's comments
    and from the spec's examples), their evaluation, the witnesses of the properties, and
    the properties of operations composed with the transport (\<open>api_call\<close>).

  \<^bold>\<open>Correspondence.\<close> Every JavaScript function is a HOL function of the same name in
  snake case; an \<open>await this.<endpoint> (params)\<close> is \<open>call ''<endpoint>'' params\<close> for the
  \<open>caller\<close> parameter; every \<open>throw\<close> is an \<open>Inl\<close> value carrying the class and message;
  \<open>undefined\<close> is \<open>None\<close>. The registry of loaded markets is an argument: \<open>loadMarkets\<close> is
  assumed to have run.

  \<^bold>\<open>Termination and bounds.\<close> Every definition is total: the loops of the source are
  structural recursion over lists (\<open>map_res\<close>, \<open>parse_market_list\<close>, \<open>fold\<close>), and the
  general recursions terminate by a measure: \<open>strip_zeros\<close> (removing trailing zeros of a
  mantissa) by \<open>|i|\<close>, \<open>funding_loop\<close> (the \<open>for\<close> loop of \<open>fetchFundingHistory\<close>) by
  \<open>n - i\<close>. No fuel is needed. The clock of \<open>fetchOHLCV\<close> is an argument. Numbers are unbounded \<open>int\<close> and \<open>rat\<close>, as
  \<open>BigInt\<close> is; the only precision bound is the 18 decimals of \<open>Precise.div\<close>, which the
  lemmas state explicitly.

  \<^bold>\<open>Not modelled.\<close> The HTTP transport and JSON parsing of response bodies (the model
  starts from the parsed value); the HMAC-SHA256/base64 primitive (abstract); \<open>iso8601\<close>
  formatting; the base's \<open>safeOrder\<close> completion of an order; the binary floating point
  JavaScript would use in \<open>safeInteger\<close> and \<open>safeNumber\<close> (the model reads numbers exactly);
  rate-limit weights and the capability table of \<open>describe\<close> (static metadata); the completion
  of derived fields by \<open>safeTicker\<close>, \<open>safeTrade\<close> and \<open>safeBalance\<close>. Two approximations
  are kept on purpose: \<open>parseInt\<close> skips leading spaces only (not all whitespace), and a
  \<open>NaN\<close> computed \<open>since\<close> in \<open>fetchOHLCV\<close> (a timeframe without a number) is read as
  undefined. Nanosecond timestamps above \<open>2^53\<close> would lose precision in JavaScript's
  doubles; the model computes them exactly.
\<close>

section \<open>Sample payloads\<close>

text \<open>The contract listing below is the sample response documented in \<open>fetchMarkets\<close>
  (lines 207--266 of \<open>src/js/poloniexfutures.js\<close>), cut to the fields the parser reads.
  \<open>demo_hmac\<close> stands in for the HMAC-SHA256/base64 primitive, which the model keeps abstract.\<close>

definition sample_contract :: json where
  "sample_contract = JObj [(''symbol'', JStr ''APTUSDTPERP''), (''initialMargin'', JStr ''0.05''),
     (''takerFeeRate'', JStr ''0.00040''), (''multiplier'', JStr ''1.0''), (''maxLeverage'', JStr ''20''),
     (''quoteCurrency'', JStr ''USDT''), (''maxOrderQty'', JStr ''1000000''),
     (''maxPrice'', JStr ''1000000.0000000000''), (''status'', JStr ''Open''), (''rootSymbol'', JStr ''USDT''),
     (''baseCurrency'', JStr ''APT''), (''indexPriceTickSize'', JStr ''0.001''),
     (''makerFeeRate'', JStr ''0.00010''), (''isInverse'', JBool False), (''lotSize'', JStr ''1'')]"

definition demo_hmac :: "string \<Rightarrow> string \<Rightarrow> string" where
  "demo_hmac payload key = key @ '':'' @ payload"

definition demo_exchange :: exchange where
  "demo_exchange = pf_exchange (Some ''key'') (Some ''secret'') (Some ''pass'') 1700000000000 demo_hmac"

definition demo_bad_contract :: json where
  "demo_bad_contract = JObj [(''symbol'', JStr ''XBTUSDTPERP''), (''multiplier'', JStr ''1x'')]"



definition demo_market :: market where
  "demo_market = (default_market (Some ''XBTUSDTPERP''))
     \<lparr>symbol := ''BTC/USDT:USDT'', base := Some ''BTC'', quote := Some ''USDT'', linear := Some True,
      contractSize := Some ''1.0''\<rparr>"

definition demo_reg :: registry where
  "demo_reg = load_markets (\<lambda>c. c) [demo_market]"

definition demo_order :: json where
  "demo_order = JObj [(''id'', JStr ''619717484f1d010001510cde''), (''symbol'', JStr ''XBTUSDTPERP''),
     (''type'', JStr ''limit''), (''side'', JStr ''buy''), (''size'', JStr ''10''),
     (''dealSize'', JStr ''10''), (''dealFunds'', JStr ''100.00000000''), (''leverage'', JStr ''1''),
     (''isActive'', JBool False), (''cancelExist'', JBool False), (''createdAt'', JNum ''1700000000000'')]"

definition demo_open_order :: json where
  "demo_open_order = JObj [(''id'', JStr ''5cdfc138b21023a909e5ad55''), (''symbol'', JStr ''XBTUSDTPERP''),
     (''dealSize'', JStr ''0''), (''dealFunds'', JStr ''5''), (''leverage'', JStr ''0''),
     (''isActive'', JBool True), (''cancelExist'', JBool False)]"

definition demo_canceled_order :: json where
  "demo_canceled_order = JObj [(''id'', JStr ''5cdfc138b21023a909e5ad56''), (''symbol'', JStr ''XBTUSDTPERP''),
     (''isActive'', JBool False), (''cancelExist'', JBool True)]"

definition demo_done_response :: json where
  "demo_done_response = JObj [(''code'', JStr ''200000''),
     (''data'', JObj [(''items'', JArr [demo_canceled_order, demo_order])])]"

definition demo_cancel_response :: "json list \<Rightarrow> json" where
  "demo_cancel_response ids = JObj [(''code'', JStr ''200000''), (''data'', JObj [(''cancelledOrderIds'', JArr ids)])]"



definition demo_book_call :: caller where
  "demo_book_call m ps = Inr (Some (JObj [(''data'', JObj [(''sequence'', JNum ''7''),
     (''bids'', JArr [JArr [JStr ''100'', JStr ''2''], JArr [JStr ''101'', JStr ''1'']]),
     (''asks'', JArr [JArr [JStr ''103'', JStr ''1''], JArr [JStr ''102'', JStr ''4'']])])]))"

definition demo_trade :: json where
  "demo_trade = JObj [(''symbol'', JStr ''XBTUSDTPERP''), (''tradeId'', JStr ''5ce24c16b210233c36ee321d''),
     (''side'', JStr ''sell''), (''price'', JStr ''0.083''), (''size'', JNum ''1''), (''fee'', JStr ''0.0006''),
     (''feeRate'', JStr ''0.0006''), (''ts'', JNum ''1558334000000000000'')]"

definition demo_position :: json where
  "demo_position = JObj [(''symbol'', JStr ''XBTUSDTPERP''), (''currentQty'', JNum ''-3''),
     (''posCost'', JNum ''-30''), (''posInit'', JNum ''3''), (''unrealisedPnl'', JNum ''0.6''),
     (''crossMode'', JBool False)]"

definition demo_positions_call :: caller where
  "demo_positions_call m ps = Inr (Some (JObj [(''data'', JArr [demo_position])]))"

definition demo_funding_call :: caller where
  "demo_funding_call m ps = Inr (Some (JObj [(''data'', JObj [(''dataList'',
     JArr [JObj [(''id'', JNum ''36275152660006''), (''funding'', JNum ''-0.0014''), (''fundingRate'', JNum ''-0.0001'')]])])]))"

text \<open>The base class's precision functions for \<open>createOrder\<close>: amounts truncated to whole
  contracts, prices sent as given.\<close>

definition demo_env :: precision_env where
  "demo_env = \<lparr>amount_to_precision = (\<lambda>s a. Inr (int_str (rtrunc a))),
     price_to_precision = (\<lambda>s p. Inr (json_to_string p)), uuid = ''5c52e11203aa677f33e493fb''\<rparr>"

definition demo_create_response :: json where
  "demo_create_response = JObj [(''code'', JStr ''200000''),
     (''data'', JObj [(''orderId'', JStr ''619717484f1d010001510cde'')])]"

definition demo_create_call :: caller where
  "demo_create_call m ps = Inr (Some demo_create_response)"

definition demo_stop_params :: params where
  "demo_stop_params = [(''stopPrice'', JNum ''16000'')]"

text \<open>The candles of the example in \<open>fetchOHLCV\<close> (lines 708--716), out of order.\<close>

definition demo_kline_call :: caller where
  "demo_kline_call m ps = Inr (Some (JObj [(''code'', JStr ''200000''), (''data'', JArr [
     JArr [JNum ''1636460100000'', JNum ''4770.25'', JNum ''4778.55'', JNum ''4757.55'', JNum ''4777.25'', JNum ''80164''],
     JArr [JNum ''1636459200000'', JNum ''4779.3'', JNum ''4792.1'', JNum ''4768.7'', JNum ''4770.3'', JNum ''78051'']])]))"

section \<open>Evaluation of the sample payloads\<close>

lemma sample_contract_parses:
  "\<exists>mk. parse_market (\<lambda>c. c) sample_contract = Inr mk"
  by (simp add: parse_market_def Let_def sample_contract_def json_eval string_abs_def parse_precise_def
      precise_eval)

theorem parse_market_active_witness:
  "\<exists>mk. parse_market (\<lambda>c. c) sample_contract = Inr mk \<and> active mk = Some True"
proof -
  obtain mk where e: "parse_market (\<lambda>c. c) sample_contract = Inr mk" using sample_contract_parses by blast
  have "safe_string (Some sample_contract) ''status'' None = Some ''Open''"
    by (simp add: sample_contract_def json_eval)
  with parse_market_active [OF e] e show ?thesis by auto
qed

theorem parse_market_symbol_witness:
  "\<exists>mk. parse_market (\<lambda>c. c) sample_contract = Inr mk \<and> symbol mk = ''APT/USDT:USDT''"
proof -
  obtain mk where e: "parse_market (\<lambda>c. c) sample_contract = Inr mk" using sample_contract_parses by blast
  have "safe_string (Some sample_contract) ''baseCurrency'' None = Some ''APT''"
       "safe_string (Some sample_contract) ''quoteCurrency'' None = Some ''USDT''"
       "safe_string (Some sample_contract) ''rootSymbol'' None = Some ''USDT''"
    by (simp_all add: sample_contract_def json_eval)
  with parse_market_symbol [OF e] e show ?thesis by auto
qed

theorem parse_market_contract_size_witness:
  "\<exists>mk c q. parse_market (\<lambda>c. c) sample_contract = Inr mk \<and> contractSize mk = Some c
     \<and> precise_of_string c = Some q \<and> pval q = 1"
proof -
  obtain mk where e: "parse_market (\<lambda>c. c) sample_contract = Inr mk" using sample_contract_parses by blast
  have m: "safe_string (Some sample_contract) ''multiplier'' None = Some ''1.0''"
    by (simp add: sample_contract_def json_eval)
  have p: "precise_of_string ''1.0'' = Some \<lparr>integer = 10, decimals = 1\<rparr>"
    by (simp add: precise_eval)
  have "pval \<lparr>integer = 10, decimals = 1\<rparr> = 1" by (simp add: pval_def)
  with parse_market_contract_size [OF e m p] e show ?thesis by auto
qed

theorem parse_market_linear_witness:
  "\<exists>mk. parse_market (\<lambda>c. c) sample_contract = Inr mk \<and> linear mk = Some True"
proof -
  obtain mk where e: "parse_market (\<lambda>c. c) sample_contract = Inr mk" using sample_contract_parses by blast
  have "inverse mk = Some (JBool False)"
    using e by (auto simp: parse_market_def Let_def bindR_eq_Inr_iff sample_contract_def json_eval)
  with parse_market_linear [OF e] e show ?thesis by (auto simp: js_truthy_def)
qed

theorem parse_market_total_witness:
  "\<exists>mk. parse_market (\<lambda>c. c) sample_contract = Inr mk"
  using parse_market_total [of sample_contract "\<lambda>c. c"]
  by (simp add: sample_contract_def json_eval precise_eval)

theorem parse_market_bad_multiplier_witness:
  "parse_market (\<lambda>c. c) demo_bad_contract = Inl (SyntaxError, ''Cannot convert 1x to a BigInt'')"
  using parse_market_bad_multiplier [of demo_bad_contract "''1x''" "\<lambda>c. c"]
  by (simp add: demo_bad_contract_def json_eval precise_eval)

theorem fetch_markets_each_witness:
  "\<exists>mks. fetch_markets (\<lambda>c. c) (Some (JObj [(''data'', JArr [sample_contract])])) = Inr mks
     \<and> length mks = 1 \<and> parse_market (\<lambda>c. c) sample_contract = Inr (mks ! 0)"
proof -
  obtain mk where e: "parse_market (\<lambda>c. c) sample_contract = Inr mk" using sample_contract_parses by blast
  then have f: "fetch_markets (\<lambda>c. c) (Some (JObj [(''data'', JArr [sample_contract])])) = Inr [mk]"
    by (simp add: fetch_markets_def json_eval)
  have "safe_value (Some (JObj [(''data'', JArr [sample_contract])])) ''data'' (Some (JArr [])) = Some (JArr [sample_contract])"
    by (simp add: json_eval)
  with fetch_markets_each [OF f] f show ?thesis by auto
qed

theorem sign_private_body_witness:
  "sign demo_exchange ''orders'' ''private'' ''POST'' [(''symbol'', JStr ''X'')] None None
   = Inr \<lparr>url = ''https://futures-api.poloniex.com/api/v1/orders'', req_method = ''POST'',
          body = Some (json_encode (JObj [(''symbol'', JStr ''X'')])),
          headers = Some (signed_headers demo_exchange
              (''1700000000000POST/api/v1/orders'' @ json_encode (JObj [(''symbol'', JStr ''X'')])))\<rparr>"
  using sign_private_body [of "''private''" demo_exchange "''POST''" "''orders''" "[(''symbol'', JStr ''X'')]" None None]
  by (simp add: demo_exchange_def pf_eval cred_ok_def is_get_or_head_def implode_params_def replace_first_def omit_def
      nat_digits.simps digit_char_def)

theorem sign_private_get_witness:
  "\<exists>r. sign demo_exchange ''orders'' ''private'' ''GET'' [(''status'', JStr ''active'')] None None = Inr r
     \<and> url r = ''https://futures-api.poloniex.com/api/v1/orders?status=active'' \<and> body r = None"
  using sign_private_get [of "''private''" demo_exchange "''GET''" "[(''status'', JStr ''active'')]" "''orders''" None]
  by (simp add: demo_exchange_def pf_eval cred_ok_def implode_params_def replace_first_def omit_def
      urlencode_def percent_encode_def unreserved_def)

theorem sign_private_missing_credentials_witness:
  "\<exists>m. sign (pf_exchange None (Some ''secret'') (Some ''pass'') 0 demo_hmac) ''orders'' ''private'' ''POST'' [] None None
     = Inl (AuthenticationError, m)"
  using sign_private_missing_credentials [of "''private''" "pf_exchange None (Some ''secret'') (Some ''pass'') 0 demo_hmac"]
  by (simp add: pf_exchange_def cred_ok_def)

theorem pf_version_resolution_witness:
  "resolve_version demo_exchange ''ticker'' ''public'' ''GET'' [] = Some ''v2''
   \<and> resolve_version demo_exchange ''orders'' ''private'' ''GET'' [] = Some ''v1''"
  using pf_version_resolution [of "[]" "Some ''key''" "Some ''secret''" "Some ''pass''" 1700000000000 demo_hmac]
  by (simp add: demo_exchange_def js_prop_def present_def get_key_def)

theorem sign_keeps_path_params_witness:
  "\<exists>r. sign demo_exchange ''orders/{order-id}'' ''private'' ''DELETE'' [(''order-id'', JStr ''abc'')] None None = Inr r
     \<and> url r = ''https://futures-api.poloniex.com/api/v1/orders/abc''
     \<and> body r = Some (json_encode (JObj [(''order-id'', JStr ''abc'')]))"
  using sign_keeps_path_params [of "Some ''key''" "Some ''secret''" "Some ''pass''" 1700000000000 demo_hmac "''abc''"]
  by (simp add: demo_exchange_def cred_ok_def)

theorem handle_errors_exact_message_witness:
  "handle_errors (Some (JObj [(''code'', JStr ''200000''), (''msg'', JStr ''400002'')])) None
     = Some (InvalidNonce, ''poloniexfutures 400002'')"
  using handle_errors_exact_message [of "Some (JObj [(''code'', JStr ''200000''), (''msg'', JStr ''400002'')])"
      "''400002''" InvalidNonce None]
  by (simp add: js_truthy_def json_eval exact_table_def exchange_id_def)

theorem handle_errors_broad_witness:
  "handle_errors (Some (JObj [(''code'', JStr ''200000''), (''msg'', JStr ''failed'')]))
      (Some ''Position does not exist'') = Some (OrderNotFound, ''poloniexfutures failed'')"
  using handle_errors_broad [of "Some (JObj [(''code'', JStr ''200000''), (''msg'', JStr ''failed'')])"
      "''failed''" "''Position does not exist''"]
  by (simp add: js_truthy_def json_eval exact_table_def exchange_id_def)

theorem handle_errors_none_witness:
  "handle_errors (Some (JObj [(''code'', JStr ''200000''), (''data'', JArr [])])) (Some ''{}'') = None"
  using handle_errors_none [of "Some (JObj [(''code'', JStr ''200000''), (''data'', JArr [])])" "''''" "Some ''{}''"]
  by (simp add: js_truthy_def json_eval exact_table_def)

theorem handle_errors_no_response_witness:
  "handle_errors None (Some ''Position does not exist'') = Some (OrderNotFound, ''Position does not exist'')"
  using handle_errors_no_response [of None "Some ''Position does not exist''"]
  by (simp add: js_truthy_def)

theorem handle_errors_classes_witness:
  "RateLimitExceeded \<in> snd ` set exact_table \<union> snd ` set broad_table"
  using handle_errors_classes [of "Some (JObj [(''code'', JStr ''429'')])" None RateLimitExceeded "''poloniexfutures ''"]
  by (simp add: handle_errors_def Let_def throw_exactly_matched_def js_truthy_def json_eval exact_table_def exchange_id_def)

theorem handle_errors_exact_code_witness:
  "handle_errors (Some (JObj [(''code'', JStr ''429''), (''msg'', JStr ''Too many requests'')])) None
     = Some (RateLimitExceeded, ''poloniexfutures Too many requests'')"
  using handle_errors_exact_code [of "Some (JObj [(''code'', JStr ''429''), (''msg'', JStr ''Too many requests'')])"
      "''Too many requests''" "''429''" RateLimitExceeded None]
  by (simp add: js_truthy_def json_eval exact_table_def exchange_id_def)


section \<open>Orders\<close>

text \<open>\<open>demo_order\<close> is the example of the spec (section 8): raw cost \<open>100.00000000\<close>, contract
  size \<open>1.0\<close>, filled \<open>10\<close> on a linear market, average \<open>10\<close>.\<close>

lemma demo_parse_pieces:
  "parse_precise ''100.00000000'' = Inr \<lparr>integer = 10000000000, decimals = 8\<rparr>"
  "parse_precise ''1'' = Inr \<lparr>integer = 1, decimals = 0\<rparr>"
  "parse_precise ''10'' = Inr \<lparr>integer = 10, decimals = 0\<rparr>"
  "parse_precise ''1.0'' = Inr \<lparr>integer = 10, decimals = 1\<rparr>"
  "parse_precise ''0'' = Inr \<lparr>integer = 0, decimals = 0\<rparr>"
  by (simp_all add: parse_precise_def precise_eval)

lemma demo_div1: "string_div (Some ''100.00000000'') (Some ''1'') = Inr (Some ''100'')"
proof -
  have d: "precise_div \<lparr>integer = 10000000000, decimals = 8\<rparr> \<lparr>integer = 1, decimals = 0\<rparr> 18
             = \<lparr>integer = 100000000000000000000, decimals = 18\<rparr>"
    by (simp add: precise_div_def tdiv_def)
  have z: "strip_zeros 100000000000000000000 18 = (1, -2)" by (simp add: strip_zeros.simps)
  have s: "precise_to_string \<lparr>integer = 100000000000000000000, decimals = 18\<rparr> = ''100''"
    by (simp add: precise_to_string_def reduce_def z render_def nat_digits.simps digit_char_def sgn_prefix_def eval_nat_numeral)
  show ?thesis by (simp add: string_div_def demo_parse_pieces d s)
qed

lemma demo_mul: "string_mul (Some ''1.0'') (Some ''10'') = Inr (Some ''10'')"
proof -
  have z: "strip_zeros 100 1 = (1, -1)" by (simp add: strip_zeros.simps)
  have s: "precise_to_string \<lparr>integer = 100, decimals = 1\<rparr> = ''10''"
    by (simp add: precise_to_string_def reduce_def z render_def nat_digits.simps digit_char_def sgn_prefix_def eval_nat_numeral)
  show ?thesis by (simp add: string_mul_def demo_parse_pieces precise_mul_def s)
qed

lemma demo_div10: "string_div (Some ''100.00000000'') (Some ''10'') = Inr (Some ''10'')"
proof -
  have d: "precise_div \<lparr>integer = 10000000000, decimals = 8\<rparr> \<lparr>integer = 10, decimals = 0\<rparr> 18
             = \<lparr>integer = 10000000000000000000, decimals = 18\<rparr>"
    by (simp add: precise_div_def tdiv_def)
  have z: "strip_zeros 10000000000000000000 18 = (1, -1)" by (simp add: strip_zeros.simps)
  have s: "precise_to_string \<lparr>integer = 10000000000000000000, decimals = 18\<rparr> = ''10''"
    by (simp add: precise_to_string_def reduce_def z render_def nat_digits.simps digit_char_def sgn_prefix_def eval_nat_numeral)
  show ?thesis by (simp add: string_div_def demo_parse_pieces d s)
qed

lemma demo_gt: "string_gt (Some ''10'') (Some ''0'') = Inr (Some True)"
  by (simp add: string_gt_def demo_parse_pieces precise_gt_def precise_sub_def precise_add_def precise_neg_def)

lemma demo_market_lookup: "safe_market demo_reg (Some ''XBTUSDTPERP'') None None = demo_market"
  by (simp add: demo_reg_def load_markets_def index_by_def safe_market_def demo_market_def default_market_def)

lemma demo_order_parsed:
  "parse_order demo_reg None (Some demo_order) = Inr \<lparr>ord_id = Some ''619717484f1d010001510cde'',
      ord_client_id = None, ord_symbol = Some ''BTC/USDT:USDT'', ord_type = Some ''limit'',
      ord_time_in_force = None, ord_post_only = None, ord_side = Some ''buy'', ord_amount = Some ''10'',
      ord_price = None, ord_stop_price = None, ord_cost = Some ''100'', ord_filled = Some ''10'',
      ord_timestamp = Some 1700000000000, ord_fee_currency = None, ord_fee_cost = None,
      ord_status = Some Closed, ord_average = Some ''10'', ord_info = Some demo_order\<rparr>"
proof -
  have m: "safe_market demo_reg (safe_string (Some demo_order) ''symbol'' None) None None = demo_market"
    by (simp add: demo_order_def json_eval demo_market_lookup)
  have a: "order_average demo_market (Some ''10'') (Some ''100.00000000'') = Inr (Some ''10'')"
    by (simp add: order_average_def demo_gt demo_mul demo_div10 demo_market_def default_market_def)
  have t: "safe_integer (Some demo_order) ''createdAt'' = Some 1700000000000"
    by (simp add: safe_integer_def demo_order_def js_prop_def present_def get_key_def num_of_json_def
        precise_eval pval_def rtrunc_def)
  have sy: "symbol demo_market = ''BTC/USDT:USDT''" by (simp add: demo_market_def default_market_def)
  have d: "safe_string (Some demo_order) ''dealSize'' None = Some ''10''"
    "safe_string2 (Some demo_order) ''dealFunds'' ''filledValue'' None = Some ''100.00000000''"
    by (simp_all add: demo_order_def json_eval safe_string2_def)
  show ?thesis
    unfolding parse_order_def Let_def m t d a
    by (simp add: demo_order_def json_eval safe_string2_def safe_currency_code_def demo_div1
        a order_status_of_def js_truthy_def sy safe_value_def)
qed

lemma demo_open_order_parsed:
  "\<exists>od. parse_order demo_reg None (Some demo_open_order) = Inr od"
proof -
  have m: "safe_market demo_reg (safe_string (Some demo_open_order) ''symbol'' None) None None = demo_market"
    by (simp add: demo_open_order_def json_eval demo_market_lookup)
  have c: "string_div (Some ''5'') (Some ''0'') = Inr None"
    by (simp add: string_div_def demo_parse_pieces)
  have a: "order_average demo_market (Some ''0'') (Some ''5'') = Inr None"
    by (simp add: order_average_def string_gt_def demo_parse_pieces precise_gt_def precise_sub_def
        precise_add_def precise_neg_def)
  have d: "safe_string (Some demo_open_order) ''dealSize'' None = Some ''0''"
    "safe_string2 (Some demo_open_order) ''dealFunds'' ''filledValue'' None = Some ''5''"
    "safe_string (Some demo_open_order) ''leverage'' None = Some ''0''"
    by (simp_all add: demo_open_order_def json_eval safe_string2_def)
  show ?thesis unfolding parse_order_def Let_def m d a c by simp
qed

lemma fetch_open_orders_drops_active:
  "fetch_open_orders demo_reg (\<lambda>m ps. Inr (Some (JObj [(''code'', JStr ''200000''),
       (''data'', JObj [(''items'', JArr [demo_open_order])])]))) None None None [] = Inr []"
  by (simp add: fetch_open_orders_def fetch_orders_by_status_def Let_def kept_orders_def json_eval js_truthy_def
      safe_integer2_def safe_value2_def)

theorem parse_order_status_witness:
  "\<exists>od. parse_order demo_reg None (Some demo_open_order) = Inr od \<and> ord_status od = Some Open"
proof -
  obtain od where e: "parse_order demo_reg None (Some demo_open_order) = Inr od"
    using demo_open_order_parsed by blast
  show ?thesis using parse_order_status [OF e] e by (simp add: demo_open_order_def json_eval js_truthy_def)
qed

theorem parse_order_cost_witness:
  "\<exists>od c. parse_order demo_reg None (Some demo_order) = Inr od \<and> ord_cost od = Some c \<and> str_val c = Some 100"
proof -
  have v: "str_val ''100.00000000'' = Some 100" "str_val ''1'' = Some 1"
    by (simp_all add: str_val_def precise_eval pval_def)
  have "safe_string2 (Some demo_order) ''dealFunds'' ''filledValue'' None = Some ''100.00000000''"
       "safe_string (Some demo_order) ''leverage'' None = Some ''1''"
    by (simp_all add: demo_order_def json_eval safe_string2_def)
  from parse_order_cost [OF demo_order_parsed this(1) v(1) this(2) v(2)] show ?thesis
    using demo_order_parsed by simp
qed

theorem parse_order_cost_zero_leverage_witness:
  "\<exists>od. parse_order demo_reg None (Some demo_open_order) = Inr od \<and> ord_cost od = None"
proof -
  obtain od where e: "parse_order demo_reg None (Some demo_open_order) = Inr od"
    using demo_open_order_parsed by blast
  have "safe_string (Some demo_open_order) ''leverage'' None = Some ''0''"
    by (simp add: demo_open_order_def json_eval)
  from parse_order_cost_zero_leverage [OF e this str_val_zero] e show ?thesis by blast
qed

theorem parse_order_average_linear_witness:
  "\<exists>od a. parse_order demo_reg None (Some demo_order) = Inr od \<and> ord_average od = Some a \<and> str_val a = Some 10"
proof -
  have v: "str_val ''100.00000000'' = Some 100" "str_val ''1.0'' = Some 1" "str_val ''10'' = Some 10"
    by (simp_all add: str_val_def precise_eval pval_def)
  have mk: "demo_market = safe_market demo_reg (safe_string (Some demo_order) ''symbol'' None) None None"
    by (simp add: demo_order_def json_eval demo_market_lookup)
  have l: "js_if (linear demo_market)" "contractSize demo_market = Some ''1.0''"
    by (simp_all add: demo_market_def default_market_def)
  have f: "safe_string (Some demo_order) ''dealSize'' None = Some ''10''"
       "safe_string2 (Some demo_order) ''dealFunds'' ''filledValue'' None = Some ''100.00000000''"
    by (simp_all add: demo_order_def json_eval safe_string2_def)
  have "(100::rat) / (1 * 10) * 10 ^ 18 = of_int (10 * 10 ^ 18)" by simp
  from parse_order_average_linear [OF demo_order_parsed mk l v(2) _ f(1) v(3) _ f(2) v(1)] this
  show ?thesis using demo_order_parsed by simp
qed

theorem parse_order_no_fill_witness:
  "\<exists>od. parse_order demo_reg None (Some demo_open_order) = Inr od \<and> ord_average od = None"
proof -
  obtain od where e: "parse_order demo_reg None (Some demo_open_order) = Inr od"
    using demo_open_order_parsed by blast
  have "\<forall>f. safe_string (Some demo_open_order) ''dealSize'' None = Some f \<longrightarrow> (\<exists>x. str_val f = Some x \<and> x \<le> 0)"
    by (simp add: demo_open_order_def json_eval)
  from parse_order_no_fill [OF e this] e show ?thesis by blast
qed

theorem fetch_closed_orders_filter_witness:
  "\<exists>q. fetch_closed_orders demo_reg (\<lambda>m ps. Inr (Some demo_done_response)) None None None [] =
     bindR ((\<lambda>m ps. Inr (Some demo_done_response)) ''privateGetOrders'' q) (\<lambda>response.
       parse_orders demo_reg (filter (\<lambda>x. \<not> js_truthy (js_prop (Some x) ''cancelExist''))
         (js_items (safe_value (safe_value response ''data'' (Some (JObj []))) ''items'' (Some (JArr [])))))
         None None None)
   \<and> fetch_closed_orders demo_reg (\<lambda>m ps. Inr (Some demo_done_response)) None None None []
       = parse_orders demo_reg [demo_order] None None None"
proof -
  have s: "\<not> js_truthy (safe_value (Some (JObj [])) ''stop'' None)" by (simp add: json_eval js_truthy_def)
  have "filter (\<lambda>x. \<not> js_truthy (js_prop (Some x) ''cancelExist''))
          (js_items (safe_value (safe_value (Some demo_done_response) ''data'' (Some (JObj []))) ''items'' (Some (JArr []))))
        = [demo_order]"
    by (simp add: demo_done_response_def demo_canceled_order_def demo_order_def json_eval js_items_def js_truthy_def)
  with fetch_closed_orders_filter [OF s, of demo_reg "\<lambda>m ps. Inr (Some demo_done_response)" None None]
  show ?thesis by auto
qed

theorem fetch_orders_stop_rejected_witness:
  "fetch_orders_by_status demo_reg (\<lambda>m ps. Inr None) ''closed'' None None None [(''stop'', JBool True)] =
     throw BadRequest (exchange_id @ '' fetchOrdersByStatus() can only fetch untriggered stop orders'')"
  using fetch_orders_stop_rejected [of "[(''stop'', JBool True)]" "''closed''" demo_reg "\<lambda>m ps. Inr None" None None None]
  by (simp add: json_eval js_truthy_def)

theorem fetch_order_requires_id_witness:
  "fetch_order demo_reg (\<lambda>m ps. Inr None) None None [] =
     throw InvalidOrder (exchange_id @ '' fetchOrder() requires parameter id or params.clientOid'')"
  using fetch_order_requires_id [of "[]" demo_reg "\<lambda>m ps. Inr None" None]
  by (simp add: safe_string2_def json_eval)

theorem cancel_order_already_cancelled_witness:
  "cancel_order (\<lambda>m ps. Inr (Some (demo_cancel_response []))) ''619714b8b6353000014c505a'' [] =
     throw InvalidOrder (exchange_id @ '' cancelOrder() order already cancelled'')"
  using cancel_order_already_cancelled [of "\<lambda>m ps. Inr (Some (demo_cancel_response []))"]
  by (simp add: demo_cancel_response_def json_eval)

theorem cancel_order_first_id_witness:
  "cancel_order (\<lambda>m ps. Inr (Some (demo_cancel_response [JStr ''619714b8b6353000014c505a'']))) ''619714b8b6353000014c505a'' []
     = Inr (order_skeleton (Some ''619714b8b6353000014c505a'')
              (Some (demo_cancel_response [JStr ''619714b8b6353000014c505a''])))"
  using cancel_order_first_id [of "\<lambda>m ps. Inr (Some (demo_cancel_response [JStr ''619714b8b6353000014c505a'']))"]
  by (simp add: demo_cancel_response_def json_eval)

theorem cancel_order_no_ids_witness:
  "\<exists>m. cancel_order (\<lambda>m ps. Inr (Some (JObj [(''code'', JStr ''200000''), (''data'', JObj [])]))) ''abc'' []
     = Inl (TypeError, m)"
  using cancel_order_no_ids [of "\<lambda>m ps. Inr (Some (JObj [(''code'', JStr ''200000''), (''data'', JObj [])]))"]
  by (simp add: json_eval)

theorem cancel_all_orders_ids_witness:
  "\<exists>os. cancel_all_orders demo_reg (\<lambda>m ps. Inr (Some (demo_cancel_response [JStr ''a'', JStr ''b'']))) None []
     = Inr os \<and> map ord_id os = [Some ''a'', Some ''b'']"
proof -
  obtain os where c: "cancel_all_orders demo_reg (\<lambda>m ps. Inr (Some (demo_cancel_response [JStr ''a'', JStr ''b'']))) None [] = Inr os"
    and l: "length os = length [JStr ''a'', JStr ''b'']"
    and k: "\<forall>k < length [JStr ''a'', JStr ''b'']. os ! k = order_skeleton (safe_string_idx (Some (JArr [JStr ''a'', JStr ''b''])) k)
                        (Some (demo_cancel_response [JStr ''a'', JStr ''b'']))"
    using cancel_all_orders_ids [of "\<lambda>m ps. Inr (Some (demo_cancel_response [JStr ''a'', JStr ''b'']))" "[]"
        "Some (demo_cancel_response [JStr ''a'', JStr ''b''])" "[JStr ''a'', JStr ''b'']" demo_reg]
    by (auto simp: demo_cancel_response_def json_eval js_truthy_def)
  from l obtain a b where os: "os = [a, b]" by (auto simp: length_Suc_conv)
  have "map ord_id os = [Some ''a'', Some ''b'']"
    using k unfolding os by (auto simp: order_skeleton_def safe_string_idx_def js_prop_idx_def get_index_def present_def)
  with c show ?thesis by (intro exI [of _ os] conjI)
qed

section \<open>Operations through the transport\<close>

text \<open>An operation composed with \<open>api_call\<close>: dispatch through the endpoint table, \<open>sign\<close>,
  the HTTP exchange and \<open>handleErrors\<close>.\<close>

text \<open>C9: fetchOrder without an id but with a clientOid dispatches privateGetOrdersByClientOid, which the endpoint table does not define, so the call raises a TypeError whatever the exchange would answer.\<close>

theorem fetch_order_by_client_oid_fails:
  assumes "safe_string2 (Some (JObj params)) ''clientOid'' ''clientOrderId'' None = Some c"
  shows "fetch_order reg (api_call ex http) None smb params = throw TypeError ''this[method] is not a function''"
  using assms by (simp add: fetch_order_def api_call_unknown endpoint_by_client_oid)

theorem fetch_order_by_client_oid_fails_witness:
  "fetch_order demo_reg (api_call demo_exchange (\<lambda>r. (None, None))) None None [(''clientOid'', JStr ''my-order-1'')]
     = throw TypeError ''this[method] is not a function''"
  using fetch_order_by_client_oid_fails [of "[(''clientOid'', JStr ''my-order-1'')]" "''my-order-1''" demo_reg
      demo_exchange "\<lambda>r. (None, None)" None]
  by (simp add: safe_string2_def json_eval)


text \<open>Without all three credentials cancelOrder raises AuthenticationError before any request is sent.\<close>

theorem cancel_order_missing_credentials:
  assumes "\<not> (cred_ok (apiKey ex) \<and> cred_ok (secret ex) \<and> cred_ok (password ex))"
  shows "\<exists>m. cancel_order (api_call ex http) oid params = Inl (AuthenticationError, m)"
proof -
  have pr: "''private'' \<noteq> ''public''" by simp
  obtain m where "sign ex ''orders/{order-id}'' ''private'' ''DELETE''
                    (Exchange_Base.extend [(''order-id'', JStr oid)] params) None None = Inl (AuthenticationError, m)"
    using sign_private_Inl [OF pr assms] by blast
  then show ?thesis using api_call_unsigned [OF endpoint_delete_order] by (simp add: cancel_order_def)
qed

theorem cancel_order_missing_credentials_witness:
  "\<exists>m. cancel_order (api_call (pf_exchange (Some ''key'') None (Some ''pass'') 0 demo_hmac) (\<lambda>r. (None, None))) ''abc'' []
     = Inl (AuthenticationError, m)"
  using cancel_order_missing_credentials [of "pf_exchange (Some ''key'') None (Some ''pass'') 0 demo_hmac"]
  by (simp add: pf_exchange_def cred_ok_def)



section \<open>Market data and account\<close>

lemma demo_market_lookup_dash: "safe_market demo_reg (Some ''XBTUSDTPERP'') None (Some CHR ''-'') = demo_market"
  by (simp add: demo_reg_def load_markets_def index_by_def safe_market_def demo_market_def default_market_def)

lemma demo_market_of: "market_of demo_reg ''BTC/USDT:USDT'' = Inr demo_market"
  by (simp add: market_of_def demo_reg_def load_markets_def index_by_def demo_market_def default_market_def)

lemma demo_market_fields:
  "symbol demo_market = ''BTC/USDT:USDT''" "market_id demo_market = Some ''XBTUSDTPERP''"
  "base demo_market = Some ''BTC''" "quote demo_market = Some ''USDT''"
  by (simp_all add: demo_market_def default_market_def)






theorem fetch_order_book_level_rejected_witness:
  "safe_number (Some (JObj [(''level'', JNum ''1'')])) ''level'' = Some ''1''
   \<and> str_val ''1'' \<notin> {Some 2, Some 3}
   \<and> fetch_order_book demo_reg demo_book_call ''BTC/USDT:USDT'' None [(''level'', JNum ''1'')] =
       throw BadRequest (exchange_id @ '' fetchOrderBook() can only return level 2 & 3'')"
proof -
  have l: "safe_number (Some (JObj [(''level'', JNum ''1'')])) ''level'' = Some ''1''" by (simp add: json_eval)
  have v: "str_val ''1'' \<notin> {Some 2, Some 3}" by (simp add: str_val_def precise_eval pval_def)
  show ?thesis using fetch_order_book_level_rejected [OF l v] l v by simp
qed

lemma demo_book_parsed: "\<exists>ob. fetch_order_book demo_reg demo_book_call ''BTC/USDT:USDT'' None [] = Inr ob"
  by (simp add: fetch_order_book_def Let_def demo_market_of demo_book_call_def json_eval)

theorem fetch_order_book_shape_witness:
  "\<exists>ob. fetch_order_book demo_reg demo_book_call ''BTC/USDT:USDT'' None [] = Inr ob
     \<and> ob_symbol ob = ''BTC/USDT:USDT''
     \<and> mset (ob_bids ob) = mset [(Some ''100'', Some ''2''), (Some ''101'', Some ''1'')]
     \<and> mset (ob_asks ob) = mset [(Some ''103'', Some ''1''), (Some ''102'', Some ''4'')]
     \<and> sorted (map bid_key (ob_bids ob)) \<and> sorted (map ask_key (ob_asks ob)) \<and> ob_nonce ob = Some 7"
proof -
  obtain ob where ob: "fetch_order_book demo_reg demo_book_call ''BTC/USDT:USDT'' None [] = Inr ob"
    using demo_book_parsed by blast
  have n: "safe_integer (Some (JObj [(''sequence'', JNum ''7''),
     (''bids'', JArr [JArr [JStr ''100'', JStr ''2''], JArr [JStr ''101'', JStr ''1'']]),
     (''asks'', JArr [JArr [JStr ''103'', JStr ''1''], JArr [JStr ''102'', JStr ''4'']])])) ''sequence'' = Some 7"
    by (simp add: safe_integer_def js_prop_def present_def get_key_def num_of_json_def precise_eval pval_def)
  show ?thesis using fetch_order_book_shape [OF ob] ob n
    by (auto simp: demo_market_of demo_market_fields demo_book_call_def json_eval js_to_array_def
        parse_bid_ask_def safe_string_idx_def js_prop_idx_def get_index_def)
qed

lemma demo_trade_fields:
  "safe_string (Some demo_trade) ''fee'' None = Some ''0.0006''"
  "safe_string (Some demo_trade) ''feeCurrency'' None = None"
  "safe_string (Some demo_trade) ''side'' None = Some ''sell''"
  "safe_string (Some demo_trade) ''feeRate'' None = Some ''0.0006''"
  "safe_market demo_reg (safe_string (Some demo_trade) ''symbol'' None) None (Some CHR ''-'') = demo_market"
  by (simp_all add: demo_trade_def json_eval demo_market_lookup_dash)

theorem parse_trade_fee_default_witness:
  "safe_string (Some demo_trade) ''fee'' None = Some ''0.0006''
   \<and> safe_string (Some demo_trade) ''feeCurrency'' None = None
   \<and> demo_market = safe_market demo_reg (safe_string (Some demo_trade) ''symbol'' None) None (Some CHR ''-'')
   \<and> tr_fee (parse_trade demo_reg None (Some demo_trade)) =
       Some \<lparr>fee_cost = ''0.0006'', fee_currency = Some ''USDT'', fee_rate = Some ''0.0006''\<rparr>"
  using parse_trade_fee_default [OF demo_trade_fields(1,2) demo_trade_fields(5) [symmetric]]
    demo_trade_fields by (simp add: demo_market_fields)

lemma demo_position_fields:
  "safe_string (Some demo_position) ''currentQty'' None = Some ''-3''"
  "safe_string (Some demo_position) ''posCost'' None = Some ''-30''"
  "safe_string (Some demo_position) ''posInit'' None = Some ''3''"
  "safe_string (Some demo_position) ''unrealisedPnl'' None = Some ''0.6''"
  by (simp_all add: demo_position_def json_eval)

lemma demo_position_values:
  "str_val ''-3'' = Some (-3)" "str_val ''-30'' = Some (-30)" "str_val ''3'' = Some 3"
  "str_val ''0.6'' = Some (3 / 5)"
  by (simp_all add: str_val_def precise_eval pval_def power_int_minus)

lemma demo_position_parsed: "\<exists>ps. parse_position demo_reg None (Some demo_position) = Inr ps"
  by (rule parse_position_defined) (simp_all add: demo_position_fields demo_position_values)

theorem parse_position_side_witness:
  "\<exists>ps. parse_position demo_reg None (Some demo_position) = Inr ps
     \<and> safe_string (Some demo_position) ''currentQty'' None = Some ''-3'' \<and> str_val ''-3'' = Some (-3)
     \<and> pos_side ps = Some ''short''"
proof -
  obtain ps where ps: "parse_position demo_reg None (Some demo_position) = Inr ps" using demo_position_parsed by blast
  show ?thesis using parse_position_side [OF ps demo_position_fields(1) demo_position_values(1)] ps
      demo_position_fields demo_position_values by auto
qed

theorem parse_position_margins_witness:
  "\<exists>ps. parse_position demo_reg None (Some demo_position) = Inr ps
     \<and> safe_string (Some demo_position) ''posCost'' None = Some ''-30'' \<and> str_val ''-30'' = Some (-30)
     \<and> (-30::rat) \<noteq> 0
     \<and> safe_string (Some demo_position) ''posInit'' None = Some ''3'' \<and> str_val ''3'' = Some 3
     \<and> (\<exists>n r. pos_notional ps = Some n \<and> str_val n = Some 30
          \<and> pos_initial_margin_percentage ps = Some r \<and> str_val r = Some (1 / 10))"
proof -
  obtain ps where ps: "parse_position demo_reg None (Some demo_position) = Inr ps" using demo_position_parsed by blast
  have "(-30::rat) \<noteq> 0" by simp
  note m = parse_position_margins [OF ps demo_position_fields(2) demo_position_values(2) this
      demo_position_fields(3) demo_position_values(3)]
  have e: "rtrunc (3 / \<bar>-30\<bar> * 10 ^ 18 :: rat) = 10 ^ 17" by (simp add: rtrunc_def)
  show ?thesis using m ps demo_position_fields demo_position_values by (auto simp: e)
qed

theorem parse_position_percentage_witness:
  "\<exists>ps. parse_position demo_reg None (Some demo_position) = Inr ps
     \<and> safe_string (Some demo_position) ''unrealisedPnl'' None = Some ''0.6'' \<and> str_val ''0.6'' = Some (3 / 5)
     \<and> safe_string (Some demo_position) ''posInit'' None = Some ''3'' \<and> str_val ''3'' = Some 3 \<and> (3::rat) \<noteq> 0
     \<and> (\<exists>r. pos_percentage ps = Some r \<and> str_val r = Some (1 / 5))"
proof -
  obtain ps where ps: "parse_position demo_reg None (Some demo_position) = Inr ps" using demo_position_parsed by blast
  have "(3::rat) \<noteq> 0" by simp
  note m = parse_position_percentage [OF ps demo_position_fields(4) demo_position_values(4)
      demo_position_fields(3) demo_position_values(3) this]
  have e: "rtrunc (3 / 5 / 3 * 10 ^ 18 :: rat) = 2 * 10 ^ 17" by (simp add: rtrunc_def)
  show ?thesis using m ps demo_position_fields demo_position_values by (auto simp: e)
qed


theorem fetch_positions_total_witness:
  "demo_positions_call ''privateGetPositions'' [] = Inr (Some (JObj [(''data'', JArr [demo_position])]))
   \<and> (\<exists>ps. fetch_positions demo_reg demo_positions_call (Some [''BTC/USDT:USDT'']) [] = Inr ps)"
proof -
  have c: "demo_positions_call ''privateGetPositions'' [] = Inr (Some (JObj [(''data'', JArr [demo_position])]))"
    by (simp add: demo_positions_call_def)
  have d: "\<forall>x \<in> set (js_to_array (safe_value (Some (JObj [(''data'', JArr [demo_position])])) ''data'' None)).
           is_decimal (safe_string (Some x) ''currentQty'' None) \<and> is_decimal (safe_string (Some x) ''posCost'' None)
           \<and> is_decimal (safe_string (Some x) ''posInit'' None) \<and> is_decimal (safe_string (Some x) ''unrealisedPnl'' None)"
    by (simp add: safe_value_def js_prop_def present_def get_key_def js_to_array_def demo_position_fields
        demo_position_values)
  have k: "\<forall>ss. Some [''BTC/USDT:USDT''] = Some ss \<longrightarrow>
           (\<forall>s \<in> set ss. markets demo_reg s \<noteq> None \<or> markets_by_id demo_reg s \<noteq> None)"
    by (simp add: demo_reg_def load_markets_def index_by_def demo_market_fields)
  show ?thesis using fetch_positions_total [where call = demo_positions_call and params = "[]"
      and resp = "Some (JObj [(''data'', JArr [demo_position])])" and reg = demo_reg
      and symbols = "Some [''BTC/USDT:USDT'']", OF c d k] c by blast
qed

theorem fetch_funding_history_entries_witness:
  "\<exists>fs. fetch_funding_history demo_reg demo_funding_call (Some ''BTC/USDT:USDT'') None None [] = Inr fs
     \<and> length fs = 1 \<and> fe_symbol (fs ! 0) = ''BTC/USDT:USDT'' \<and> fe_amount (fs ! 0) = Some ''-0.0014''"
proof -
  obtain fs where f: "fetch_funding_history demo_reg demo_funding_call (Some ''BTC/USDT:USDT'') None None [] = Inr fs"
    by (simp add: fetch_funding_history_def demo_market_of demo_funding_call_def Let_def json_eval js_length_def)
  show ?thesis using fetch_funding_history_entries [OF f] f
    by (auto simp: demo_market_of demo_funding_call_def json_eval)
qed

theorem set_margin_mode_rejects_witness:
  "JStr ''1'' \<notin> {JNum ''0'', JNum ''1''}
   \<and> set_margin_mode demo_reg demo_positions_call (JStr ''1'') (Some ''BTC/USDT:USDT'') [] =
       throw ArgumentsRequired (exchange_id @ '' setMarginMode() marginMode must be 0 (isolated) or 1 (cross)'')"
proof -
  have h: "JStr ''1'' \<notin> {JNum ''0'', JNum ''1''}" by simp
  show ?thesis using set_margin_mode_rejects [OF h] h by simp
qed

section \<open>Placing orders\<close>

lemma demo_env_3: "amount_to_precision demo_env ''BTC/USDT:USDT'' 3 = Inr ''3''"
  by (simp add: demo_env_def int_str_def sgn_prefix_def nat_digits.simps digit_char_def)

lemma demo_no_stop: "\<not> js_truthy (safe_value2 (Some (JObj [])) ''triggerPrice'' ''stopPrice'' None)"
  by (simp add: safe_value2_def json_eval js_truthy_def)

theorem create_order_min_amount_witness:
  "market_of demo_reg ''BTC/USDT:USDT'' = Inr demo_market \<and> (1 / 2 :: rat) < 1
   \<and> create_order demo_reg demo_env demo_create_call ''BTC/USDT:USDT'' ''market'' ''buy'' (1 / 2) None [] =
       throw InvalidOrder (exchange_id @ '' createOrder() minimum contract order amount is 1'')"
  using create_order_min_amount [OF demo_market_of, of "1 / 2"] demo_market_of by simp

theorem create_order_limit_requires_price_witness:
  "market_of demo_reg ''BTC/USDT:USDT'' = Inr demo_market \<and> \<not> (3 :: rat) < 1
   \<and> amount_to_precision demo_env ''BTC/USDT:USDT'' 3 = Inr ''3''
   \<and> \<not> js_truthy (safe_value2 (Some (JObj [])) ''triggerPrice'' ''stopPrice'' None)
   \<and> create_order demo_reg demo_env demo_create_call ''BTC/USDT:USDT'' ''limit'' ''buy'' 3 None [] =
       throw ArgumentsRequired (exchange_id @ '' createOrder() requires a price argument for limit orders'')"
proof -
  have n: "\<not> (3 :: rat) < 1" by simp
  show ?thesis using create_order_limit_requires_price [OF demo_market_of n demo_env_3 demo_no_stop]
      demo_market_of n demo_env_3 demo_no_stop by simp
qed


lemma demo_stop_created:
  "\<exists>od. create_order demo_reg demo_env demo_create_call ''BTC/USDT:USDT'' ''market'' ''sell'' 3 None demo_stop_params = Inr od"
  by (simp add: create_order_def demo_market_of demo_env_3 Let_def stop_fields_def limit_fields_def demo_stop_params_def
      safe_value2_def safe_string2_def json_eval js_truthy_def omit_def demo_create_call_def demo_env_def)

theorem create_order_stop_direction_witness:
  "\<exists>od. create_order demo_reg demo_env demo_create_call ''BTC/USDT:USDT'' ''market'' ''sell'' 3 None demo_stop_params = Inr od
     \<and> js_truthy (safe_value2 (Some (JObj demo_stop_params)) ''triggerPrice'' ''stopPrice'' None)
     \<and> ''stop'' \<notin> fst ` set demo_stop_params
     \<and> (\<exists>req resp. demo_create_call ''privatePostOrders'' req = Inr resp \<and> map_of req ''stop'' = Some (JStr ''down''))"
proof -
  obtain od where o: "create_order demo_reg demo_env demo_create_call ''BTC/USDT:USDT'' ''market'' ''sell'' 3 None
      demo_stop_params = Inr od" using demo_stop_created by blast
  have t: "js_truthy (safe_value2 (Some (JObj demo_stop_params)) ''triggerPrice'' ''stopPrice'' None)"
    by (simp add: demo_stop_params_def safe_value2_def json_eval js_truthy_def)
  have k: "''stop'' \<notin> fst ` set demo_stop_params" by (simp add: demo_stop_params_def)
  show ?thesis using create_order_stop_direction [OF o t k] o t k by auto
qed

theorem create_order_size_witness:
  "\<exists>od. create_order demo_reg demo_env demo_create_call ''BTC/USDT:USDT'' ''market'' ''sell'' 3 None demo_stop_params = Inr od
     \<and> amount_to_precision demo_env ''BTC/USDT:USDT'' 3 = Inr (int_str 3)
     \<and> ''size'' \<notin> fst ` set demo_stop_params
     \<and> (\<exists>req resp. demo_create_call ''privatePostOrders'' req = Inr resp \<and> map_of req ''size'' = Some (JNum (int_str 3)))"
proof -
  obtain od where o: "create_order demo_reg demo_env demo_create_call ''BTC/USDT:USDT'' ''market'' ''sell'' 3 None
      demo_stop_params = Inr od" using demo_stop_created by blast
  have a: "amount_to_precision demo_env ''BTC/USDT:USDT'' 3 = Inr (int_str 3)" by (simp add: demo_env_def)
  have k: "''size'' \<notin> fst ` set demo_stop_params" by (simp add: demo_stop_params_def)
  show ?thesis using create_order_size [OF o a k] o a k by blast
qed


section \<open>Candles\<close>

lemma demo_1h:
  "map_of timeframes ''1h'' = Some 60" "parse_timeframe ''1h'' = Inr (Some 3600)"
  by (simp_all add: timeframes_def parse_timeframe_def timeframe_unit_def js_parse_int_def Let_def digit_of_def)


theorem fetch_ohlcv_window_witness:
  "market_of demo_reg ''BTC/USDT:USDT'' = Inr demo_market \<and> map_of timeframes ''1h'' = Some 60
   \<and> parse_timeframe ''1h'' = Inr (Some 3600)
   \<and> fetch_ohlcv demo_reg demo_kline_call 0 ''BTC/USDT:USDT'' ''1h'' (Some 1636459200000) (Some 3) [] =
       bindR (demo_kline_call ''publicGetKlineQuery''
                [(''symbol'', JStr ''XBTUSDTPERP''), (''granularity'', JNum ''60''),
                 (''from'', JNum (int_str 1636459200000)), (''to'', JNum (int_str 1636470000000))])
         (\<lambda>response. Inr (parse_ohlcvs (js_to_array (safe_value response ''data'' (Some (JArr []))))
                             (Some 1636459200000) (Some 3)))"
  using fetch_ohlcv_window [OF demo_market_of demo_1h, of demo_kline_call 0 1636459200000 "Some 3" "[]"]
    demo_market_of demo_1h
  by (simp add: market_id_json_def demo_market_fields Exchange_Base.extend_def nat_digits.simps digit_char_def)

theorem fetch_ohlcv_last_witness:
  "market_of demo_reg ''BTC/USDT:USDT'' = Inr demo_market \<and> map_of timeframes ''1h'' = Some 60
   \<and> parse_timeframe ''1h'' = Inr (Some 3600)
   \<and> fetch_ohlcv demo_reg demo_kline_call 1636470000000 ''BTC/USDT:USDT'' ''1h'' None (Some 3) [] =
       bindR (demo_kline_call ''publicGetKlineQuery''
                [(''symbol'', JStr ''XBTUSDTPERP''), (''granularity'', JNum ''60''),
                 (''from'', JNum (int_str 1636459200000))])
         (\<lambda>response. Inr (parse_ohlcvs (js_to_array (safe_value response ''data'' (Some (JArr []))))
                             (Some 1636459200000) (Some 3)))"
  using fetch_ohlcv_last [OF demo_market_of demo_1h, of demo_kline_call 1636470000000 3 "[]"]
    demo_market_of demo_1h
  by (simp add: market_id_json_def demo_market_fields Exchange_Base.extend_def nat_digits.simps digit_char_def)



end
